theory Spec2Isabelle
  imports Main
begin

section \<open>Data model\<close>

text \<open>
  The repository holds four versions of the kiosk script: the two halves of
  \<^verbatim>\<open>script.js\<close> (the iframe-or-redirect version, suffix 1 below, and the iframe-only
  version, suffix 2) and the two adaptive-polling versions (suffix 3, the one that pauses
  while hidden and keeps the iframe warm; suffix 4, the re-optimised one).

  The three display states of the specification. The scripts have no such variable; it
  is read off the page by \<open>display_state\<close> below.
\<close>

datatype DisplayState = Idle | ActiveLoading | ActiveLoaded

text \<open>The JSON record served by the status endpoint; an absent or null field is \<open>None\<close>.\<close>

record StatusRecord =
  active :: bool
  itemId :: "string option"
  formUrl :: "string option"

text \<open>
  What one \<^verbatim>\<open>fetch\<close> can end in: the promise rejects (transport failure), or a response
  arrives with a status code and a body that either fails to parse or parses to a record
  or to \<^verbatim>\<open>null\<close>.
\<close>

datatype body = Malformed | Parsed "StatusRecord option"

datatype fetch_outcome = NetworkFailure | Http nat body

datatype exn = FetchRejected | HttpError nat | JsonSyntaxError

text \<open>The elements looked up in \<^verbatim>\<open>els\<close>; \<open>hidden\<close> on the page tells which of them carry the class.\<close>

datatype el = idle_el | active_el | loading_el | frame_el | redirectMode_el | badge_el

text \<open>
  The badge texts, one constructor per kind of message (the argument is the interpolated
  item id; the wording around it differs slightly between the scripts).
\<close>

datatype badge =
    Badge_Idle
  | Badge_Idle_no_formUrl string
  | Badge_Idle_fetch_error
  | Badge_Active_loading string
  | Badge_Active_iframe "string option"
  | Badge_Active_redirect
  | Badge_Active "string option"
  | Badge_Idle_waiting_for_form string
  | Badge_Idle_waiting_for_Monday
  | Badge_Triggered "string option"
  | Badge_Connection_error

text \<open>The \<^verbatim>\<open>onload\<close> closure of the frame captures the item id of the call that installed it.\<close>

datatype handler = NoHandler | OnLoad "string option"

text \<open>
  The page: element visibility, badge text, the frame's \<^verbatim>\<open>src\<close> attribute and
  \<^verbatim>\<open>onload\<close> property, the link target and \<^verbatim>\<open>window.location\<close> (\<open>None\<close> while the
  kiosk page is still the loaded document). \<open>src_log\<close> records every assignment to
  \<^verbatim>\<open>els.frame.src\<close>, oldest first.
\<close>

record page =
  hidden :: "el \<Rightarrow> bool"
  badge_text :: "badge option"
  frame_src :: "string option"
  frame_onload :: handler
  openFormLink_href :: "string option"
  location_href :: "string option"
  src_log :: "string list"

text \<open>
  Scheduled callbacks. A timeout carries the time it is due, an interval its period.
\<close>

datatype callback = PollCb | IdleCb | GraceCb string

datatype timer = Timeout callback nat | Interval callback nat

fun callback_of :: "timer \<Rightarrow> callback" where
  "callback_of (Timeout cb t) = cb"
| "callback_of (Interval cb p) = cb"

text \<open>
  The browser side of a script: the page, the live timers by handle, the next handle
  (handles are positive and never reused), the clock in milliseconds and the number of
  status requests awaiting their response.
\<close>

record env =
  page :: page
  timers :: "nat \<rightharpoonup> timer"
  next_id :: nat
  now :: nat
  inflight :: nat

text \<open>The \<^verbatim>\<open>state\<close> object of the iframe-only script, on top of the browser side.\<close>

record world2 = env +
  lastItemId :: "string option"
  lastFormUrl :: "string option"
  activeTimer :: "nat option"

text \<open>The first script adds the grace timer and the redirect flag.\<close>

record world1 = world2 +
  activeSince :: "nat option"
  iframeLoadTimer :: "nat option"
  redirecting :: bool

text \<open>The adaptive-polling scripts add the poll timer, its current period and \<^verbatim>\<open>isActive\<close>.\<close>

record world3 = world2 +
  pollTimer :: "nat option"
  currentPollMs :: nat
  isActive :: bool

datatype event =
    Response fetch_outcome
  | TimerFire nat
  | FrameLoad
  | Visibility bool
  | Advance nat

section \<open>Configuration\<close>

definition POLL_INTERVAL_MS :: nat where "POLL_INTERVAL_MS = 1000"
definition ACTIVE_TIMEOUT_MS :: nat where "ACTIVE_TIMEOUT_MS = 120000"
definition IFRAME_LOAD_GRACE_MS :: nat where "IFRAME_LOAD_GRACE_MS = 2500"
definition SHOW_DEBUG_BADGE :: bool where "SHOW_DEBUG_BADGE = True"
definition IDLE_POLL_MS3 :: nat where "IDLE_POLL_MS3 = 3000"
definition IDLE_POLL_MS4 :: nat where "IDLE_POLL_MS4 = 1000"
definition ACTIVE_POLL_MS :: nat where "ACTIVE_POLL_MS = 500"

section \<open>Browser primitives\<close>

text \<open>Scheduling a timer hands out the next handle.\<close>

definition arm :: "timer \<Rightarrow> 'a env_scheme \<Rightarrow> 'a env_scheme" where
  "arm t w = w\<lparr>timers := (timers w)(next_id w \<mapsto> t), next_id := Suc (next_id w)\<rparr>"

definition setTimeout :: "callback \<Rightarrow> nat \<Rightarrow> 'a env_scheme \<Rightarrow> nat \<times> 'a env_scheme" where
  "setTimeout cb ms w = (next_id w, arm (Timeout cb (now w + ms)) w)"

definition setInterval :: "callback \<Rightarrow> nat \<Rightarrow> 'a env_scheme \<Rightarrow> nat \<times> 'a env_scheme" where
  "setInterval cb ms w = (next_id w, arm (Interval cb ms) w)"

text \<open>\<^verbatim>\<open>clearTimeout\<close> and \<^verbatim>\<open>clearInterval\<close> share one handle space.\<close>

definition clearTimer :: "nat \<Rightarrow> 'a env_scheme \<Rightarrow> 'a env_scheme" where
  "clearTimer i w = w\<lparr>timers := (timers w)(i := None)\<rparr>"

text \<open>\<^verbatim>\<open>if (h) clearTimeout(h)\<close>: a handle is a positive number, so it is truthy when set.\<close>

definition clearIfSet :: "nat option \<Rightarrow> 'a env_scheme \<Rightarrow> 'a env_scheme" where
  "clearIfSet h w = (case h of None \<Rightarrow> w | Some i \<Rightarrow> clearTimer i w)"

definition show_el :: "el \<Rightarrow> 'a env_scheme \<Rightarrow> 'a env_scheme" where
  "show_el e w = w\<lparr>page := (page w)\<lparr>hidden := (hidden (page w))(e := False)\<rparr>\<rparr>"

definition hide_el :: "el \<Rightarrow> 'a env_scheme \<Rightarrow> 'a env_scheme" where
  "hide_el e w = w\<lparr>page := (page w)\<lparr>hidden := (hidden (page w))(e := True)\<rparr>\<rparr>"

definition setBadge :: "badge \<Rightarrow> 'a env_scheme \<Rightarrow> 'a env_scheme" where
  "setBadge msg w =
     (if \<not> SHOW_DEBUG_BADGE then w
      else show_el badge_el (w\<lparr>page := (page w)\<lparr>badge_text := Some msg\<rparr>\<rparr>))"

definition set_src :: "string \<Rightarrow> 'a env_scheme \<Rightarrow> 'a env_scheme" where
  "set_src url w =
     w\<lparr>page := (page w)\<lparr>frame_src := Some url, src_log := src_log (page w) @ [url]\<rparr>\<rparr>"

definition remove_src :: "'a env_scheme \<Rightarrow> 'a env_scheme" where
  "remove_src w = w\<lparr>page := (page w)\<lparr>frame_src := None\<rparr>\<rparr>"

definition set_onload :: "handler \<Rightarrow> 'a env_scheme \<Rightarrow> 'a env_scheme" where
  "set_onload h w = w\<lparr>page := (page w)\<lparr>frame_onload := h\<rparr>\<rparr>"

text \<open>
  Reading \<^verbatim>\<open>els.frame.src\<close> gives the attribute resolved to an absolute URL, or the
  empty string without the attribute. The resolution is the browser's; it is the
  parameter \<open>resolveUrl\<close> of the two scripts that read the property.
\<close>

definition get_src :: "(string \<Rightarrow> string) \<Rightarrow> 'a env_scheme \<Rightarrow> string" where
  "get_src resolveUrl w =
     (case frame_src (page w) of None \<Rightarrow> [] | Some u \<Rightarrow> resolveUrl u)"

text \<open>Calling the poll function sends the request; its body resumes at the response.\<close>

definition send_request :: "'a env_scheme \<Rightarrow> 'a env_scheme" where
  "send_request w = w\<lparr>inflight := Suc (inflight w)\<rparr>"

text \<open>A response settles one of the requests in flight.\<close>

definition response_arrives :: "'a env_scheme \<Rightarrow> 'a env_scheme" where
  "response_arrives w = w\<lparr>inflight := inflight w - 1\<rparr>"

text \<open>
  A timer may run its callback when it is live and, for a timeout, due; a timeout is
  gone once it has run.
\<close>

definition ready :: "nat \<Rightarrow> 'a env_scheme \<Rightarrow> callback option" where
  "ready i w =
     (case timers w i of
        None \<Rightarrow> None
      | Some (Timeout cb t) \<Rightarrow> if t \<le> now w then Some cb else None
      | Some (Interval cb p) \<Rightarrow> Some cb)"

definition expire :: "nat \<Rightarrow> 'a env_scheme \<Rightarrow> 'a env_scheme" where
  "expire i w =
     (case timers w i of
        Some (Timeout cb t) \<Rightarrow> clearTimer i w
      | _ \<Rightarrow> w)"

definition advance :: "nat \<Rightarrow> 'a env_scheme \<Rightarrow> 'a env_scheme" where
  "advance d w = w\<lparr>now := now w + d\<rparr>"

text \<open>\<^verbatim>\<open>res.ok\<close> holds for the status codes 200 to 299.\<close>

definition ok :: "nat \<Rightarrow> bool" where
  "ok status = (200 \<le> status \<and> status \<le> 299)"

fun fetchActive :: "fetch_outcome \<Rightarrow> exn + StatusRecord option" where
  "fetchActive NetworkFailure = Inl FetchRejected"
| "fetchActive (Http status b) =
     (if \<not> ok status then Inl (HttpError status)
      else case b of Malformed \<Rightarrow> Inl JsonSyntaxError | Parsed data \<Rightarrow> Inr data)"

text \<open>\<^verbatim>\<open>data.itemId || "unknown"\<close>: null and the empty string are both falsy.\<close>

definition or_unknown :: "string option \<Rightarrow> string" where
  "or_unknown v = (case v of None \<Rightarrow> ''unknown'' | Some s \<Rightarrow> if s = [] then ''unknown'' else s)"

section \<open>What the specification observes\<close>

definition display_state :: "'a env_scheme \<Rightarrow> DisplayState" where
  "display_state w =
     (if \<not> hidden (page w) idle_el then Idle
      else if \<not> hidden (page w) loading_el then ActiveLoading
      else ActiveLoaded)"

definition session_empty :: "'a world2_scheme \<Rightarrow> bool" where
  "session_empty w = (lastItemId w = None \<and> lastFormUrl w = None)"

section \<open>The iframe-only script (second half of script.js)\<close>

definition resetActiveTimer :: "'a world2_scheme \<Rightarrow> 'a world2_scheme" where
  "resetActiveTimer w =
     (let w = clearIfSet (activeTimer w) w;
          (t, w) = setTimeout IdleCb ACTIVE_TIMEOUT_MS w
      in w\<lparr>activeTimer := Some t\<rparr>)"

definition showIdle2 :: "world2 \<Rightarrow> world2" where
  "showIdle2 w =
     (let w = clearIfSet (activeTimer w) w;
          w = w\<lparr>activeTimer := None\<rparr>;
          w = w\<lparr>lastItemId := None, lastFormUrl := None\<rparr>;
          w = remove_src w;
          w = hide_el frame_el w;
          w = hide_el loading_el w;
          w = show_el idle_el w;
          w = hide_el active_el w
      in setBadge Badge_Idle w)"

definition showActive2 :: "string \<Rightarrow> string \<Rightarrow> world2 \<Rightarrow> world2" where
  "showActive2 url item w =
     (if lastItemId w = Some item \<and> lastFormUrl w = Some url then resetActiveTimer w
      else
        let w = w\<lparr>lastItemId := Some item, lastFormUrl := Some url\<rparr>;
            w = hide_el idle_el w;
            w = show_el active_el w;
            w = show_el loading_el w;
            w = set_onload (OnLoad (Some item)) w;
            w = set_src url w;
            w = show_el frame_el w;
            w = resetActiveTimer w
        in setBadge (Badge_Active_loading item) w)"

text \<open>The body of the \<^verbatim>\<open>try\<close> block: \<open>Inl\<close> is a thrown exception.\<close>

definition pollOnce2_try :: "fetch_outcome \<Rightarrow> world2 \<Rightarrow> exn + world2" where
  "pollOnce2_try fo w =
     (case fetchActive fo of
        Inl err \<Rightarrow> Inl err
      | Inr data \<Rightarrow>
          (case data of
             None \<Rightarrow> Inr (showIdle2 w)
           | Some r \<Rightarrow>
               if \<not> active r then Inr (showIdle2 w)
               else
                 let item = or_unknown (itemId r);
                     no_url = setBadge (Badge_Idle_no_formUrl item) (showIdle2 w)
                 in (case formUrl r of
                       None \<Rightarrow> Inr no_url
                     | Some url \<Rightarrow>
                         if url = [] then Inr no_url else Inr (showActive2 url item w))))"

definition pollOnce2 :: "fetch_outcome \<Rightarrow> world2 \<Rightarrow> exn + world2" where
  "pollOnce2 fo w =
     (case pollOnce2_try fo w of
        Inl err \<Rightarrow> Inr (setBadge Badge_Idle_fetch_error (showIdle2 w))
      | Inr w' \<Rightarrow> Inr w')"

definition onload2 :: "world2 \<Rightarrow> world2" where
  "onload2 w =
     (case frame_onload (page w) of
        NoHandler \<Rightarrow> w
      | OnLoad item \<Rightarrow> setBadge (Badge_Active item) (hide_el loading_el w))"

fun run_callback2 :: "callback \<Rightarrow> world2 \<Rightarrow> world2" where
  "run_callback2 PollCb w = send_request w"
| "run_callback2 IdleCb w = showIdle2 w"
| "run_callback2 (GraceCb u) w = w"

text \<open>
  One turn of the event loop. A response is delivered only to a request in flight; the
  script has no visibility listener.
\<close>

fun step2 :: "event \<Rightarrow> world2 \<Rightarrow> world2" where
  "step2 (Response fo) w =
     (if inflight w = 0 then w
      else case pollOnce2 fo (response_arrives w) of
             Inl err \<Rightarrow> response_arrives w
           | Inr w' \<Rightarrow> w')"
| "step2 (TimerFire i) w =
     (case ready i w of None \<Rightarrow> w | Some cb \<Rightarrow> run_callback2 cb (expire i w))"
| "step2 FrameLoad w = onload2 w"
| "step2 (Visibility h) w = w"
| "step2 (Advance d) w = advance d w"

definition initial2 :: "page \<Rightarrow> world2" where
  "initial2 p =
     \<lparr>page = p, timers = Map.empty, next_id = 1, now = 0, inflight = 0,
      lastItemId = None, lastFormUrl = None, activeTimer = None\<rparr>"

definition startup2 :: "page \<Rightarrow> world2" where
  "startup2 p =
     (let w = showIdle2 (initial2 p);
          (t, w) = setInterval PollCb POLL_INTERVAL_MS w
      in send_request w)"

inductive reachable2 :: "world2 \<Rightarrow> bool" where
  start2: "location_href p = None \<Longrightarrow> reachable2 (startup2 p)"
| next2: "reachable2 w \<Longrightarrow> reachable2 (step2 e w)"

section \<open>The iframe-or-redirect script (first half of script.js)\<close>

definition showIdle1 :: "world1 \<Rightarrow> world1" where
  "showIdle1 w =
     (let w = clearIfSet (activeTimer w) w;
          w = clearIfSet (iframeLoadTimer w) w;
          w = w\<lparr>activeTimer := None, iframeLoadTimer := None\<rparr>;
          w = w\<lparr>lastItemId := None, lastFormUrl := None, activeSince := None,
                redirecting := False\<rparr>;
          w = remove_src w;
          w = hide_el frame_el w;
          w = hide_el redirectMode_el w;
          w = hide_el loading_el w;
          w = show_el idle_el w;
          w = hide_el active_el w
      in if SHOW_DEBUG_BADGE then setBadge Badge_Idle w else w)"

definition showActive1 :: "string \<Rightarrow> string \<Rightarrow> world1 \<Rightarrow> world1" where
  "showActive1 url item w =
     (if lastItemId w = Some item \<and> lastFormUrl w = Some url then w
      else
        let w = w\<lparr>lastItemId := Some item, lastFormUrl := Some url,
                  activeSince := Some (now w), redirecting := False\<rparr>;
            w = hide_el idle_el w;
            w = show_el active_el w;
            w = show_el loading_el w;
            w = hide_el redirectMode_el w;
            w = set_src url w;
            w = show_el frame_el w;
            w = clearIfSet (iframeLoadTimer w) w;
            (t, w) = setTimeout (GraceCb url) IFRAME_LOAD_GRACE_MS w;
            w = w\<lparr>iframeLoadTimer := Some t\<rparr>;
            w = set_onload (OnLoad (Some item)) w;
            w = clearIfSet (activeTimer w) w;
            (t, w) = setTimeout IdleCb ACTIVE_TIMEOUT_MS w;
            w = w\<lparr>activeTimer := Some t\<rparr>
        in if SHOW_DEBUG_BADGE then setBadge (Badge_Active_loading item) w else w)"

definition switchToRedirect :: "string \<Rightarrow> world1 \<Rightarrow> world1" where
  "switchToRedirect url w =
     (let w = w\<lparr>redirecting := True\<rparr>;
          w = hide_el frame_el w;
          w = hide_el loading_el w;
          w = show_el redirectMode_el w;
          w = w\<lparr>page := (page w)\<lparr>openFormLink_href := Some url\<rparr>\<rparr>;
          w = (if SHOW_DEBUG_BADGE then setBadge Badge_Active_redirect w else w)
      in w\<lparr>page := (page w)\<lparr>location_href := Some url\<rparr>\<rparr>)"

definition pollLoop1_try :: "fetch_outcome \<Rightarrow> world1 \<Rightarrow> exn + world1" where
  "pollLoop1_try fo w =
     (case fetchActive fo of
        Inl err \<Rightarrow> Inl err
      | Inr data \<Rightarrow>
          (case data of
             None \<Rightarrow> Inr (showIdle1 w)
           | Some r \<Rightarrow>
               if \<not> active r then Inr (showIdle1 w)
               else
                 let item = or_unknown (itemId r);
                     no_url = (let w = showIdle1 w
                               in if SHOW_DEBUG_BADGE
                                  then setBadge (Badge_Idle_no_formUrl item) w else w)
                 in (case formUrl r of
                       None \<Rightarrow> Inr no_url
                     | Some url \<Rightarrow>
                         if url = [] then Inr no_url else Inr (showActive1 url item w))))"

definition pollLoop1 :: "fetch_outcome \<Rightarrow> world1 \<Rightarrow> exn + world1" where
  "pollLoop1 fo w =
     (case pollLoop1_try fo w of
        Inl err \<Rightarrow>
          (let w = showIdle1 w
           in Inr (if SHOW_DEBUG_BADGE then setBadge Badge_Idle_fetch_error w else w))
      | Inr w' \<Rightarrow> Inr w')"

definition onload1 :: "world1 \<Rightarrow> world1" where
  "onload1 w =
     (case frame_onload (page w) of
        NoHandler \<Rightarrow> w
      | OnLoad item \<Rightarrow>
          (let w = hide_el loading_el w;
               w = (if SHOW_DEBUG_BADGE
                    then setBadge (Badge_Active_iframe item) w else w)
           in (case iframeLoadTimer w of
                 None \<Rightarrow> w
               | Some t \<Rightarrow> (clearTimer t w)\<lparr>iframeLoadTimer := None\<rparr>)))"

fun run_callback1 :: "callback \<Rightarrow> world1 \<Rightarrow> world1" where
  "run_callback1 PollCb w = send_request w"
| "run_callback1 IdleCb w = showIdle1 w"
| "run_callback1 (GraceCb url) w = (if \<not> redirecting w then switchToRedirect url w else w)"

text \<open>
  Once \<^verbatim>\<open>window.location.href\<close> has been assigned the browser unloads the kiosk page
  with its timers and listeners: nothing of the script runs any more.
\<close>

fun step1 :: "event \<Rightarrow> world1 \<Rightarrow> world1" where
  "step1 e w =
     (if location_href (page w) \<noteq> None then w
      else case e of
        Response fo \<Rightarrow>
          (if inflight w = 0 then w
           else case pollLoop1 fo (response_arrives w) of
                  Inl err \<Rightarrow> response_arrives w
                | Inr w' \<Rightarrow> w')
      | TimerFire i \<Rightarrow>
          (case ready i w of None \<Rightarrow> w | Some cb \<Rightarrow> run_callback1 cb (expire i w))
      | FrameLoad \<Rightarrow> onload1 w
      | Visibility h \<Rightarrow> w
      | Advance d \<Rightarrow> advance d w)"

definition initial1 :: "page \<Rightarrow> world1" where
  "initial1 p =
     \<lparr>page = p, timers = Map.empty, next_id = 1, now = 0, inflight = 0,
      lastItemId = None, lastFormUrl = None, activeTimer = None,
      activeSince = None, iframeLoadTimer = None, redirecting = False\<rparr>"

definition startup1 :: "page \<Rightarrow> world1" where
  "startup1 p =
     (let w = showIdle1 (initial1 p);
          (t, w) = setInterval PollCb POLL_INTERVAL_MS w
      in send_request w)"

inductive reachable1 :: "world1 \<Rightarrow> bool" where
  start1: "location_href p = None \<Longrightarrow> reachable1 (startup1 p)"
| next1: "reachable1 w \<Longrightarrow> reachable1 (step1 e w)"

section \<open>The adaptive-polling scripts\<close>

text \<open>\<^verbatim>\<open>startPolling\<close> and \<^verbatim>\<open>stopPolling\<close> are the same in both.\<close>

definition startPolling :: "nat \<Rightarrow> world3 \<Rightarrow> world3" where
  "startPolling interval w =
     (let w = clearIfSet (pollTimer w) w;
          w = w\<lparr>currentPollMs := interval\<rparr>;
          (t, w) = setInterval PollCb interval w
      in w\<lparr>pollTimer := Some t\<rparr>)"

definition stopPolling :: "world3 \<Rightarrow> world3" where
  "stopPolling w = (let w = clearIfSet (pollTimer w) w in w\<lparr>pollTimer := None\<rparr>)"

subsection \<open>The version that keeps the iframe warm and pauses while hidden\<close>

definition showIdle3 :: "world3 \<Rightarrow> world3" where
  "showIdle3 w =
     (if \<not> isActive w \<and> \<not> hidden (page w) idle_el then w
      else
        let w = w\<lparr>isActive := False\<rparr>;
            w = w\<lparr>lastItemId := None, lastFormUrl := None\<rparr>;
            w = clearIfSet (activeTimer w) w;
            w = w\<lparr>activeTimer := None\<rparr>;
            w = hide_el frame_el w;
            w = hide_el loading_el w;
            w = show_el idle_el w;
            w = hide_el active_el w;
            w = setBadge Badge_Idle w
        in startPolling IDLE_POLL_MS3 w)"

definition showActive3 :: "(string \<Rightarrow> string) \<Rightarrow> string \<Rightarrow> string \<Rightarrow> world3 \<Rightarrow> world3" where
  "showActive3 resolveUrl url item w =
     (if isActive w \<and> lastItemId w = Some item \<and> lastFormUrl w = Some url
      then resetActiveTimer w
      else
        let w = w\<lparr>isActive := True\<rparr>;
            w = w\<lparr>lastItemId := Some item, lastFormUrl := Some url\<rparr>;
            w = hide_el idle_el w;
            w = show_el active_el w;
            w = show_el loading_el w;
            w = set_onload (OnLoad (Some item)) w;
            w = (if get_src resolveUrl w \<noteq> url then set_src url w else w);
            w = show_el frame_el w;
            w = resetActiveTimer w;
            w = startPolling ACTIVE_POLL_MS w
        in setBadge (Badge_Active_loading item) w)"

definition pollOnce3_try :: "(string \<Rightarrow> string) \<Rightarrow> fetch_outcome \<Rightarrow> world3 \<Rightarrow> exn + world3" where
  "pollOnce3_try resolveUrl fo w =
     (case fetchActive fo of
        Inl err \<Rightarrow> Inl err
      | Inr data \<Rightarrow>
          (case data of
             None \<Rightarrow> Inr (showIdle3 w)
           | Some r \<Rightarrow>
               if \<not> active r then Inr (showIdle3 w)
               else
                 let item = or_unknown (itemId r);
                     no_url = setBadge (Badge_Idle_waiting_for_form item) (showIdle3 w)
                 in (case formUrl r of
                       None \<Rightarrow> Inr no_url
                     | Some url \<Rightarrow>
                         if url = [] then Inr no_url
                         else Inr (showActive3 resolveUrl url item w))))"

definition pollOnce3 :: "(string \<Rightarrow> string) \<Rightarrow> fetch_outcome \<Rightarrow> world3 \<Rightarrow> exn + world3" where
  "pollOnce3 resolveUrl fo w =
     (case pollOnce3_try resolveUrl fo w of
        Inl err \<Rightarrow> Inr (setBadge Badge_Idle_fetch_error (showIdle3 w))
      | Inr w' \<Rightarrow> Inr w')"

text \<open>The \<^verbatim>\<open>onload\<close> closure and the visibility listener are the same in both versions.\<close>

definition onload3 :: "world3 \<Rightarrow> world3" where
  "onload3 w =
     (case frame_onload (page w) of
        NoHandler \<Rightarrow> w
      | OnLoad item \<Rightarrow> setBadge (Badge_Active item) (hide_el loading_el w))"

definition onVisibilityChange :: "nat \<Rightarrow> bool \<Rightarrow> world3 \<Rightarrow> world3" where
  "onVisibilityChange idle_ms h w =
     (if h then stopPolling w
      else startPolling (if isActive w then ACTIVE_POLL_MS else idle_ms) w)"

fun run_callback3 :: "callback \<Rightarrow> world3 \<Rightarrow> world3" where
  "run_callback3 PollCb w = send_request w"
| "run_callback3 IdleCb w = showIdle3 w"
| "run_callback3 (GraceCb u) w = w"

fun step3 :: "(string \<Rightarrow> string) \<Rightarrow> event \<Rightarrow> world3 \<Rightarrow> world3" where
  "step3 resolveUrl (Response fo) w =
     (if inflight w = 0 then w
      else case pollOnce3 resolveUrl fo (response_arrives w) of
             Inl err \<Rightarrow> response_arrives w
           | Inr w' \<Rightarrow> w')"
| "step3 resolveUrl (TimerFire i) w =
     (case ready i w of None \<Rightarrow> w | Some cb \<Rightarrow> run_callback3 cb (expire i w))"
| "step3 resolveUrl FrameLoad w = onload3 w"
| "step3 resolveUrl (Visibility h) w = onVisibilityChange IDLE_POLL_MS3 h w"
| "step3 resolveUrl (Advance d) w = advance d w"

definition initial3 :: "page \<Rightarrow> world3" where
  "initial3 p =
     \<lparr>page = p, timers = Map.empty, next_id = 1, now = 0, inflight = 0,
      lastItemId = None, lastFormUrl = None, activeTimer = None,
      pollTimer = None, currentPollMs = IDLE_POLL_MS3, isActive = False\<rparr>"

definition startup3 :: "page \<Rightarrow> world3" where
  "startup3 p =
     (let w = showIdle3 (initial3 p);
          w = startPolling IDLE_POLL_MS3 w
      in send_request w)"

inductive reachable3 :: "(string \<Rightarrow> string) \<Rightarrow> world3 \<Rightarrow> bool" where
  start3: "location_href p = None \<Longrightarrow> reachable3 resolveUrl (startup3 p)"
| next3: "reachable3 resolveUrl w \<Longrightarrow> reachable3 resolveUrl (step3 resolveUrl e w)"

subsection \<open>The re-optimised version\<close>

definition showIdle4 :: "world3 \<Rightarrow> world3" where
  "showIdle4 w =
     (let w = (if isActive w then
                 let w = w\<lparr>isActive := False\<rparr>;
                     w = w\<lparr>lastItemId := None, lastFormUrl := None\<rparr>;
                     w = clearIfSet (activeTimer w) w;
                     w = hide_el frame_el w;
                     w = hide_el loading_el w;
                     w = show_el idle_el w;
                     w = hide_el active_el w
                 in startPolling IDLE_POLL_MS4 w
               else w)
      in setBadge Badge_Idle_waiting_for_Monday w)"

text \<open>
  The two branches of \<^verbatim>\<open>if (formUrl)\<close> in \<^verbatim>\<open>showActive\<close>: a non-empty string
  takes the first, null and the empty string the second.
\<close>

definition withUrl4 :: "(string \<Rightarrow> string) \<Rightarrow> string \<Rightarrow> string option \<Rightarrow> world3 \<Rightarrow> world3" where
  "withUrl4 resolveUrl url item w =
     (if lastFormUrl w \<noteq> Some url then
        let w = w\<lparr>lastFormUrl := Some url\<rparr>;
            w = w\<lparr>lastItemId := item\<rparr>;
            w = hide_el idle_el w;
            w = show_el active_el w;
            w = show_el loading_el w;
            w = set_onload (OnLoad item) w;
            w = (if get_src resolveUrl w \<noteq> url then set_src url w else w)
        in show_el frame_el w
      else w)"

definition withoutUrl4 :: "string option \<Rightarrow> world3 \<Rightarrow> world3" where
  "withoutUrl4 item w =
     (let w = hide_el idle_el w;
          w = show_el active_el w;
          w = show_el loading_el w
      in setBadge (Badge_Triggered item) w)"

definition showActive4 :: "(string \<Rightarrow> string) \<Rightarrow> string option \<Rightarrow> string option \<Rightarrow> world3 \<Rightarrow> world3" where
  "showActive4 resolveUrl furl item w =
     (let w = w\<lparr>isActive := True\<rparr>;
          w = (case furl of
                 None \<Rightarrow> withoutUrl4 item w
               | Some url \<Rightarrow>
                   if url = [] then withoutUrl4 item w else withUrl4 resolveUrl url item w);
          w = resetActiveTimer w
      in if currentPollMs w \<noteq> ACTIVE_POLL_MS then startPolling ACTIVE_POLL_MS w else w)"

definition pollOnce4_try :: "(string \<Rightarrow> string) \<Rightarrow> fetch_outcome \<Rightarrow> world3 \<Rightarrow> exn + world3" where
  "pollOnce4_try resolveUrl fo w =
     (case fetchActive fo of
        Inl err \<Rightarrow> Inl err
      | Inr data \<Rightarrow>
          (case data of
             None \<Rightarrow> Inr (showIdle4 w)
           | Some r \<Rightarrow>
               if active r then Inr (showActive4 resolveUrl (formUrl r) (itemId r) w)
               else Inr (showIdle4 w)))"

definition pollOnce4 :: "(string \<Rightarrow> string) \<Rightarrow> fetch_outcome \<Rightarrow> world3 \<Rightarrow> exn + world3" where
  "pollOnce4 resolveUrl fo w =
     (case pollOnce4_try resolveUrl fo w of
        Inl err \<Rightarrow> Inr (setBadge Badge_Connection_error w)
      | Inr w' \<Rightarrow> Inr w')"

fun run_callback4 :: "callback \<Rightarrow> world3 \<Rightarrow> world3" where
  "run_callback4 PollCb w = send_request w"
| "run_callback4 IdleCb w = showIdle4 w"
| "run_callback4 (GraceCb u) w = w"

fun step4 :: "(string \<Rightarrow> string) \<Rightarrow> event \<Rightarrow> world3 \<Rightarrow> world3" where
  "step4 resolveUrl (Response fo) w =
     (if inflight w = 0 then w
      else case pollOnce4 resolveUrl fo (response_arrives w) of
             Inl err \<Rightarrow> response_arrives w
           | Inr w' \<Rightarrow> w')"
| "step4 resolveUrl (TimerFire i) w =
     (case ready i w of None \<Rightarrow> w | Some cb \<Rightarrow> run_callback4 cb (expire i w))"
| "step4 resolveUrl FrameLoad w = onload3 w"
| "step4 resolveUrl (Visibility h) w = onVisibilityChange IDLE_POLL_MS4 h w"
| "step4 resolveUrl (Advance d) w = advance d w"

definition initial4 :: "page \<Rightarrow> world3" where
  "initial4 p =
     \<lparr>page = p, timers = Map.empty, next_id = 1, now = 0, inflight = 0,
      lastItemId = None, lastFormUrl = None, activeTimer = None,
      pollTimer = None, currentPollMs = IDLE_POLL_MS4, isActive = False\<rparr>"

definition startup4 :: "page \<Rightarrow> world3" where
  "startup4 p =
     (let w = (initial4 p)\<lparr>isActive := True\<rparr>;
          w = showIdle4 w
      in send_request w)"

inductive reachable4 :: "(string \<Rightarrow> string) \<Rightarrow> world3 \<Rightarrow> bool" where
  start4: "location_href p = None \<Longrightarrow> reachable4 resolveUrl (startup4 p)"
| next4: "reachable4 resolveUrl w \<Longrightarrow> reachable4 resolveUrl (step4 resolveUrl e w)"

section \<open>Timer roles, outcome classes and invariants\<close>

datatype role = Polling | Inactivity | Grace

fun role_of_callback :: "callback \<Rightarrow> role" where
  "role_of_callback PollCb = Polling"
| "role_of_callback IdleCb = Inactivity"
| "role_of_callback (GraceCb u) = Grace"

fun role_of :: "timer \<Rightarrow> role" where
  "role_of (Timeout cb t) = role_of_callback cb"
| "role_of (Interval cb p) = role_of_callback cb"

fun is_timeout :: "timer \<Rightarrow> bool" where
  "is_timeout (Timeout cb t) = True"
| "is_timeout (Interval cb p) = False"

fun due_of :: "timer \<Rightarrow> nat" where
  "due_of (Timeout cb t) = t"
| "due_of (Interval cb p) = p"

text \<open>
  The two verdicts of a poll that the specification sends to Idle: \<^verbatim>\<open>fetchActive\<close>
  throws (transport failure, non-success status, unparsable body), or it returns no
  record or a record that is not active.
\<close>

definition fetch_fails :: "fetch_outcome \<Rightarrow> bool" where
  "fetch_fails fo = isl (fetchActive fo)"

definition reports_inactive :: "fetch_outcome \<Rightarrow> bool" where
  "reports_inactive fo =
     (case fetchActive fo of Inl err \<Rightarrow> False | Inr None \<Rightarrow> True | Inr (Some r) \<Rightarrow> \<not> active r)"

text \<open>
  Handles are fresh, and a live inactivity timeout is the one \<^verbatim>\<open>state.activeTimer\<close>
  names.
\<close>

definition timers_ok :: "'a world2_scheme \<Rightarrow> bool" where
  "timers_ok w \<longleftrightarrow>
     (\<forall>i. next_id w \<le> i \<longrightarrow> timers w i = None) \<and>
     (\<forall>i. activeTimer w = Some i \<longrightarrow> i < next_id w) \<and>
     (\<forall>i t. timers w i = Some t \<longrightarrow> role_of t = Inactivity \<longrightarrow>
        activeTimer w = Some i \<and> is_timeout t)"

text \<open>The idle screen is up exactly when no session is recorded (first three scripts).\<close>

definition session_ok :: "'a world2_scheme \<Rightarrow> bool" where
  "session_ok w \<longleftrightarrow>
     (hidden (page w) idle_el \<longleftrightarrow> lastFormUrl w \<noteq> None) \<and>
     (lastItemId w = None \<longleftrightarrow> lastFormUrl w = None) \<and>
     lastFormUrl w \<noteq> Some [] \<and>
     (lastFormUrl w = None \<longrightarrow> activeTimer w = None)"

text \<open>The two halves of script.js start one interval at startup (handle 1) and never touch it.\<close>

definition fixed_poll :: "'a world2_scheme \<Rightarrow> bool" where
  "fixed_poll w \<longleftrightarrow>
     timers w 1 = Some (Interval PollCb POLL_INTERVAL_MS) \<and>
     (\<forall>i t. timers w i = Some t \<longrightarrow> role_of t = Polling \<longrightarrow> i = 1) \<and>
     activeTimer w \<noteq> Some 1"

definition no_grace :: "'a env_scheme \<Rightarrow> bool" where
  "no_grace w \<longleftrightarrow> (\<forall>i t. timers w i = Some t \<longrightarrow> role_of t \<noteq> Grace)"

definition inv2 :: "world2 \<Rightarrow> bool" where
  "inv2 w \<longleftrightarrow> timers_ok w \<and> session_ok w \<and> fixed_poll w \<and> no_grace w \<and>
     location_href (page w) = None"

text \<open>
  First script: a live grace timeout is the one \<^verbatim>\<open>state.iframeLoadTimer\<close> names and
  carries the URL of the session; the redirect flag is raised only by the redirect itself.
\<close>

definition grace_ok :: "world1 \<Rightarrow> bool" where
  "grace_ok w \<longleftrightarrow>
     (\<forall>i t. timers w i = Some t \<longrightarrow> role_of t = Grace \<longrightarrow>
        iframeLoadTimer w = Some i \<and> is_timeout t \<and>
        map_option GraceCb (lastFormUrl w) = Some (callback_of t)) \<and>
     (\<forall>i. iframeLoadTimer w = Some i \<longrightarrow> i < next_id w) \<and>
     iframeLoadTimer w \<noteq> Some 1 \<and>
     (lastFormUrl w = None \<longrightarrow> iframeLoadTimer w = None) \<and>
     (location_href (page w) = None \<longrightarrow> \<not> redirecting w)"

definition inv1 :: "world1 \<Rightarrow> bool" where
  "inv1 w \<longleftrightarrow> timers_ok w \<and> session_ok w \<and> fixed_poll w \<and> grace_ok w"

text \<open>
  Adaptive-polling scripts: a live poll interval is the one \<^verbatim>\<open>state.pollTimer\<close> names,
  it runs at \<^verbatim>\<open>state.currentPollMs\<close>, and that is the cadence of the current mode.
\<close>

definition poll_ok :: "nat \<Rightarrow> world3 \<Rightarrow> bool" where
  "poll_ok idle_ms w \<longleftrightarrow>
     (\<forall>i t. timers w i = Some t \<longrightarrow> role_of t = Polling \<longrightarrow>
        pollTimer w = Some i \<and> t = Interval PollCb (currentPollMs w)) \<and>
     (\<forall>i. pollTimer w = Some i \<longrightarrow> i < next_id w) \<and>
     currentPollMs w = (if isActive w then ACTIVE_POLL_MS else idle_ms)"

definition inv3 :: "world3 \<Rightarrow> bool" where
  "inv3 w \<longleftrightarrow> timers_ok w \<and> session_ok w \<and> poll_ok IDLE_POLL_MS3 w \<and> no_grace w \<and>
     (isActive w \<longleftrightarrow> lastFormUrl w \<noteq> None) \<and> location_href (page w) = None"

text \<open>
  Re-optimised script: the idle screen is up exactly when \<^verbatim>\<open>isActive\<close> is false, and
  then no session is recorded.
\<close>

definition session_ok4 :: "world3 \<Rightarrow> bool" where
  "session_ok4 w \<longleftrightarrow>
     (hidden (page w) idle_el \<longleftrightarrow> isActive w) \<and>
     (\<not> isActive w \<longrightarrow> lastItemId w = None \<and> lastFormUrl w = None) \<and>
     lastFormUrl w \<noteq> Some []"

definition inv4 :: "world3 \<Rightarrow> bool" where
  "inv4 w \<longleftrightarrow> timers_ok w \<and> session_ok4 w \<and> poll_ok IDLE_POLL_MS4 w \<and> no_grace w \<and>
     location_href (page w) = None"

section \<open>Runs and sample inputs\<close>

text \<open>A run of the event loop from a given state, oldest event first.\<close>

fun run1 :: "event list \<Rightarrow> world1 \<Rightarrow> world1" where
  "run1 [] w = w"
| "run1 (e # es) w = run1 es (step1 e w)"

fun run2 :: "event list \<Rightarrow> world2 \<Rightarrow> world2" where
  "run2 [] w = w"
| "run2 (e # es) w = run2 es (step2 e w)"

fun run3 :: "(string \<Rightarrow> string) \<Rightarrow> event list \<Rightarrow> world3 \<Rightarrow> world3" where
  "run3 resolveUrl [] w = w"
| "run3 resolveUrl (e # es) w = run3 resolveUrl es (step3 resolveUrl e w)"

fun run4 :: "(string \<Rightarrow> string) \<Rightarrow> event list \<Rightarrow> world3 \<Rightarrow> world3" where
  "run4 resolveUrl [] w = w"
| "run4 resolveUrl (e # es) w = run4 resolveUrl es (step4 resolveUrl e w)"

fun is_response :: "event \<Rightarrow> bool" where
  "is_response (Response fo) = True"
| "is_response e = False"

text \<open>
  A page as the HTML would deliver it (idle screen up, everything else hidden), and the
  records of the specification's scenario.
\<close>

definition page0 :: page where
  "page0 = \<lparr>hidden = (\<lambda>e. e \<noteq> idle_el), badge_text = None, frame_src = None,
             frame_onload = NoHandler, openFormLink_href = None, location_href = None,
             src_log = []\<rparr>"

definition record42 :: StatusRecord where
  "record42 = \<lparr>active = True, itemId = Some ''42'', formUrl = Some ''https://x/f''\<rparr>"

definition record43 :: StatusRecord where
  "record43 = \<lparr>active = True, itemId = Some ''43'', formUrl = Some ''https://x/g''\<rparr>"

definition record_no_url :: StatusRecord where
  "record_no_url = \<lparr>active = True, itemId = Some ''42'', formUrl = None\<rparr>"

definition record_off :: StatusRecord where
  "record_off = \<lparr>active = False, itemId = None, formUrl = None\<rparr>"

definition serves :: "StatusRecord \<Rightarrow> event" where
  "serves r = Response (Http 200 (Parsed (Some r)))"

fun no_response :: "event list \<Rightarrow> bool" where
  "no_response [] = True"
| "no_response (e # es) = (\<not> is_response e \<and> no_response es)"

text \<open>
  The poll returns an active record whose form URL is the non-empty string \<open>url\<close> and
  whose item id field is \<open>item\<close>.
\<close>

definition offers :: "fetch_outcome \<Rightarrow> string \<Rightarrow> string option \<Rightarrow> bool" where
  "offers fo url item =
     (case fetchActive fo of
        Inl err \<Rightarrow> False
      | Inr None \<Rightarrow> False
      | Inr (Some r) \<Rightarrow> active r \<and> formUrl r = Some url \<and> url \<noteq> [] \<and> itemId r = item)"

text \<open>
  Sample states: the first interval tick has sent a second request, then the first
  response has put the form of item 42 on display; one request is still in flight.
\<close>

definition busy1 :: world1 where
  "busy1 = run1 [TimerFire 1, serves record42] (startup1 page0)"

definition busy2 :: world2 where
  "busy2 = run2 [TimerFire 1, serves record42] (startup2 page0)"

definition busy3 :: world3 where
  "busy3 = run3 id [TimerFire 1, serves record42] (startup3 page0)"

definition busy4 :: world3 where
  "busy4 = run4 id [TimerFire 1, serves record42] (startup4 page0)"

text \<open>
  Sample state of the warm-iframe script: after \<open>busy3\<close> the source has reported
  inactive, so the idle screen is up again while the hidden frame still holds the form.
\<close>

definition warm3 :: world3 where
  "warm3 = run3 id [TimerFire 3, serves record_off] busy3"

section \<open>Effect of the primitives on each component\<close>

text \<open>The timers left after \<^verbatim>\<open>if (h) clearTimeout(h)\<close>.\<close>

definition cleared :: "nat option \<Rightarrow> (nat \<rightharpoonup> timer) \<Rightarrow> (nat \<rightharpoonup> timer)" where
  "cleared h tm = (\<lambda>j. if h = Some j then None else tm j)"

lemma cleared_apply [simp]: "cleared h tm j = (if h = Some j then None else tm j)"
  by (simp add: cleared_def)

lemma cleared_None [simp]: "cleared None tm = tm"
  by (simp add: cleared_def)

lemma prim_env [simp]:
  "page (arm t w) = page w"
  "timers (arm t w) = (timers w)(next_id w \<mapsto> t)"
  "next_id (arm t w) = Suc (next_id w)"
  "now (arm t w) = now w"
  "inflight (arm t w) = inflight w"
  "page (clearTimer i w) = page w"
  "timers (clearTimer i w) = (timers w)(i := None)"
  "next_id (clearTimer i w) = next_id w"
  "now (clearTimer i w) = now w"
  "inflight (clearTimer i w) = inflight w"
  "page (clearIfSet h w) = page w"
  "timers (clearIfSet h w) = cleared h (timers w)"
  "next_id (clearIfSet h w) = next_id w"
  "now (clearIfSet h w) = now w"
  "inflight (clearIfSet h w) = inflight w"
  "page (show_el e w) = (page w)\<lparr>hidden := (hidden (page w))(e := False)\<rparr>"
  "timers (show_el e w) = timers w"
  "next_id (show_el e w) = next_id w"
  "now (show_el e w) = now w"
  "inflight (show_el e w) = inflight w"
  "page (hide_el e w) = (page w)\<lparr>hidden := (hidden (page w))(e := True)\<rparr>"
  "timers (hide_el e w) = timers w"
  "next_id (hide_el e w) = next_id w"
  "now (hide_el e w) = now w"
  "inflight (hide_el e w) = inflight w"
  "page (setBadge b w) = (page w)\<lparr>hidden := (hidden (page w))(badge_el := False), badge_text := Some b\<rparr>"
  "timers (setBadge b w) = timers w"
  "next_id (setBadge b w) = next_id w"
  "now (setBadge b w) = now w"
  "inflight (setBadge b w) = inflight w"
  "page (set_src url w) = (page w)\<lparr>frame_src := Some url, src_log := src_log (page w) @ [url]\<rparr>"
  "timers (set_src url w) = timers w"
  "next_id (set_src url w) = next_id w"
  "now (set_src url w) = now w"
  "inflight (set_src url w) = inflight w"
  "page (remove_src w) = (page w)\<lparr>frame_src := None\<rparr>"
  "timers (remove_src w) = timers w"
  "next_id (remove_src w) = next_id w"
  "now (remove_src w) = now w"
  "inflight (remove_src w) = inflight w"
  "page (set_onload ol w) = (page w)\<lparr>frame_onload := ol\<rparr>"
  "timers (set_onload ol w) = timers w"
  "next_id (set_onload ol w) = next_id w"
  "now (set_onload ol w) = now w"
  "inflight (set_onload ol w) = inflight w"
  "page (send_request w) = page w"
  "timers (send_request w) = timers w"
  "next_id (send_request w) = next_id w"
  "now (send_request w) = now w"
  "inflight (send_request w) = Suc (inflight w)"
  "page (advance d w) = page w"
  "timers (advance d w) = timers w"
  "next_id (advance d w) = next_id w"
  "now (advance d w) = now w + d"
  "inflight (advance d w) = inflight w"
  "page (response_arrives w) = page w"
  "timers (response_arrives w) = timers w"
  "next_id (response_arrives w) = next_id w"
  "now (response_arrives w) = now w"
  "inflight (response_arrives w) = inflight w - 1"
  by (auto simp: arm_def clearTimer_def clearIfSet_def cleared_def show_el_def hide_el_def setBadge_def set_src_def remove_src_def set_onload_def send_request_def advance_def response_arrives_def SHOW_DEBUG_BADGE_def split: option.splits)

lemma prim_world2 [simp]:
  "lastItemId (arm t w) = lastItemId w"
  "lastFormUrl (arm t w) = lastFormUrl w"
  "activeTimer (arm t w) = activeTimer w"
  "lastItemId (clearTimer i w) = lastItemId w"
  "lastFormUrl (clearTimer i w) = lastFormUrl w"
  "activeTimer (clearTimer i w) = activeTimer w"
  "lastItemId (clearIfSet h w) = lastItemId w"
  "lastFormUrl (clearIfSet h w) = lastFormUrl w"
  "activeTimer (clearIfSet h w) = activeTimer w"
  "lastItemId (show_el e w) = lastItemId w"
  "lastFormUrl (show_el e w) = lastFormUrl w"
  "activeTimer (show_el e w) = activeTimer w"
  "lastItemId (hide_el e w) = lastItemId w"
  "lastFormUrl (hide_el e w) = lastFormUrl w"
  "activeTimer (hide_el e w) = activeTimer w"
  "lastItemId (setBadge b w) = lastItemId w"
  "lastFormUrl (setBadge b w) = lastFormUrl w"
  "activeTimer (setBadge b w) = activeTimer w"
  "lastItemId (set_src url w) = lastItemId w"
  "lastFormUrl (set_src url w) = lastFormUrl w"
  "activeTimer (set_src url w) = activeTimer w"
  "lastItemId (remove_src w) = lastItemId w"
  "lastFormUrl (remove_src w) = lastFormUrl w"
  "activeTimer (remove_src w) = activeTimer w"
  "lastItemId (set_onload ol w) = lastItemId w"
  "lastFormUrl (set_onload ol w) = lastFormUrl w"
  "activeTimer (set_onload ol w) = activeTimer w"
  "lastItemId (send_request w) = lastItemId w"
  "lastFormUrl (send_request w) = lastFormUrl w"
  "activeTimer (send_request w) = activeTimer w"
  "lastItemId (advance d w) = lastItemId w"
  "lastFormUrl (advance d w) = lastFormUrl w"
  "activeTimer (advance d w) = activeTimer w"
  "lastItemId (response_arrives w) = lastItemId w"
  "lastFormUrl (response_arrives w) = lastFormUrl w"
  "activeTimer (response_arrives w) = activeTimer w"
  by (auto simp: arm_def clearTimer_def clearIfSet_def cleared_def show_el_def hide_el_def setBadge_def set_src_def remove_src_def set_onload_def send_request_def advance_def response_arrives_def SHOW_DEBUG_BADGE_def split: option.splits)

lemma prim_world1 [simp]:
  "activeSince (arm t w) = activeSince w"
  "iframeLoadTimer (arm t w) = iframeLoadTimer w"
  "redirecting (arm t w) = redirecting w"
  "activeSince (clearTimer i w) = activeSince w"
  "iframeLoadTimer (clearTimer i w) = iframeLoadTimer w"
  "redirecting (clearTimer i w) = redirecting w"
  "activeSince (clearIfSet h w) = activeSince w"
  "iframeLoadTimer (clearIfSet h w) = iframeLoadTimer w"
  "redirecting (clearIfSet h w) = redirecting w"
  "activeSince (show_el e w) = activeSince w"
  "iframeLoadTimer (show_el e w) = iframeLoadTimer w"
  "redirecting (show_el e w) = redirecting w"
  "activeSince (hide_el e w) = activeSince w"
  "iframeLoadTimer (hide_el e w) = iframeLoadTimer w"
  "redirecting (hide_el e w) = redirecting w"
  "activeSince (setBadge b w) = activeSince w"
  "iframeLoadTimer (setBadge b w) = iframeLoadTimer w"
  "redirecting (setBadge b w) = redirecting w"
  "activeSince (set_src url w) = activeSince w"
  "iframeLoadTimer (set_src url w) = iframeLoadTimer w"
  "redirecting (set_src url w) = redirecting w"
  "activeSince (remove_src w) = activeSince w"
  "iframeLoadTimer (remove_src w) = iframeLoadTimer w"
  "redirecting (remove_src w) = redirecting w"
  "activeSince (set_onload ol w) = activeSince w"
  "iframeLoadTimer (set_onload ol w) = iframeLoadTimer w"
  "redirecting (set_onload ol w) = redirecting w"
  "activeSince (send_request w) = activeSince w"
  "iframeLoadTimer (send_request w) = iframeLoadTimer w"
  "redirecting (send_request w) = redirecting w"
  "activeSince (advance d w) = activeSince w"
  "iframeLoadTimer (advance d w) = iframeLoadTimer w"
  "redirecting (advance d w) = redirecting w"
  "activeSince (response_arrives w) = activeSince w"
  "iframeLoadTimer (response_arrives w) = iframeLoadTimer w"
  "redirecting (response_arrives w) = redirecting w"
  by (auto simp: arm_def clearTimer_def clearIfSet_def cleared_def show_el_def hide_el_def setBadge_def set_src_def remove_src_def set_onload_def send_request_def advance_def response_arrives_def SHOW_DEBUG_BADGE_def split: option.splits)

lemma prim_world3 [simp]:
  "pollTimer (arm t w) = pollTimer w"
  "currentPollMs (arm t w) = currentPollMs w"
  "isActive (arm t w) = isActive w"
  "pollTimer (clearTimer i w) = pollTimer w"
  "currentPollMs (clearTimer i w) = currentPollMs w"
  "isActive (clearTimer i w) = isActive w"
  "pollTimer (clearIfSet h w) = pollTimer w"
  "currentPollMs (clearIfSet h w) = currentPollMs w"
  "isActive (clearIfSet h w) = isActive w"
  "pollTimer (show_el e w) = pollTimer w"
  "currentPollMs (show_el e w) = currentPollMs w"
  "isActive (show_el e w) = isActive w"
  "pollTimer (hide_el e w) = pollTimer w"
  "currentPollMs (hide_el e w) = currentPollMs w"
  "isActive (hide_el e w) = isActive w"
  "pollTimer (setBadge b w) = pollTimer w"
  "currentPollMs (setBadge b w) = currentPollMs w"
  "isActive (setBadge b w) = isActive w"
  "pollTimer (set_src url w) = pollTimer w"
  "currentPollMs (set_src url w) = currentPollMs w"
  "isActive (set_src url w) = isActive w"
  "pollTimer (remove_src w) = pollTimer w"
  "currentPollMs (remove_src w) = currentPollMs w"
  "isActive (remove_src w) = isActive w"
  "pollTimer (set_onload ol w) = pollTimer w"
  "currentPollMs (set_onload ol w) = currentPollMs w"
  "isActive (set_onload ol w) = isActive w"
  "pollTimer (send_request w) = pollTimer w"
  "currentPollMs (send_request w) = currentPollMs w"
  "isActive (send_request w) = isActive w"
  "pollTimer (advance d w) = pollTimer w"
  "currentPollMs (advance d w) = currentPollMs w"
  "isActive (advance d w) = isActive w"
  "pollTimer (response_arrives w) = pollTimer w"
  "currentPollMs (response_arrives w) = currentPollMs w"
  "isActive (response_arrives w) = isActive w"
  by (auto simp: arm_def clearTimer_def clearIfSet_def cleared_def show_el_def hide_el_def setBadge_def set_src_def remove_src_def set_onload_def send_request_def advance_def response_arrives_def SHOW_DEBUG_BADGE_def split: option.splits)

lemma expire_env [simp]:
  "page (expire i w) = page w"
  "next_id (expire i w) = next_id w"
  "now (expire i w) = now w"
  "inflight (expire i w) = inflight w"
  by (simp_all add: expire_def split: option.splits timer.splits)

lemma expire_world2 [simp]:
  "lastItemId (expire i w) = lastItemId w"
  "lastFormUrl (expire i w) = lastFormUrl w"
  "activeTimer (expire i w) = activeTimer w"
  by (simp_all add: expire_def split: option.splits timer.splits)

lemma expire_world1 [simp]:
  "activeSince (expire i w) = activeSince w"
  "iframeLoadTimer (expire i w) = iframeLoadTimer w"
  "redirecting (expire i w) = redirecting w"
  by (simp_all add: expire_def split: option.splits timer.splits)

lemma expire_world3 [simp]:
  "pollTimer (expire i w) = pollTimer w"
  "currentPollMs (expire i w) = currentPollMs w"
  "isActive (expire i w) = isActive w"
  by (simp_all add: expire_def split: option.splits timer.splits)

lemma expire_timers:
  "timers (expire i w) j =
     (if j = i \<and> (\<exists>cb d. timers w i = Some (Timeout cb d)) then None else timers w j)"
  by (auto simp: expire_def split: option.splits timer.splits)

section \<open>The iframe-only script: effects and invariant\<close>

lemma showIdle2_obs:
  "timers (showIdle2 w) = cleared (activeTimer w) (timers w)"
  "next_id (showIdle2 w) = next_id w"
  "now (showIdle2 w) = now w"
  "inflight (showIdle2 w) = inflight w"
  "lastItemId (showIdle2 w) = None"
  "lastFormUrl (showIdle2 w) = None"
  "activeTimer (showIdle2 w) = None"
  "page (showIdle2 w) = (page w)\<lparr>
      hidden := (hidden (page w))(frame_el := True, loading_el := True, idle_el := False,
                   active_el := True, badge_el := False),
      badge_text := Some Badge_Idle, frame_src := None\<rparr>"
  by (simp_all add: showIdle2_def Let_def)

lemma resetActiveTimer_obs:
  "timers (resetActiveTimer w) =
     (cleared (activeTimer w) (timers w))(next_id w \<mapsto> Timeout IdleCb (now w + ACTIVE_TIMEOUT_MS))"
  "next_id (resetActiveTimer w) = Suc (next_id w)"
  "now (resetActiveTimer w) = now w"
  "inflight (resetActiveTimer w) = inflight w"
  "page (resetActiveTimer w) = page w"
  "lastItemId (resetActiveTimer w) = lastItemId w"
  "lastFormUrl (resetActiveTimer w) = lastFormUrl w"
  "activeTimer (resetActiveTimer w) = Some (next_id w)"
  by (simp_all add: resetActiveTimer_def setTimeout_def Let_def)

lemma showActive2_obs:
  "timers (showActive2 url item w) =
     (cleared (activeTimer w) (timers w))(next_id w \<mapsto> Timeout IdleCb (now w + ACTIVE_TIMEOUT_MS))"
  "next_id (showActive2 url item w) = Suc (next_id w)"
  "now (showActive2 url item w) = now w"
  "inflight (showActive2 url item w) = inflight w"
  "lastItemId (showActive2 url item w) = Some item"
  "lastFormUrl (showActive2 url item w) = Some url"
  "activeTimer (showActive2 url item w) = Some (next_id w)"
  "page (showActive2 url item w) =
     (if lastItemId w = Some item \<and> lastFormUrl w = Some url then page w
      else (page w)\<lparr>
        hidden := (hidden (page w))(idle_el := True, active_el := False, loading_el := False,
                     frame_el := False, badge_el := False),
        badge_text := Some (Badge_Active_loading item),
        frame_src := Some url, frame_onload := OnLoad (Some item),
        src_log := src_log (page w) @ [url]\<rparr>)"
  by (simp_all add: showActive2_def resetActiveTimer_obs Let_def)

lemma pollOnce2_cases:
  assumes "P (showIdle2 w)"
    and "\<And>b. P (setBadge b (showIdle2 w))"
    and "\<And>url item. url \<noteq> [] \<Longrightarrow> P (showActive2 url item w)"
  shows "\<exists>w'. pollOnce2 fo w = Inr w' \<and> P w'"
  using assms
  by (simp add: pollOnce2_def pollOnce2_try_def Let_def split: sum.splits option.splits)

lemma inv2_cong:
  assumes "inv2 w"
    and "timers w' = timers w" "next_id w' = next_id w" "activeTimer w' = activeTimer w"
    and "lastItemId w' = lastItemId w" "lastFormUrl w' = lastFormUrl w"
    and "hidden (page w') idle_el = hidden (page w) idle_el"
    and "location_href (page w') = location_href (page w)"
  shows "inv2 w'"
  using assms
  unfolding inv2_def timers_ok_def session_ok_def fixed_poll_def no_grace_def
  by simp

lemma timers_ok_showIdle2: "timers_ok w \<Longrightarrow> timers_ok (showIdle2 w)"
  unfolding timers_ok_def
  by (auto simp: showIdle2_obs)

lemma timers_ok_showActive2: "timers_ok w \<Longrightarrow> timers_ok (showActive2 url item w)"
  unfolding timers_ok_def
  by (auto simp: showActive2_obs)

lemma session_ok_showActive2: "session_ok w \<Longrightarrow> url \<noteq> [] \<Longrightarrow> session_ok (showActive2 url item w)"
  unfolding session_ok_def
  by (auto simp: showActive2_obs)

lemma fixed_poll_showActive2: "fixed_poll w \<Longrightarrow> timers_ok w \<Longrightarrow> fixed_poll (showActive2 url item w)"
  unfolding fixed_poll_def timers_ok_def
  by (auto simp: showActive2_obs)

lemma no_grace_showActive2: "no_grace w \<Longrightarrow> no_grace (showActive2 url item w)"
  unfolding no_grace_def
  by (auto simp: showActive2_obs)

lemma inv2_showIdle2: "inv2 w \<Longrightarrow> inv2 (showIdle2 w)"
  unfolding inv2_def
  apply (intro conjI)
      apply (simp add: timers_ok_showIdle2)
     apply (simp add: session_ok_def showIdle2_obs)
    apply (auto simp: fixed_poll_def showIdle2_obs)[1]
   apply (auto simp: no_grace_def showIdle2_obs)[1]
  apply (simp add: showIdle2_obs)
  done

lemma inv2_setBadge: "inv2 w \<Longrightarrow> inv2 (setBadge b w)"
  by (erule inv2_cong) simp_all

lemma inv2_showActive2: "inv2 w \<Longrightarrow> url \<noteq> [] \<Longrightarrow> inv2 (showActive2 url item w)"
  unfolding inv2_def
  by (simp add: timers_ok_showActive2 session_ok_showActive2 fixed_poll_showActive2
      no_grace_showActive2 showActive2_obs)

lemma inv2_expire: "inv2 w \<Longrightarrow> inv2 (expire i w)"
  unfolding inv2_def timers_ok_def session_ok_def fixed_poll_def no_grace_def
  by (auto simp: expire_timers)

lemma inv2_response: "inv2 w \<Longrightarrow> inv2 (step2 (Response fo) w)"
proof -
  assume inv: "inv2 w"
  have inv0: "inv2 (response_arrives w)"
    by (rule inv2_cong [OF inv]) simp_all
  have "\<exists>w'. pollOnce2 fo (response_arrives w) = Inr w' \<and> inv2 w'"
    by (rule pollOnce2_cases)
      (intro inv2_showIdle2 inv2_setBadge inv2_showActive2 inv0 | assumption)+
  then show ?thesis
    using inv by auto
qed

lemma inv2_timer: "inv2 w \<Longrightarrow> inv2 (step2 (TimerFire i) w)"
proof -
  assume inv: "inv2 w"
  show ?thesis
  proof (cases "ready i w")
    case None
    then show ?thesis using inv by simp
  next
    case (Some cb)
    have e: "inv2 (expire i w)" by (rule inv2_expire [OF inv])
    show ?thesis
    proof (cases cb)
      case PollCb
      have "inv2 (send_request (expire i w))"
        by (rule inv2_cong [OF e]) simp_all
      with Some PollCb show ?thesis by simp
    next
      case IdleCb
      with Some e show ?thesis by (simp add: inv2_showIdle2)
    next
      case (GraceCb u)
      with Some e show ?thesis by simp
    qed
  qed
qed

lemma inv2_onload: "inv2 w \<Longrightarrow> inv2 (onload2 w)"
  by (erule inv2_cong) (simp_all add: onload2_def split: handler.splits)

lemma inv2_step: "inv2 w \<Longrightarrow> inv2 (step2 e w)"
proof (cases e)
  case (Response fo)
  assume "inv2 w"
  with Response show ?thesis by (simp only: inv2_response)
next
  case (TimerFire i)
  assume "inv2 w"
  with TimerFire show ?thesis by (simp only: inv2_timer)
next
  case FrameLoad
  assume "inv2 w"
  with FrameLoad show ?thesis by (simp add: inv2_onload)
next
  case (Visibility h)
  assume "inv2 w"
  with Visibility show ?thesis by simp
next
  case (Advance d)
  assume inv: "inv2 w"
  have "inv2 (advance d w)"
    by (rule inv2_cong [OF inv]) simp_all
  with Advance show ?thesis by simp
qed

lemma inv2_startup: "location_href p = None \<Longrightarrow> inv2 (startup2 p)"
  unfolding inv2_def timers_ok_def session_ok_def fixed_poll_def no_grace_def
  by (simp add: startup2_def initial2_def setInterval_def showIdle2_obs Let_def)

lemma reachable2_inv: "reachable2 w \<Longrightarrow> inv2 w"
  by (induction rule: reachable2.induct) (simp_all add: inv2_startup inv2_step)

section \<open>The iframe-or-redirect script: effects and invariant\<close>

lemma showIdle1_obs:
  "timers (showIdle1 w) = cleared (iframeLoadTimer w) (cleared (activeTimer w) (timers w))"
  "next_id (showIdle1 w) = next_id w"
  "now (showIdle1 w) = now w"
  "inflight (showIdle1 w) = inflight w"
  "lastItemId (showIdle1 w) = None"
  "lastFormUrl (showIdle1 w) = None"
  "activeTimer (showIdle1 w) = None"
  "activeSince (showIdle1 w) = None"
  "iframeLoadTimer (showIdle1 w) = None"
  "redirecting (showIdle1 w) = False"
  "page (showIdle1 w) = (page w)\<lparr>
      hidden := (hidden (page w))(frame_el := True, redirectMode_el := True, loading_el := True,
                   idle_el := False, active_el := True, badge_el := False),
      badge_text := Some Badge_Idle, frame_src := None\<rparr>"
  by (simp_all add: showIdle1_def Let_def SHOW_DEBUG_BADGE_def)

lemma showActive1_same:
  "lastItemId w = Some item \<Longrightarrow> lastFormUrl w = Some url \<Longrightarrow> showActive1 url item w = w"
  by (simp add: showActive1_def)

lemma showActive1_obs:
  assumes "\<not> (lastItemId w = Some item \<and> lastFormUrl w = Some url)"
  shows
  "timers (showActive1 url item w) =
     (cleared (activeTimer w)
        ((cleared (iframeLoadTimer w) (timers w))
           (next_id w \<mapsto> Timeout (GraceCb url) (now w + IFRAME_LOAD_GRACE_MS))))
       (Suc (next_id w) \<mapsto> Timeout IdleCb (now w + ACTIVE_TIMEOUT_MS))"
  "next_id (showActive1 url item w) = Suc (Suc (next_id w))"
  "now (showActive1 url item w) = now w"
  "inflight (showActive1 url item w) = inflight w"
  "lastItemId (showActive1 url item w) = Some item"
  "lastFormUrl (showActive1 url item w) = Some url"
  "activeTimer (showActive1 url item w) = Some (Suc (next_id w))"
  "activeSince (showActive1 url item w) = Some (now w)"
  "iframeLoadTimer (showActive1 url item w) = Some (next_id w)"
  "redirecting (showActive1 url item w) = False"
  "page (showActive1 url item w) =
     (page w)\<lparr>
        hidden := (hidden (page w))(idle_el := True, active_el := False, loading_el := False,
                     redirectMode_el := True, frame_el := False, badge_el := False),
        badge_text := Some (Badge_Active_loading item),
        frame_src := Some url, frame_onload := OnLoad (Some item),
        src_log := src_log (page w) @ [url]\<rparr>"
  using assms
  by (auto simp: showActive1_def setTimeout_def Let_def SHOW_DEBUG_BADGE_def)

lemma switchToRedirect_obs:
  "timers (switchToRedirect url w) = timers w"
  "next_id (switchToRedirect url w) = next_id w"
  "now (switchToRedirect url w) = now w"
  "inflight (switchToRedirect url w) = inflight w"
  "lastItemId (switchToRedirect url w) = lastItemId w"
  "lastFormUrl (switchToRedirect url w) = lastFormUrl w"
  "activeTimer (switchToRedirect url w) = activeTimer w"
  "iframeLoadTimer (switchToRedirect url w) = iframeLoadTimer w"
  "redirecting (switchToRedirect url w) = True"
  "page (switchToRedirect url w) = (page w)\<lparr>
      hidden := (hidden (page w))(frame_el := True, loading_el := True, redirectMode_el := False,
                   badge_el := False),
      badge_text := Some Badge_Active_redirect,
      openFormLink_href := Some url, location_href := Some url\<rparr>"
  by (simp_all add: switchToRedirect_def Let_def SHOW_DEBUG_BADGE_def)

lemma onload1_obs:
  "timers (onload1 w) =
     (case frame_onload (page w) of NoHandler \<Rightarrow> timers w
      | OnLoad item \<Rightarrow> cleared (iframeLoadTimer w) (timers w))"
  "next_id (onload1 w) = next_id w"
  "now (onload1 w) = now w"
  "inflight (onload1 w) = inflight w"
  "lastItemId (onload1 w) = lastItemId w"
  "lastFormUrl (onload1 w) = lastFormUrl w"
  "activeTimer (onload1 w) = activeTimer w"
  "iframeLoadTimer (onload1 w) =
     (case frame_onload (page w) of NoHandler \<Rightarrow> iframeLoadTimer w | OnLoad item \<Rightarrow> None)"
  "redirecting (onload1 w) = redirecting w"
  "page (onload1 w) =
     (case frame_onload (page w) of NoHandler \<Rightarrow> page w
      | OnLoad item \<Rightarrow> (page w)\<lparr>
          hidden := (hidden (page w))(loading_el := True, badge_el := False),
          badge_text := Some (Badge_Active_iframe item)\<rparr>)"
  by (auto simp: onload1_def Let_def SHOW_DEBUG_BADGE_def cleared_def
      split: handler.splits option.splits)

lemma pollLoop1_cases:
  assumes "P (showIdle1 w)"
    and "\<And>b. P (setBadge b (showIdle1 w))"
    and "\<And>url item. url \<noteq> [] \<Longrightarrow> P (showActive1 url item w)"
  shows "\<exists>w'. pollLoop1 fo w = Inr w' \<and> P w'"
  using assms
  by (simp add: pollLoop1_def pollLoop1_try_def Let_def SHOW_DEBUG_BADGE_def
      split: sum.splits option.splits)

lemma inv1_cong:
  assumes "inv1 w"
    and "timers w' = timers w" "next_id w' = next_id w" "activeTimer w' = activeTimer w"
    and "lastItemId w' = lastItemId w" "lastFormUrl w' = lastFormUrl w"
    and "iframeLoadTimer w' = iframeLoadTimer w" "redirecting w' = redirecting w"
    and "hidden (page w') idle_el = hidden (page w) idle_el"
    and "location_href (page w') = location_href (page w)"
  shows "inv1 w'"
  using assms
  unfolding inv1_def timers_ok_def session_ok_def fixed_poll_def grace_ok_def
  by simp

lemma next_id_gt_1: "fixed_poll w \<Longrightarrow> timers_ok w \<Longrightarrow> 1 < next_id w"
proof -
  assume f: "fixed_poll w" and t: "timers_ok w"
  have "\<not> next_id w \<le> 1"
  proof
    assume "next_id w \<le> 1"
    with t have "timers w 1 = None" unfolding timers_ok_def by blast
    with f show False unfolding fixed_poll_def by simp
  qed
  then show ?thesis by simp
qed

lemma timers_ok_showIdle1: "timers_ok w \<Longrightarrow> timers_ok (showIdle1 w)"
  by (auto simp: timers_ok_def showIdle1_obs)

lemma fixed_poll_showIdle1:
  "fixed_poll w \<Longrightarrow> iframeLoadTimer w \<noteq> Some 1 \<Longrightarrow> fixed_poll (showIdle1 w)"
  by (auto simp: fixed_poll_def showIdle1_obs)

lemma grace_ok_showIdle1: "grace_ok w \<Longrightarrow> grace_ok (showIdle1 w)"
  by (auto simp: grace_ok_def showIdle1_obs)

lemma inv1_showIdle1: "inv1 w \<Longrightarrow> inv1 (showIdle1 w)"
proof -
  assume inv: "inv1 w"
  then have "iframeLoadTimer w \<noteq> Some 1"
    unfolding inv1_def grace_ok_def by blast
  moreover have "session_ok (showIdle1 w)"
    by (simp add: session_ok_def showIdle1_obs)
  ultimately show ?thesis
    using inv unfolding inv1_def
    by (simp add: timers_ok_showIdle1 fixed_poll_showIdle1 grace_ok_showIdle1)
qed

lemma inv1_setBadge: "inv1 w \<Longrightarrow> inv1 (setBadge b w)"
  by (erule inv1_cong) simp_all

lemma timers_ok_showActive1:
  "timers_ok w \<Longrightarrow> \<not> (lastItemId w = Some item \<and> lastFormUrl w = Some url) \<Longrightarrow>
   timers_ok (showActive1 url item w)"
  unfolding timers_ok_def
  by (auto simp: showActive1_obs)

lemma fixed_poll_showActive1:
  "fixed_poll w \<Longrightarrow> 1 < next_id w \<Longrightarrow> iframeLoadTimer w \<noteq> Some 1 \<Longrightarrow>
   \<not> (lastItemId w = Some item \<and> lastFormUrl w = Some url) \<Longrightarrow>
   fixed_poll (showActive1 url item w)"
  unfolding fixed_poll_def
  by (auto simp: showActive1_obs)

lemma grace_ok_showActive1:
  "grace_ok w \<Longrightarrow> 1 < next_id w \<Longrightarrow>
   \<not> (lastItemId w = Some item \<and> lastFormUrl w = Some url) \<Longrightarrow>
   grace_ok (showActive1 url item w)"
  unfolding grace_ok_def
  by (auto simp: showActive1_obs)

lemma inv1_showActive1: "inv1 w \<Longrightarrow> url \<noteq> [] \<Longrightarrow> inv1 (showActive1 url item w)"
proof (cases "lastItemId w = Some item \<and> lastFormUrl w = Some url")
  case True
  assume "inv1 w"
  with True show ?thesis by (simp add: showActive1_same)
next
  case False
  assume inv: "inv1 w" and url: "url \<noteq> []"
  have "session_ok (showActive1 url item w)"
    using inv url False unfolding inv1_def session_ok_def
    by (simp add: showActive1_obs)
  moreover from inv have "iframeLoadTimer w \<noteq> Some 1"
    unfolding inv1_def grace_ok_def by blast
  moreover from inv have "1 < next_id w"
    unfolding inv1_def by (blast intro: next_id_gt_1)
  ultimately show ?thesis
    using inv False unfolding inv1_def
    by (simp add: timers_ok_showActive1 fixed_poll_showActive1 grace_ok_showActive1)
qed

lemma timers_ok_expire: "timers_ok w \<Longrightarrow> timers_ok (expire i w)"
  by (auto simp: timers_ok_def expire_timers)

lemma fixed_poll_expire: "fixed_poll w \<Longrightarrow> fixed_poll (expire i w)"
  by (auto simp: fixed_poll_def expire_timers)

lemma session_ok_expire: "session_ok w \<Longrightarrow> session_ok (expire i w)"
  by (simp add: session_ok_def)

lemma grace_ok_expire: "grace_ok w \<Longrightarrow> grace_ok (expire i w)"
  by (auto simp: grace_ok_def expire_timers)

lemma inv1_expire: "inv1 w \<Longrightarrow> inv1 (expire i w)"
  unfolding inv1_def
  by (simp add: timers_ok_expire fixed_poll_expire session_ok_expire grace_ok_expire)

lemma inv1_switchToRedirect: "inv1 w \<Longrightarrow> inv1 (switchToRedirect url w)"
  unfolding inv1_def timers_ok_def session_ok_def fixed_poll_def grace_ok_def
  by (simp add: switchToRedirect_obs)

lemma timers_ok_onload1: "timers_ok w \<Longrightarrow> timers_ok (onload1 w)"
  by (cases "frame_onload (page w)") (auto simp: timers_ok_def onload1_obs)

lemma fixed_poll_onload1:
  "fixed_poll w \<Longrightarrow> iframeLoadTimer w \<noteq> Some 1 \<Longrightarrow> fixed_poll (onload1 w)"
  by (cases "frame_onload (page w)") (auto simp: fixed_poll_def onload1_obs)

lemma session_ok_onload1: "session_ok w \<Longrightarrow> session_ok (onload1 w)"
  by (cases "frame_onload (page w)") (simp_all add: session_ok_def onload1_obs)

lemma grace_ok_onload1: "grace_ok w \<Longrightarrow> grace_ok (onload1 w)"
  by (cases "frame_onload (page w)") (auto simp: grace_ok_def onload1_obs)

lemma inv1_onload: "inv1 w \<Longrightarrow> inv1 (onload1 w)"
proof -
  assume inv: "inv1 w"
  then have "iframeLoadTimer w \<noteq> Some 1"
    unfolding inv1_def grace_ok_def by blast
  with inv show ?thesis
    unfolding inv1_def
    by (simp add: timers_ok_onload1 fixed_poll_onload1 session_ok_onload1 grace_ok_onload1)
qed

lemma inv1_response:
  assumes inv: "inv1 w"
  shows "inv1 (case pollLoop1 fo (response_arrives w) of
                 Inl err \<Rightarrow> response_arrives w | Inr w' \<Rightarrow> w')"
proof -
  have inv0: "inv1 (response_arrives w)"
    by (rule inv1_cong [OF inv]) simp_all
  have "\<exists>w'. pollLoop1 fo (response_arrives w) = Inr w' \<and> inv1 w'"
    by (rule pollLoop1_cases)
      (intro inv1_showIdle1 inv1_setBadge inv1_showActive1 inv0 | assumption)+
  then show ?thesis
    by auto
qed

lemma inv1_callback: "inv1 w \<Longrightarrow> inv1 (run_callback1 cb w)"
proof (cases cb)
  case PollCb
  assume inv: "inv1 w"
  have "inv1 (send_request w)"
    by (rule inv1_cong [OF inv]) simp_all
  with PollCb show ?thesis by simp
next
  case IdleCb
  assume "inv1 w"
  with IdleCb show ?thesis by (simp add: inv1_showIdle1)
next
  case (GraceCb u)
  assume "inv1 w"
  with GraceCb show ?thesis by (simp add: inv1_switchToRedirect)
qed

lemma inv1_step: "inv1 w \<Longrightarrow> inv1 (step1 e w)"
proof -
  assume inv: "inv1 w"
  have adv: "inv1 (advance d w)" for d
    by (rule inv1_cong [OF inv]) simp_all
  show ?thesis
    using inv adv
    by (cases e)
      (auto simp: inv1_response inv1_callback inv1_expire inv1_onload
        simp del: run_callback1.simps split: option.splits)
qed

lemma inv1_startup: "location_href p = None \<Longrightarrow> inv1 (startup1 p)"
  unfolding inv1_def timers_ok_def session_ok_def fixed_poll_def grace_ok_def
  by (simp add: startup1_def initial1_def setInterval_def showIdle1_obs Let_def)

lemma reachable1_inv: "reachable1 w \<Longrightarrow> inv1 w"
  by (induction rule: reachable1.induct) (simp_all add: inv1_startup inv1_step del: step1.simps)

section \<open>The adaptive-polling scripts: effects and invariants\<close>

lemma resetActiveTimer_obs3:
  "pollTimer (resetActiveTimer w) = pollTimer w"
  "currentPollMs (resetActiveTimer w) = currentPollMs w"
  "isActive (resetActiveTimer w) = isActive w"
  by (simp_all add: resetActiveTimer_def setTimeout_def Let_def)

lemma startPolling_obs:
  "timers (startPolling ms w) =
     (cleared (pollTimer w) (timers w))(next_id w \<mapsto> Interval PollCb ms)"
  "next_id (startPolling ms w) = Suc (next_id w)"
  "now (startPolling ms w) = now w"
  "inflight (startPolling ms w) = inflight w"
  "page (startPolling ms w) = page w"
  "lastItemId (startPolling ms w) = lastItemId w"
  "lastFormUrl (startPolling ms w) = lastFormUrl w"
  "activeTimer (startPolling ms w) = activeTimer w"
  "pollTimer (startPolling ms w) = Some (next_id w)"
  "currentPollMs (startPolling ms w) = ms"
  "isActive (startPolling ms w) = isActive w"
  by (simp_all add: startPolling_def setInterval_def Let_def)

lemma stopPolling_obs:
  "timers (stopPolling w) = cleared (pollTimer w) (timers w)"
  "next_id (stopPolling w) = next_id w"
  "now (stopPolling w) = now w"
  "inflight (stopPolling w) = inflight w"
  "page (stopPolling w) = page w"
  "lastItemId (stopPolling w) = lastItemId w"
  "lastFormUrl (stopPolling w) = lastFormUrl w"
  "activeTimer (stopPolling w) = activeTimer w"
  "pollTimer (stopPolling w) = None"
  "currentPollMs (stopPolling w) = currentPollMs w"
  "isActive (stopPolling w) = isActive w"
  by (simp_all add: stopPolling_def Let_def)

lemma showIdle3_already: "\<not> isActive w \<Longrightarrow> \<not> hidden (page w) idle_el \<Longrightarrow> showIdle3 w = w"
  by (simp add: showIdle3_def)

lemma showIdle3_obs:
  assumes "isActive w \<or> hidden (page w) idle_el"
  shows
  "timers (showIdle3 w) =
     (cleared (pollTimer w) (cleared (activeTimer w) (timers w)))
       (next_id w \<mapsto> Interval PollCb IDLE_POLL_MS3)"
  "next_id (showIdle3 w) = Suc (next_id w)"
  "now (showIdle3 w) = now w"
  "inflight (showIdle3 w) = inflight w"
  "lastItemId (showIdle3 w) = None"
  "lastFormUrl (showIdle3 w) = None"
  "activeTimer (showIdle3 w) = None"
  "pollTimer (showIdle3 w) = Some (next_id w)"
  "currentPollMs (showIdle3 w) = IDLE_POLL_MS3"
  "isActive (showIdle3 w) = False"
  "page (showIdle3 w) = (page w)\<lparr>
      hidden := (hidden (page w))(frame_el := True, loading_el := True, idle_el := False,
                   active_el := True, badge_el := False),
      badge_text := Some Badge_Idle\<rparr>"
  using assms
  by (auto simp: showIdle3_def startPolling_obs Let_def)

lemma showActive3_same:
  "isActive w \<Longrightarrow> lastItemId w = Some item \<Longrightarrow> lastFormUrl w = Some url \<Longrightarrow>
   showActive3 resolveUrl url item w = resetActiveTimer w"
  by (simp add: showActive3_def)

lemma showActive3_obs:
  assumes "\<not> (isActive w \<and> lastItemId w = Some item \<and> lastFormUrl w = Some url)"
  shows
  "timers (showActive3 resolveUrl url item w) =
     (cleared (pollTimer w)
        ((cleared (activeTimer w) (timers w))
           (next_id w \<mapsto> Timeout IdleCb (now w + ACTIVE_TIMEOUT_MS))))
       (Suc (next_id w) \<mapsto> Interval PollCb ACTIVE_POLL_MS)"
  "next_id (showActive3 resolveUrl url item w) = Suc (Suc (next_id w))"
  "now (showActive3 resolveUrl url item w) = now w"
  "inflight (showActive3 resolveUrl url item w) = inflight w"
  "lastItemId (showActive3 resolveUrl url item w) = Some item"
  "lastFormUrl (showActive3 resolveUrl url item w) = Some url"
  "activeTimer (showActive3 resolveUrl url item w) = Some (next_id w)"
  "pollTimer (showActive3 resolveUrl url item w) = Some (Suc (next_id w))"
  "currentPollMs (showActive3 resolveUrl url item w) = ACTIVE_POLL_MS"
  "isActive (showActive3 resolveUrl url item w) = True"
  "page (showActive3 resolveUrl url item w) =
     (page w)\<lparr>
        hidden := (hidden (page w))(idle_el := True, active_el := False, loading_el := False,
                     frame_el := False, badge_el := False),
        badge_text := Some (Badge_Active_loading item),
        frame_src := (if get_src resolveUrl w \<noteq> url then Some url else frame_src (page w)),
        frame_onload := OnLoad (Some item),
        src_log := (if get_src resolveUrl w \<noteq> url then src_log (page w) @ [url]
                    else src_log (page w))\<rparr>"
  using assms
  by (auto simp: showActive3_def startPolling_obs resetActiveTimer_obs resetActiveTimer_obs3
      get_src_def Let_def)

lemma onload3_obs:
  "timers (onload3 w) = timers w"
  "next_id (onload3 w) = next_id w"
  "now (onload3 w) = now w"
  "inflight (onload3 w) = inflight w"
  "lastItemId (onload3 w) = lastItemId w"
  "lastFormUrl (onload3 w) = lastFormUrl w"
  "activeTimer (onload3 w) = activeTimer w"
  "pollTimer (onload3 w) = pollTimer w"
  "currentPollMs (onload3 w) = currentPollMs w"
  "isActive (onload3 w) = isActive w"
  "page (onload3 w) =
     (case frame_onload (page w) of NoHandler \<Rightarrow> page w
      | OnLoad item \<Rightarrow> (page w)\<lparr>
          hidden := (hidden (page w))(loading_el := True, badge_el := False),
          badge_text := Some (Badge_Active item)\<rparr>)"
  by (simp_all add: onload3_def split: handler.splits)

lemma pollOnce3_cases:
  assumes "P (showIdle3 w)"
    and "\<And>b. P (setBadge b (showIdle3 w))"
    and "\<And>url item. url \<noteq> [] \<Longrightarrow> P (showActive3 resolveUrl url item w)"
  shows "\<exists>w'. pollOnce3 resolveUrl fo w = Inr w' \<and> P w'"
  using assms
  by (simp add: pollOnce3_def pollOnce3_try_def Let_def split: sum.splits option.splits)

lemma poll_ok_cong:
  assumes "poll_ok ms w"
    and "timers w' = timers w" "next_id w' = next_id w" "pollTimer w' = pollTimer w"
    and "currentPollMs w' = currentPollMs w" "isActive w' = isActive w"
  shows "poll_ok ms w'"
proof -
  have "poll_ok ms w' = poll_ok ms w"
    unfolding poll_ok_def by (simp only: assms(2-))
  with assms(1) show ?thesis by simp
qed

lemma inv3_cong:
  assumes "inv3 w"
    and "timers w' = timers w" "next_id w' = next_id w" "activeTimer w' = activeTimer w"
    and "lastItemId w' = lastItemId w" "lastFormUrl w' = lastFormUrl w"
    and "pollTimer w' = pollTimer w" "currentPollMs w' = currentPollMs w"
    and "isActive w' = isActive w"
    and "hidden (page w') idle_el = hidden (page w) idle_el"
    and "location_href (page w') = location_href (page w)"
  shows "inv3 w'"
proof -
  have "inv3 w' = inv3 w"
    unfolding inv3_def timers_ok_def session_ok_def poll_ok_def no_grace_def
    by (simp only: assms(2-))
  with assms(1) show ?thesis by simp
qed

lemma timers_ok_resetActiveTimer: "timers_ok w \<Longrightarrow> timers_ok (resetActiveTimer w)"
  by (auto simp: timers_ok_def resetActiveTimer_obs)

lemma timers_ok_startPolling: "timers_ok w \<Longrightarrow> timers_ok (startPolling ms w)"
  by (auto simp: timers_ok_def startPolling_obs)

lemma timers_ok_stopPolling: "timers_ok w \<Longrightarrow> timers_ok (stopPolling w)"
  by (auto simp: timers_ok_def stopPolling_obs)

lemma no_grace_resetActiveTimer: "no_grace w \<Longrightarrow> no_grace (resetActiveTimer w)"
  by (auto simp: no_grace_def resetActiveTimer_obs)

lemma no_grace_startPolling: "no_grace w \<Longrightarrow> no_grace (startPolling ms w)"
  by (auto simp: no_grace_def startPolling_obs)

lemma no_grace_stopPolling: "no_grace w \<Longrightarrow> no_grace (stopPolling w)"
  by (auto simp: no_grace_def stopPolling_obs)

lemma no_grace_expire: "no_grace w \<Longrightarrow> no_grace (expire i w)"
  by (auto simp: no_grace_def expire_timers)

lemma poll_ok_startPolling:
  "poll_ok ms0 w \<Longrightarrow> ms = (if isActive w then ACTIVE_POLL_MS else ms0) \<Longrightarrow>
   poll_ok ms0 (startPolling ms w)"
  by (auto simp: poll_ok_def startPolling_obs)

lemma poll_ok_stopPolling: "poll_ok ms0 w \<Longrightarrow> poll_ok ms0 (stopPolling w)"
  by (auto simp: poll_ok_def stopPolling_obs)

lemma poll_ok_resetActiveTimer:
  "poll_ok ms0 w \<Longrightarrow> poll_ok ms0 (resetActiveTimer w)"
  by (auto simp: poll_ok_def resetActiveTimer_obs resetActiveTimer_obs3)

lemma poll_ok_expire: "poll_ok ms0 w \<Longrightarrow> poll_ok ms0 (expire i w)"
  by (auto simp: poll_ok_def expire_timers)

lemma timers_ok_showIdle3: "timers_ok w \<Longrightarrow> timers_ok (showIdle3 w)"
  by (cases "isActive w \<or> hidden (page w) idle_el")
    (auto simp: timers_ok_def showIdle3_obs showIdle3_already)

lemma poll_ok_showIdle3: "poll_ok IDLE_POLL_MS3 w \<Longrightarrow> poll_ok IDLE_POLL_MS3 (showIdle3 w)"
  by (cases "isActive w \<or> hidden (page w) idle_el")
    (auto simp: poll_ok_def showIdle3_obs showIdle3_already)

lemma no_grace_showIdle3: "no_grace w \<Longrightarrow> no_grace (showIdle3 w)"
  by (cases "isActive w \<or> hidden (page w) idle_el")
    (auto simp: no_grace_def showIdle3_obs showIdle3_already)

lemma inv3_showIdle3: "inv3 w \<Longrightarrow> inv3 (showIdle3 w)"
proof (cases "isActive w \<or> hidden (page w) idle_el")
  case True
  assume inv: "inv3 w"
  have "session_ok (showIdle3 w)"
    by (simp add: session_ok_def showIdle3_obs [OF True])
  with inv show ?thesis
    unfolding inv3_def
    by (simp add: timers_ok_showIdle3 poll_ok_showIdle3 no_grace_showIdle3 showIdle3_obs [OF True])
next
  case False
  assume "inv3 w"
  with False show ?thesis by (simp add: showIdle3_already)
qed

lemma inv3_setBadge: "inv3 w \<Longrightarrow> inv3 (setBadge b w)"
  by (erule inv3_cong) simp_all

lemma timers_ok_showActive3: "timers_ok w \<Longrightarrow> timers_ok (showActive3 resolveUrl url item w)"
  by (cases "isActive w \<and> lastItemId w = Some item \<and> lastFormUrl w = Some url")
    (auto simp: timers_ok_def showActive3_obs showActive3_same resetActiveTimer_obs)

lemma poll_ok_showActive3:
  "poll_ok IDLE_POLL_MS3 w \<Longrightarrow> timers_ok w \<Longrightarrow>
   poll_ok IDLE_POLL_MS3 (showActive3 resolveUrl url item w)"
  by (cases "isActive w \<and> lastItemId w = Some item \<and> lastFormUrl w = Some url")
    (auto simp: poll_ok_def timers_ok_def showActive3_obs showActive3_same
      resetActiveTimer_obs resetActiveTimer_obs3)

lemma no_grace_showActive3: "no_grace w \<Longrightarrow> no_grace (showActive3 resolveUrl url item w)"
  by (cases "isActive w \<and> lastItemId w = Some item \<and> lastFormUrl w = Some url")
    (auto simp: no_grace_def showActive3_obs showActive3_same resetActiveTimer_obs)

lemma session_ok_showActive3:
  "session_ok w \<Longrightarrow> url \<noteq> [] \<Longrightarrow> session_ok (showActive3 resolveUrl url item w)"
  by (cases "isActive w \<and> lastItemId w = Some item \<and> lastFormUrl w = Some url")
    (auto simp: session_ok_def showActive3_obs showActive3_same resetActiveTimer_obs)

lemma showActive3_both:
  "lastFormUrl (showActive3 resolveUrl url item w) = Some url"
  "lastItemId (showActive3 resolveUrl url item w) = Some item"
  "isActive (showActive3 resolveUrl url item w) = True"
  "location_href (page (showActive3 resolveUrl url item w)) = location_href (page w)"
  "now (showActive3 resolveUrl url item w) = now w"
  "inflight (showActive3 resolveUrl url item w) = inflight w"
  "activeTimer (showActive3 resolveUrl url item w) = Some (next_id w)"
  by (simp_all add: showActive3_def Let_def resetActiveTimer_obs resetActiveTimer_obs3
      startPolling_obs)

lemma inv3_showActive3:
  "inv3 w \<Longrightarrow> url \<noteq> [] \<Longrightarrow> inv3 (showActive3 resolveUrl url item w)"
  unfolding inv3_def
  by (simp add: timers_ok_showActive3 poll_ok_showActive3 no_grace_showActive3
      session_ok_showActive3 showActive3_both)

lemma inv3_expire: "inv3 w \<Longrightarrow> inv3 (expire i w)"
  unfolding inv3_def
  by (simp add: timers_ok_expire session_ok_expire poll_ok_expire no_grace_expire)

lemma inv3_response: "inv3 w \<Longrightarrow> inv3 (step3 resolveUrl (Response fo) w)"
proof -
  assume inv: "inv3 w"
  have inv0: "inv3 (response_arrives w)"
    by (rule inv3_cong [OF inv]) simp_all
  have "\<exists>w'. pollOnce3 resolveUrl fo (response_arrives w) = Inr w' \<and> inv3 w'"
    by (rule pollOnce3_cases)
      (intro inv3_showIdle3 inv3_setBadge inv3_showActive3 inv0 | assumption)+
  then show ?thesis
    using inv by auto
qed

lemma inv3_callback: "inv3 w \<Longrightarrow> inv3 (run_callback3 cb w)"
proof (cases cb)
  case PollCb
  assume inv: "inv3 w"
  have "inv3 (send_request w)"
    by (rule inv3_cong [OF inv]) simp_all
  with PollCb show ?thesis by simp
next
  case IdleCb
  assume "inv3 w"
  with IdleCb show ?thesis by (simp add: inv3_showIdle3)
next
  case (GraceCb u)
  assume "inv3 w"
  with GraceCb show ?thesis by simp
qed

lemma inv3_visibility: "inv3 w \<Longrightarrow> inv3 (onVisibilityChange IDLE_POLL_MS3 h w)"
  unfolding inv3_def onVisibilityChange_def
  by (auto simp: timers_ok_startPolling timers_ok_stopPolling no_grace_startPolling
      no_grace_stopPolling poll_ok_startPolling poll_ok_stopPolling session_ok_def
      startPolling_obs stopPolling_obs)

lemma inv3_step: "inv3 w \<Longrightarrow> inv3 (step3 resolveUrl e w)"
proof -
  assume inv: "inv3 w"
  have adv: "inv3 (advance d w)" for d
    by (rule inv3_cong [OF inv]) simp_all
  have onl: "inv3 (onload3 w)"
    by (rule inv3_cong [OF inv]) (simp_all add: onload3_obs split: handler.splits)
  show ?thesis
    using inv adv onl
    by (cases e)
      (auto simp: inv3_response inv3_callback inv3_expire inv3_visibility
        simp del: run_callback3.simps step3.simps(1) split: option.splits)
qed

lemma inv3_startup: "location_href p = None \<Longrightarrow> inv3 (startup3 p)"
  unfolding inv3_def timers_ok_def session_ok_def poll_ok_def no_grace_def
  by (cases "hidden p idle_el")
    (simp_all add: startup3_def startPolling_obs showIdle3_obs showIdle3_already
      initial3_def Let_def)

lemma reachable3_inv: "reachable3 resolveUrl w \<Longrightarrow> inv3 w"
  by (induction rule: reachable3.induct) (simp_all add: inv3_startup inv3_step del: step3.simps)

lemma showIdle4_already:
  "\<not> isActive w \<Longrightarrow> showIdle4 w = setBadge Badge_Idle_waiting_for_Monday w"
  by (simp add: showIdle4_def)

lemma showIdle4_obs:
  assumes "isActive w"
  shows
  "timers (showIdle4 w) =
     (cleared (pollTimer w) (cleared (activeTimer w) (timers w)))
       (next_id w \<mapsto> Interval PollCb IDLE_POLL_MS4)"
  "next_id (showIdle4 w) = Suc (next_id w)"
  "now (showIdle4 w) = now w"
  "inflight (showIdle4 w) = inflight w"
  "lastItemId (showIdle4 w) = None"
  "lastFormUrl (showIdle4 w) = None"
  "activeTimer (showIdle4 w) = activeTimer w"
  "pollTimer (showIdle4 w) = Some (next_id w)"
  "currentPollMs (showIdle4 w) = IDLE_POLL_MS4"
  "isActive (showIdle4 w) = False"
  "page (showIdle4 w) = (page w)\<lparr>
      hidden := (hidden (page w))(frame_el := True, loading_el := True, idle_el := False,
                   active_el := True, badge_el := False),
      badge_text := Some Badge_Idle_waiting_for_Monday\<rparr>"
  using assms
  by (simp_all add: showIdle4_def startPolling_obs Let_def)

lemma withoutUrl4_obs:
  "timers (withoutUrl4 item w) = timers w"
  "next_id (withoutUrl4 item w) = next_id w"
  "now (withoutUrl4 item w) = now w"
  "inflight (withoutUrl4 item w) = inflight w"
  "lastItemId (withoutUrl4 item w) = lastItemId w"
  "lastFormUrl (withoutUrl4 item w) = lastFormUrl w"
  "activeTimer (withoutUrl4 item w) = activeTimer w"
  "pollTimer (withoutUrl4 item w) = pollTimer w"
  "currentPollMs (withoutUrl4 item w) = currentPollMs w"
  "isActive (withoutUrl4 item w) = isActive w"
  "page (withoutUrl4 item w) = (page w)\<lparr>
      hidden := (hidden (page w))(idle_el := True, active_el := False, loading_el := False,
                   badge_el := False),
      badge_text := Some (Badge_Triggered item)\<rparr>"
  by (simp_all add: withoutUrl4_def Let_def)

lemma withUrl4_obs:
  "timers (withUrl4 resolveUrl url item w) = timers w"
  "next_id (withUrl4 resolveUrl url item w) = next_id w"
  "now (withUrl4 resolveUrl url item w) = now w"
  "inflight (withUrl4 resolveUrl url item w) = inflight w"
  "lastItemId (withUrl4 resolveUrl url item w) =
     (if lastFormUrl w \<noteq> Some url then item else lastItemId w)"
  "lastFormUrl (withUrl4 resolveUrl url item w) = Some url"
  "activeTimer (withUrl4 resolveUrl url item w) = activeTimer w"
  "pollTimer (withUrl4 resolveUrl url item w) = pollTimer w"
  "currentPollMs (withUrl4 resolveUrl url item w) = currentPollMs w"
  "isActive (withUrl4 resolveUrl url item w) = isActive w"
  "page (withUrl4 resolveUrl url item w) =
     (if lastFormUrl w \<noteq> Some url then
        (page w)\<lparr>
          hidden := (hidden (page w))(idle_el := True, active_el := False, loading_el := False,
                       frame_el := False),
          frame_src := (if get_src resolveUrl w \<noteq> url then Some url else frame_src (page w)),
          frame_onload := OnLoad item,
          src_log := (if get_src resolveUrl w \<noteq> url then src_log (page w) @ [url]
                      else src_log (page w))\<rparr>
      else page w)"
  by (auto simp: withUrl4_def get_src_def Let_def)

lemma showActive4_obs:
  "timers (showActive4 resolveUrl furl item w) =
     (let tm = (cleared (activeTimer w) (timers w))
                 (next_id w \<mapsto> Timeout IdleCb (now w + ACTIVE_TIMEOUT_MS))
      in if currentPollMs w \<noteq> ACTIVE_POLL_MS
         then (cleared (pollTimer w) tm)(Suc (next_id w) \<mapsto> Interval PollCb ACTIVE_POLL_MS)
         else tm)"
  "next_id (showActive4 resolveUrl furl item w) =
     (if currentPollMs w \<noteq> ACTIVE_POLL_MS then Suc (Suc (next_id w)) else Suc (next_id w))"
  "now (showActive4 resolveUrl furl item w) = now w"
  "inflight (showActive4 resolveUrl furl item w) = inflight w"
  "activeTimer (showActive4 resolveUrl furl item w) = Some (next_id w)"
  "pollTimer (showActive4 resolveUrl furl item w) =
     (if currentPollMs w \<noteq> ACTIVE_POLL_MS then Some (Suc (next_id w)) else pollTimer w)"
  "currentPollMs (showActive4 resolveUrl furl item w) = ACTIVE_POLL_MS"
  "isActive (showActive4 resolveUrl furl item w) = True"
  by (simp_all add: showActive4_def Let_def resetActiveTimer_obs resetActiveTimer_obs3
      startPolling_obs withUrl4_obs withoutUrl4_obs split: option.splits)

lemma showActive4_session:
  "lastFormUrl (showActive4 resolveUrl furl item w) =
     (case furl of None \<Rightarrow> lastFormUrl w
      | Some url \<Rightarrow> if url = [] then lastFormUrl w else Some url)"
  "lastItemId (showActive4 resolveUrl furl item w) =
     (case furl of None \<Rightarrow> lastItemId w
      | Some url \<Rightarrow> if url = [] \<or> lastFormUrl w = Some url then lastItemId w else item)"
  "page (showActive4 resolveUrl furl item w) =
     (case furl of None \<Rightarrow> page (withoutUrl4 item w)
      | Some url \<Rightarrow> if url = [] then page (withoutUrl4 item w)
                    else page (withUrl4 resolveUrl url item w))"
  by (simp_all add: showActive4_def Let_def resetActiveTimer_obs resetActiveTimer_obs3
      startPolling_obs withUrl4_obs withoutUrl4_obs get_src_def split: option.splits)

lemma pollOnce4_cases:
  assumes "P (showIdle4 w)"
    and "P (setBadge Badge_Connection_error w)"
    and "\<And>furl item. P (showActive4 resolveUrl furl item w)"
  shows "\<exists>w'. pollOnce4 resolveUrl fo w = Inr w' \<and> P w'"
  using assms
  by (simp add: pollOnce4_def pollOnce4_try_def Let_def split: sum.splits option.splits)

lemma inv4_cong:
  assumes "inv4 w"
    and "timers w' = timers w" "next_id w' = next_id w" "activeTimer w' = activeTimer w"
    and "lastItemId w' = lastItemId w" "lastFormUrl w' = lastFormUrl w"
    and "pollTimer w' = pollTimer w" "currentPollMs w' = currentPollMs w"
    and "isActive w' = isActive w"
    and "hidden (page w') idle_el = hidden (page w) idle_el"
    and "location_href (page w') = location_href (page w)"
  shows "inv4 w'"
proof -
  have "inv4 w' = inv4 w"
    unfolding inv4_def timers_ok_def session_ok4_def poll_ok_def no_grace_def
    by (simp only: assms(2-))
  with assms(1) show ?thesis by simp
qed

lemma inv4_setBadge: "inv4 w \<Longrightarrow> inv4 (setBadge b w)"
  by (erule inv4_cong) simp_all

lemma timers_ok_showIdle4: "timers_ok w \<Longrightarrow> timers_ok (showIdle4 w)"
  by (cases "isActive w") (auto simp: timers_ok_def showIdle4_obs showIdle4_already)

lemma poll_ok_showIdle4: "poll_ok IDLE_POLL_MS4 w \<Longrightarrow> poll_ok IDLE_POLL_MS4 (showIdle4 w)"
  by (cases "isActive w") (auto simp: poll_ok_def showIdle4_obs showIdle4_already)

lemma no_grace_showIdle4: "no_grace w \<Longrightarrow> no_grace (showIdle4 w)"
  by (cases "isActive w") (auto simp: no_grace_def showIdle4_obs showIdle4_already)

lemma session_ok4_showIdle4: "session_ok4 w \<Longrightarrow> session_ok4 (showIdle4 w)"
  by (cases "isActive w") (auto simp: session_ok4_def showIdle4_obs showIdle4_already)

lemma location_showIdle4: "location_href (page (showIdle4 w)) = location_href (page w)"
  by (cases "isActive w") (simp_all add: showIdle4_obs showIdle4_already)

lemma inv4_showIdle4: "inv4 w \<Longrightarrow> inv4 (showIdle4 w)"
  unfolding inv4_def
  by (simp add: timers_ok_showIdle4 poll_ok_showIdle4 no_grace_showIdle4 session_ok4_showIdle4
      location_showIdle4)

lemma timers_ok_showActive4: "timers_ok w \<Longrightarrow> timers_ok (showActive4 resolveUrl furl item w)"
  by (auto simp: timers_ok_def showActive4_obs Let_def)

lemma poll_ok_showActive4:
  "poll_ok IDLE_POLL_MS4 w \<Longrightarrow> poll_ok IDLE_POLL_MS4 (showActive4 resolveUrl furl item w)"
  by (auto simp: poll_ok_def showActive4_obs Let_def)

lemma no_grace_showActive4: "no_grace w \<Longrightarrow> no_grace (showActive4 resolveUrl furl item w)"
  by (auto simp: no_grace_def showActive4_obs Let_def)

lemma session_ok4_showActive4:
  "session_ok4 w \<Longrightarrow> session_ok4 (showActive4 resolveUrl furl item w)"
  by (auto simp: session_ok4_def showActive4_obs showActive4_session withUrl4_obs
      withoutUrl4_obs split: option.splits)

lemma location_showActive4:
  "location_href (page (showActive4 resolveUrl furl item w)) = location_href (page w)"
  by (simp add: showActive4_session withUrl4_obs withoutUrl4_obs split: option.splits)

lemma inv4_showActive4: "inv4 w \<Longrightarrow> inv4 (showActive4 resolveUrl furl item w)"
  unfolding inv4_def
  by (simp add: timers_ok_showActive4 poll_ok_showActive4 no_grace_showActive4
      session_ok4_showActive4 location_showActive4)

lemma inv4_expire: "inv4 w \<Longrightarrow> inv4 (expire i w)"
  unfolding inv4_def
  by (simp add: timers_ok_expire poll_ok_expire no_grace_expire session_ok4_def)

lemma inv4_response: "inv4 w \<Longrightarrow> inv4 (step4 resolveUrl (Response fo) w)"
proof -
  assume inv: "inv4 w"
  have inv0: "inv4 (response_arrives w)"
    by (rule inv4_cong [OF inv]) simp_all
  have "\<exists>w'. pollOnce4 resolveUrl fo (response_arrives w) = Inr w' \<and> inv4 w'"
    by (rule pollOnce4_cases)
      (intro inv4_showIdle4 inv4_setBadge inv4_showActive4 inv0 | assumption)+
  then show ?thesis
    using inv by auto
qed

lemma inv4_callback: "inv4 w \<Longrightarrow> inv4 (run_callback4 cb w)"
proof (cases cb)
  case PollCb
  assume inv: "inv4 w"
  have "inv4 (send_request w)"
    by (rule inv4_cong [OF inv]) simp_all
  with PollCb show ?thesis by simp
next
  case IdleCb
  assume "inv4 w"
  with IdleCb show ?thesis by (simp add: inv4_showIdle4)
next
  case (GraceCb u)
  assume "inv4 w"
  with GraceCb show ?thesis by simp
qed

lemma inv4_visibility: "inv4 w \<Longrightarrow> inv4 (onVisibilityChange IDLE_POLL_MS4 h w)"
  unfolding inv4_def onVisibilityChange_def
  by (auto simp: timers_ok_startPolling timers_ok_stopPolling no_grace_startPolling
      no_grace_stopPolling poll_ok_startPolling poll_ok_stopPolling session_ok4_def
      startPolling_obs stopPolling_obs)

lemma inv4_step: "inv4 w \<Longrightarrow> inv4 (step4 resolveUrl e w)"
proof -
  assume inv: "inv4 w"
  have adv: "inv4 (advance d w)" for d
    by (rule inv4_cong [OF inv]) simp_all
  have onl: "inv4 (onload3 w)"
    by (rule inv4_cong [OF inv]) (simp_all add: onload3_obs split: handler.splits)
  show ?thesis
    using inv adv onl
    by (cases e)
      (auto simp: inv4_response inv4_callback inv4_expire inv4_visibility
        simp del: run_callback4.simps step4.simps(1) split: option.splits)
qed

lemma inv4_startup: "location_href p = None \<Longrightarrow> inv4 (startup4 p)"
  unfolding inv4_def timers_ok_def session_ok4_def poll_ok_def no_grace_def
  by (simp add: startup4_def showIdle4_obs initial4_def Let_def)

lemma reachable4_inv: "reachable4 resolveUrl w \<Longrightarrow> inv4 w"
  by (induction rule: reachable4.induct) (simp_all add: inv4_startup inv4_step del: step4.simps)

section \<open>Reachability of runs\<close>

lemma reachable1_run: "reachable1 w \<Longrightarrow> reachable1 (run1 es w)"
  by (induction es arbitrary: w) (simp_all add: next1 del: step1.simps)

lemma reachable2_run: "reachable2 w \<Longrightarrow> reachable2 (run2 es w)"
  by (induction es arbitrary: w) (simp_all add: next2 del: step2.simps)

lemma reachable3_run: "reachable3 resolveUrl w \<Longrightarrow> reachable3 resolveUrl (run3 resolveUrl es w)"
  by (induction es arbitrary: w) (simp_all add: next3 del: step3.simps)

lemma reachable4_run: "reachable4 resolveUrl w \<Longrightarrow> reachable4 resolveUrl (run4 resolveUrl es w)"
  by (induction es arbitrary: w) (simp_all add: next4 del: step4.simps)

lemma page0_loaded: "location_href page0 = None"
  by (simp add: page0_def)

lemma display_idle_iff: "display_state w = Idle \<longleftrightarrow> \<not> hidden (page w) idle_el"
  by (simp add: display_state_def)

section \<open>Session invariant\<close>

lemma session_display1: "reachable1 w \<Longrightarrow> display_state w = Idle \<longleftrightarrow> session_empty w"
  using reachable1_inv [of w]
  by (auto simp: inv1_def session_ok_def display_idle_iff session_empty_def)

lemma session_display2: "reachable2 w \<Longrightarrow> display_state w = Idle \<longleftrightarrow> session_empty w"
  using reachable2_inv [of w]
  by (auto simp: inv2_def session_ok_def display_idle_iff session_empty_def)

lemma session_display3:
  "reachable3 resolveUrl w \<Longrightarrow> display_state w = Idle \<longleftrightarrow> session_empty w"
  using reachable3_inv [of resolveUrl w]
  by (auto simp: inv3_def session_ok_def display_idle_iff session_empty_def)

lemma session_display4:
  "reachable4 resolveUrl w \<Longrightarrow> display_state w = Idle \<Longrightarrow> session_empty w"
  using reachable4_inv [of resolveUrl w]
  by (auto simp: inv4_def session_ok4_def display_idle_iff session_empty_def)

text \<open>
  C4, as amended. In every reachable state of the two halves of script.js and of the
  warm-iframe script the display is Idle exactly when the session
  (\<^verbatim>\<open>lastItemId\<close>, \<^verbatim>\<open>lastFormUrl\<close>) is empty; in every reachable state of the re-optimised
  script an Idle display implies an empty session.
\<close>

theorem C4_session_invariant:
  "(reachable1 w1 \<longrightarrow> (display_state w1 = Idle \<longleftrightarrow> session_empty w1)) \<and>
   (reachable2 w2 \<longrightarrow> (display_state w2 = Idle \<longleftrightarrow> session_empty w2)) \<and>
   (reachable3 resolveUrl w3 \<longrightarrow> (display_state w3 = Idle \<longleftrightarrow> session_empty w3)) \<and>
   (reachable4 resolveUrl w4 \<longrightarrow> (display_state w4 = Idle \<longrightarrow> session_empty w4))"
  using session_display1 [of w1] session_display2 [of w2]
    session_display3 [of resolveUrl w3] session_display4 [of resolveUrl w4]
  by blast

theorem C4_session_invariant_witness:
  "reachable1 (run1 [serves record42] (startup1 page0)) \<and>
   reachable2 (run2 [serves record42] (startup2 page0)) \<and>
   reachable3 id (run3 id [serves record42] (startup3 page0)) \<and>
   reachable4 id (startup4 page0) \<and>
   display_state (startup4 page0) = Idle \<and>
   ((display_state (run1 [serves record42] (startup1 page0)) = Idle) =
      session_empty (run1 [serves record42] (startup1 page0))) \<and>
   ((display_state (run2 [serves record42] (startup2 page0)) = Idle) =
      session_empty (run2 [serves record42] (startup2 page0))) \<and>
   ((display_state (run3 id [serves record42] (startup3 page0)) = Idle) =
      session_empty (run3 id [serves record42] (startup3 page0))) \<and>
   session_empty (startup4 page0)"
proof -
  have r1: "reachable1 (run1 [serves record42] (startup1 page0))"
    by (intro reachable1_run start1 page0_loaded)
  have r2: "reachable2 (run2 [serves record42] (startup2 page0))"
    by (intro reachable2_run start2 page0_loaded)
  have r3: "reachable3 id (run3 id [serves record42] (startup3 page0))"
    by (intro reachable3_run start3 page0_loaded)
  have r4: "reachable4 id (startup4 page0)"
    by (intro start4 page0_loaded)
  have d4: "display_state (startup4 page0) = Idle"
    by (simp add: display_idle_iff startup4_def showIdle4_obs initial4_def Let_def)
  show ?thesis
    using r1 r2 r3 r4 d4
      C4_session_invariant [of "run1 [serves record42] (startup1 page0)"
        "run2 [serves record42] (startup2 page0)" id
        "run3 id [serves record42] (startup3 page0)" "startup4 page0"]
    by blast
qed

text \<open>
  The claim as first stated fails in the re-optimised script: an active record without
  a form URL puts up the loading screen while the session stays empty.
\<close>

theorem C4_counterexample:
  "reachable4 id (run4 id [serves record_no_url] (startup4 page0)) \<and>
   display_state (run4 id [serves record_no_url] (startup4 page0)) = ActiveLoading \<and>
   session_empty (run4 id [serves record_no_url] (startup4 page0))"
proof -
  have r: "reachable4 id (run4 id [serves record_no_url] (startup4 page0))"
    by (intro reachable4_run start4 page0_loaded)
  have s: "inflight (startup4 page0) = 1" "lastFormUrl (startup4 page0) = None"
    "lastItemId (startup4 page0) = None"
    by (simp_all add: startup4_def showIdle4_obs initial4_def Let_def)
  have w: "run4 id [serves record_no_url] (startup4 page0) =
      showActive4 id None (Some ''42'') (response_arrives (startup4 page0))"
    by (simp add: serves_def record_no_url_def pollOnce4_def pollOnce4_try_def ok_def s)
  show ?thesis
    using r unfolding w
    by (simp add: display_state_def session_empty_def showActive4_session withoutUrl4_obs s)
qed

section \<open>Startup\<close>

lemma display_state_cong: "page w' = page w \<Longrightarrow> display_state w' = display_state w"
  by (simp add: display_state_def)

lemma idle_stable1:
  assumes "display_state w = Idle" "session_empty w" "\<not> is_response e"
  shows "display_state (step1 e w) = Idle \<and> session_empty (step1 e w)"
proof -
  have cb: "display_state (run_callback1 cb (expire i w)) = Idle \<and>
      session_empty (run_callback1 cb (expire i w))" for cb i
    using assms(1,2)
    by (cases cb)
      (simp_all add: display_idle_iff session_empty_def showIdle1_obs switchToRedirect_obs)
  have ol: "display_state (onload1 w) = Idle \<and> session_empty (onload1 w)"
    using assms(1,2)
    by (cases "frame_onload (page w)")
      (simp_all add: display_idle_iff session_empty_def onload1_obs)
  show ?thesis
    using assms cb ol
    by (cases e)
      (auto simp: display_idle_iff session_empty_def simp del: run_callback1.simps
        split: option.splits)
qed

lemma idle_stable2:
  assumes "display_state w = Idle" "session_empty w" "\<not> is_response e"
  shows "display_state (step2 e w) = Idle \<and> session_empty (step2 e w)"
proof -
  have cb: "display_state (run_callback2 cb (expire i w)) = Idle \<and>
      session_empty (run_callback2 cb (expire i w))" for cb i
    using assms(1,2)
    by (cases cb) (simp_all add: display_idle_iff session_empty_def showIdle2_obs)
  have ol: "display_state (onload2 w) = Idle \<and> session_empty (onload2 w)"
    using assms(1,2)
    by (cases "frame_onload (page w)")
      (simp_all add: display_idle_iff session_empty_def onload2_def)
  show ?thesis
    using assms cb ol
    by (cases e)
      (auto simp: display_idle_iff session_empty_def simp del: run_callback2.simps
        split: option.splits)
qed

lemma showIdle3_idle:
  "display_state (showIdle3 w) = Idle"
  "isActive w \<or> session_empty w \<Longrightarrow> session_empty (showIdle3 w)"
  by (cases "isActive w \<or> hidden (page w) idle_el";
      simp add: display_idle_iff session_empty_def showIdle3_obs showIdle3_already)+

lemma idle_stable3:
  assumes "display_state w = Idle" "session_empty w" "\<not> is_response e"
  shows "display_state (step3 resolveUrl e w) = Idle \<and> session_empty (step3 resolveUrl e w)"
proof -
  have e: "session_empty (expire i w)" for i
    using assms(2) by (simp add: session_empty_def)
  have cb: "display_state (run_callback3 cb (expire i w)) = Idle \<and>
      session_empty (run_callback3 cb (expire i w))" for cb i
    using assms(1,2) e [of i]
    by (cases cb) (simp_all add: showIdle3_idle, simp_all add: display_idle_iff session_empty_def)
  have ol: "display_state (onload3 w) = Idle \<and> session_empty (onload3 w)"
    using assms(1,2)
    by (cases "frame_onload (page w)")
      (simp_all add: display_idle_iff session_empty_def onload3_obs)
  have vis: "display_state (onVisibilityChange ms h w) = Idle \<and>
      session_empty (onVisibilityChange ms h w)" for ms h
    using assms(1,2)
    by (simp add: onVisibilityChange_def display_idle_iff session_empty_def
        startPolling_obs stopPolling_obs)
  show ?thesis
    using assms cb ol vis
    by (cases e)
      (auto simp: display_idle_iff session_empty_def simp del: run_callback3.simps
        split: option.splits)
qed

lemma showIdle4_idle:
  "isActive w \<or> \<not> hidden (page w) idle_el \<Longrightarrow> display_state (showIdle4 w) = Idle"
  "isActive w \<or> session_empty w \<Longrightarrow> session_empty (showIdle4 w)"
  by (cases "isActive w";
      simp add: display_idle_iff session_empty_def showIdle4_obs showIdle4_already)+

lemma idle_stable4:
  assumes "display_state w = Idle" "session_empty w" "\<not> is_response e"
  shows "display_state (step4 resolveUrl e w) = Idle \<and> session_empty (step4 resolveUrl e w)"
proof -
  have e: "session_empty (expire i w)" "\<not> hidden (page (expire i w)) idle_el" for i
    using assms(1,2) by (simp_all add: session_empty_def display_idle_iff)
  have cb: "display_state (run_callback4 cb (expire i w)) = Idle \<and>
      session_empty (run_callback4 cb (expire i w))" for cb i
    using assms(1,2) e [of i]
    by (cases cb) (simp_all add: showIdle4_idle, simp_all add: display_idle_iff session_empty_def)
  have ol: "display_state (onload3 w) = Idle \<and> session_empty (onload3 w)"
    using assms(1,2)
    by (cases "frame_onload (page w)")
      (simp_all add: display_idle_iff session_empty_def onload3_obs)
  have vis: "display_state (onVisibilityChange ms h w) = Idle \<and>
      session_empty (onVisibilityChange ms h w)" for ms h
    using assms(1,2)
    by (simp add: onVisibilityChange_def display_idle_iff session_empty_def
        startPolling_obs stopPolling_obs)
  show ?thesis
    using assms cb ol vis
    by (cases e)
      (auto simp: display_idle_iff session_empty_def simp del: run_callback4.simps
        split: option.splits)
qed

lemma idle_run1:
  "display_state w = Idle \<Longrightarrow> session_empty w \<Longrightarrow> no_response es \<Longrightarrow>
   display_state (run1 es w) = Idle \<and> session_empty (run1 es w)"
proof (induction es arbitrary: w)
  case Nil
  then show ?case by simp
next
  case (Cons e es)
  from Cons.prems have "display_state (step1 e w) = Idle \<and> session_empty (step1 e w)"
    by (intro idle_stable1) simp_all
  with Cons.IH [of "step1 e w"] Cons.prems show ?case by simp
qed

lemma idle_run2:
  "display_state w = Idle \<Longrightarrow> session_empty w \<Longrightarrow> no_response es \<Longrightarrow>
   display_state (run2 es w) = Idle \<and> session_empty (run2 es w)"
proof (induction es arbitrary: w)
  case Nil
  then show ?case by simp
next
  case (Cons e es)
  from Cons.prems have "display_state (step2 e w) = Idle \<and> session_empty (step2 e w)"
    by (intro idle_stable2) simp_all
  with Cons.IH [of "step2 e w"] Cons.prems show ?case by simp
qed

lemma idle_run3:
  "display_state w = Idle \<Longrightarrow> session_empty w \<Longrightarrow> no_response es \<Longrightarrow>
   display_state (run3 resolveUrl es w) = Idle \<and> session_empty (run3 resolveUrl es w)"
proof (induction es arbitrary: w)
  case Nil
  then show ?case by simp
next
  case (Cons e es)
  from Cons.prems have
    "display_state (step3 resolveUrl e w) = Idle \<and> session_empty (step3 resolveUrl e w)"
    by (intro idle_stable3) simp_all
  with Cons.IH [of "step3 resolveUrl e w"] Cons.prems show ?case by simp
qed

lemma idle_run4:
  "display_state w = Idle \<Longrightarrow> session_empty w \<Longrightarrow> no_response es \<Longrightarrow>
   display_state (run4 resolveUrl es w) = Idle \<and> session_empty (run4 resolveUrl es w)"
proof (induction es arbitrary: w)
  case Nil
  then show ?case by simp
next
  case (Cons e es)
  from Cons.prems have
    "display_state (step4 resolveUrl e w) = Idle \<and> session_empty (step4 resolveUrl e w)"
    by (intro idle_stable4) simp_all
  with Cons.IH [of "step4 resolveUrl e w"] Cons.prems show ?case by simp
qed

lemma first_idle1:
  "display_state (showIdle1 (initial1 p)) = Idle" "session_empty (showIdle1 (initial1 p))"
  "inflight (showIdle1 (initial1 p)) = 0" "timers (showIdle1 (initial1 p)) = Map.empty"
  "display_state (startup1 p) = Idle" "session_empty (startup1 p)"
  by (simp_all add: display_idle_iff session_empty_def startup1_def showIdle1_obs initial1_def
      setInterval_def Let_def)

lemma first_idle2:
  "display_state (showIdle2 (initial2 p)) = Idle" "session_empty (showIdle2 (initial2 p))"
  "inflight (showIdle2 (initial2 p)) = 0" "timers (showIdle2 (initial2 p)) = Map.empty"
  "display_state (startup2 p) = Idle" "session_empty (startup2 p)"
  by (simp_all add: display_idle_iff session_empty_def startup2_def showIdle2_obs initial2_def
      setInterval_def Let_def)

lemma first_idle3:
  "display_state (showIdle3 (initial3 p)) = Idle" "session_empty (showIdle3 (initial3 p))"
  "inflight (showIdle3 (initial3 p)) = 0"
  "display_state (startup3 p) = Idle" "session_empty (startup3 p)"
  by (cases "hidden p idle_el";
      simp add: display_idle_iff session_empty_def startup3_def showIdle3_obs showIdle3_already
        startPolling_obs initial3_def Let_def)+

lemma first_idle4:
  "display_state (showIdle4 ((initial4 p)\<lparr>isActive := True\<rparr>)) = Idle"
  "session_empty (showIdle4 ((initial4 p)\<lparr>isActive := True\<rparr>))"
  "inflight (showIdle4 ((initial4 p)\<lparr>isActive := True\<rparr>)) = 0"
  "display_state (startup4 p) = Idle" "session_empty (startup4 p)"
  by (simp_all add: display_idle_iff session_empty_def startup4_def showIdle4_obs initial4_def
      Let_def)

text \<open>
  C10. In each of the four scripts the first thing startup does to the initial state
  (no timer, no request) is the Idle transition: after it the display is Idle, the
  session is empty and no request has been sent (in the two halves of script.js no timer
  is scheduled either). The display stays Idle and the session empty through the rest
  of startup and through every run of events that contains no poll response.
\<close>

theorem C10_startup_idle:
  "(display_state (showIdle1 (initial1 p)) = Idle \<and> session_empty (showIdle1 (initial1 p)) \<and>
    inflight (showIdle1 (initial1 p)) = 0 \<and> timers (showIdle1 (initial1 p)) = Map.empty \<and>
    (no_response es1 \<longrightarrow>
       display_state (run1 es1 (startup1 p)) = Idle \<and> session_empty (run1 es1 (startup1 p)))) \<and>
   (display_state (showIdle2 (initial2 p)) = Idle \<and> session_empty (showIdle2 (initial2 p)) \<and>
    inflight (showIdle2 (initial2 p)) = 0 \<and> timers (showIdle2 (initial2 p)) = Map.empty \<and>
    (no_response es2 \<longrightarrow>
       display_state (run2 es2 (startup2 p)) = Idle \<and> session_empty (run2 es2 (startup2 p)))) \<and>
   (display_state (showIdle3 (initial3 p)) = Idle \<and> session_empty (showIdle3 (initial3 p)) \<and>
    inflight (showIdle3 (initial3 p)) = 0 \<and>
    (no_response es3 \<longrightarrow>
       display_state (run3 resolveUrl es3 (startup3 p)) = Idle \<and>
       session_empty (run3 resolveUrl es3 (startup3 p)))) \<and>
   (display_state (showIdle4 ((initial4 p)\<lparr>isActive := True\<rparr>)) = Idle \<and>
    session_empty (showIdle4 ((initial4 p)\<lparr>isActive := True\<rparr>)) \<and>
    inflight (showIdle4 ((initial4 p)\<lparr>isActive := True\<rparr>)) = 0 \<and>
    (no_response es4 \<longrightarrow>
       display_state (run4 resolveUrl es4 (startup4 p)) = Idle \<and>
       session_empty (run4 resolveUrl es4 (startup4 p))))"
  using idle_run1 [of "startup1 p" es1] idle_run2 [of "startup2 p" es2]
    idle_run3 [of "startup3 p" es3 resolveUrl] idle_run4 [of "startup4 p" es4 resolveUrl]
  by (simp add: first_idle1 first_idle2 first_idle3 first_idle4)

theorem C10_startup_idle_witness:
  "no_response [TimerFire 1, Advance 700, FrameLoad, Visibility True, Visibility False] \<and>
   display_state
     (run1 [TimerFire 1, Advance 700, FrameLoad, Visibility True, Visibility False]
        (startup1 page0)) = Idle \<and>
   session_empty
     (run1 [TimerFire 1, Advance 700, FrameLoad, Visibility True, Visibility False]
        (startup1 page0)) \<and>
   display_state
     (run2 [TimerFire 1, Advance 700, FrameLoad, Visibility True, Visibility False]
        (startup2 page0)) = Idle \<and>
   session_empty
     (run2 [TimerFire 1, Advance 700, FrameLoad, Visibility True, Visibility False]
        (startup2 page0)) \<and>
   display_state
     (run3 id [TimerFire 1, Advance 700, FrameLoad, Visibility True, Visibility False]
        (startup3 page0)) = Idle \<and>
   session_empty
     (run3 id [TimerFire 1, Advance 700, FrameLoad, Visibility True, Visibility False]
        (startup3 page0)) \<and>
   display_state
     (run4 id [TimerFire 1, Advance 700, FrameLoad, Visibility True, Visibility False]
        (startup4 page0)) = Idle \<and>
   session_empty
     (run4 id [TimerFire 1, Advance 700, FrameLoad, Visibility True, Visibility False]
        (startup4 page0))"
proof -
  have n: "no_response [TimerFire 1, Advance 700, FrameLoad, Visibility True, Visibility False]"
    by simp
  show ?thesis
    using n
      C10_startup_idle [of page0
        "[TimerFire 1, Advance 700, FrameLoad, Visibility True, Visibility False]"
        "[TimerFire 1, Advance 700, FrameLoad, Visibility True, Visibility False]"
        "[TimerFire 1, Advance 700, FrameLoad, Visibility True, Visibility False]" id
        "[TimerFire 1, Advance 700, FrameLoad, Visibility True, Visibility False]"]
    by blast
qed

section \<open>Inactive records and failed fetches\<close>

lemma pollLoop1_idle:
  assumes "fetch_fails fo \<or> reports_inactive fo"
  shows "pollLoop1 fo w = Inr (showIdle1 w) \<or>
         pollLoop1 fo w = Inr (setBadge Badge_Idle_fetch_error (showIdle1 w))"
  using assms
  by (cases "fetchActive fo")
    (auto simp: fetch_fails_def reports_inactive_def pollLoop1_def pollLoop1_try_def
      SHOW_DEBUG_BADGE_def split: option.splits)

lemma pollOnce2_idle:
  assumes "fetch_fails fo \<or> reports_inactive fo"
  shows "pollOnce2 fo w = Inr (showIdle2 w) \<or>
         pollOnce2 fo w = Inr (setBadge Badge_Idle_fetch_error (showIdle2 w))"
  using assms
  by (cases "fetchActive fo")
    (auto simp: fetch_fails_def reports_inactive_def pollOnce2_def pollOnce2_try_def
      split: option.splits)

lemma pollOnce3_idle:
  assumes "fetch_fails fo \<or> reports_inactive fo"
  shows "pollOnce3 resolveUrl fo w = Inr (showIdle3 w) \<or>
         pollOnce3 resolveUrl fo w = Inr (setBadge Badge_Idle_fetch_error (showIdle3 w))"
  using assms
  by (cases "fetchActive fo")
    (auto simp: fetch_fails_def reports_inactive_def pollOnce3_def pollOnce3_try_def
      split: option.splits)

lemma pollOnce4_idle:
  assumes "reports_inactive fo"
  shows "pollOnce4 resolveUrl fo w = Inr (showIdle4 w)"
  using assms
  by (cases "fetchActive fo")
    (auto simp: reports_inactive_def pollOnce4_def pollOnce4_try_def split: option.splits)

lemma pollOnce4_fails:
  assumes "fetch_fails fo"
  shows "pollOnce4 resolveUrl fo w = Inr (setBadge Badge_Connection_error w)"
  using assms
  by (cases "fetchActive fo")
    (auto simp: fetch_fails_def pollOnce4_def pollOnce4_try_def)

lemma inactive_idle1:
  assumes "location_href (page w) = None" "0 < inflight w"
    and "fetch_fails fo \<or> reports_inactive fo"
  shows "display_state (step1 (Response fo) w) = Idle \<and> session_empty (step1 (Response fo) w)"
  using assms(1,2) pollLoop1_idle [OF assms(3), of "response_arrives w"]
  by (auto simp: display_idle_iff session_empty_def showIdle1_obs)

lemma inactive_idle2:
  assumes "0 < inflight w" and "fetch_fails fo \<or> reports_inactive fo"
  shows "display_state (step2 (Response fo) w) = Idle \<and> session_empty (step2 (Response fo) w)"
  using assms(1) pollOnce2_idle [OF assms(2), of "response_arrives w"]
  by (auto simp: display_idle_iff session_empty_def showIdle2_obs)

lemma inactive_idle3:
  assumes "reachable3 resolveUrl w" "0 < inflight w"
    and "fetch_fails fo \<or> reports_inactive fo"
  shows "display_state (step3 resolveUrl (Response fo) w) = Idle \<and>
         session_empty (step3 resolveUrl (Response fo) w)"
proof -
  have "inv3 w" by (rule reachable3_inv [OF assms(1)])
  then have "isActive (response_arrives w) \<or> session_empty (response_arrives w)"
    by (auto simp: inv3_def session_ok_def session_empty_def)
  then have s: "session_empty (showIdle3 (response_arrives w))"
    by (rule showIdle3_idle(2))
  have d: "display_state (showIdle3 (response_arrives w)) = Idle"
    by (rule showIdle3_idle(1))
  show ?thesis
    using assms(2) pollOnce3_idle [OF assms(3), of resolveUrl "response_arrives w"] s d
    by (auto simp: display_idle_iff session_empty_def)
qed

lemma inactive_idle4:
  assumes "reachable4 resolveUrl w" "0 < inflight w" and "reports_inactive fo"
  shows "display_state (step4 resolveUrl (Response fo) w) = Idle \<and>
         session_empty (step4 resolveUrl (Response fo) w)"
proof -
  have "inv4 w" by (rule reachable4_inv [OF assms(1)])
  then have a: "isActive (response_arrives w) \<or> \<not> hidden (page (response_arrives w)) idle_el"
    and b: "isActive (response_arrives w) \<or> session_empty (response_arrives w)"
    by (auto simp: inv4_def session_ok4_def session_empty_def)
  show ?thesis
    using assms(2) pollOnce4_idle [OF assms(3), of resolveUrl "response_arrives w"]
      showIdle4_idle(1) [OF a] showIdle4_idle(2) [OF b]
    by simp
qed

lemma failure_keeps4:
  assumes "0 < inflight w" and "fetch_fails fo"
  shows "step4 resolveUrl (Response fo) w = setBadge Badge_Connection_error (response_arrives w)"
  using assms(1) pollOnce4_fails [OF assms(2), of resolveUrl "response_arrives w"]
  by simp

text \<open>
  C1, as amended. A poll cycle whose fetch fails, or whose record is absent or not
  active, leaves the display Idle and the session empty whatever the state before, in
  the two halves of script.js (while the kiosk page is the loaded document) and in the
  warm-iframe script. In the re-optimised script an absent or inactive record does the
  same, while a failed fetch changes only the badge: display state and session stay as
  they were.
\<close>

theorem C1_inactive_goes_idle:
  "(location_href (page w1) = None \<and> 0 < inflight w1 \<and>
      (fetch_fails fo1 \<or> reports_inactive fo1) \<longrightarrow>
      display_state (step1 (Response fo1) w1) = Idle \<and>
      session_empty (step1 (Response fo1) w1)) \<and>
   (0 < inflight w2 \<and> (fetch_fails fo2 \<or> reports_inactive fo2) \<longrightarrow>
      display_state (step2 (Response fo2) w2) = Idle \<and>
      session_empty (step2 (Response fo2) w2)) \<and>
   (reachable3 resolveUrl w3 \<and> 0 < inflight w3 \<and>
      (fetch_fails fo3 \<or> reports_inactive fo3) \<longrightarrow>
      display_state (step3 resolveUrl (Response fo3) w3) = Idle \<and>
      session_empty (step3 resolveUrl (Response fo3) w3)) \<and>
   (reachable4 resolveUrl w4 \<and> 0 < inflight w4 \<and> reports_inactive fo4 \<longrightarrow>
      display_state (step4 resolveUrl (Response fo4) w4) = Idle \<and>
      session_empty (step4 resolveUrl (Response fo4) w4)) \<and>
   (0 < inflight w5 \<and> fetch_fails fo5 \<longrightarrow>
      display_state (step4 resolveUrl (Response fo5) w5) = display_state w5 \<and>
      lastItemId (step4 resolveUrl (Response fo5) w5) = lastItemId w5 \<and>
      lastFormUrl (step4 resolveUrl (Response fo5) w5) = lastFormUrl w5)"
proof (intro conjI impI)
  assume "location_href (page w1) = None \<and> 0 < inflight w1 \<and>
    (fetch_fails fo1 \<or> reports_inactive fo1)"
  then show "display_state (step1 (Response fo1) w1) = Idle"
    and "session_empty (step1 (Response fo1) w1)"
    using inactive_idle1 [of w1 fo1] by blast+
next
  assume "0 < inflight w2 \<and> (fetch_fails fo2 \<or> reports_inactive fo2)"
  then show "display_state (step2 (Response fo2) w2) = Idle"
    and "session_empty (step2 (Response fo2) w2)"
    using inactive_idle2 [of w2 fo2] by blast+
next
  assume "reachable3 resolveUrl w3 \<and> 0 < inflight w3 \<and>
    (fetch_fails fo3 \<or> reports_inactive fo3)"
  then show "display_state (step3 resolveUrl (Response fo3) w3) = Idle"
    and "session_empty (step3 resolveUrl (Response fo3) w3)"
    using inactive_idle3 [of resolveUrl w3 fo3] by blast+
next
  assume "reachable4 resolveUrl w4 \<and> 0 < inflight w4 \<and> reports_inactive fo4"
  then show "display_state (step4 resolveUrl (Response fo4) w4) = Idle"
    and "session_empty (step4 resolveUrl (Response fo4) w4)"
    using inactive_idle4 [of resolveUrl w4 fo4] by blast+
next
  assume a: "0 < inflight w5 \<and> fetch_fails fo5"
  then have "step4 resolveUrl (Response fo5) w5 =
      setBadge Badge_Connection_error (response_arrives w5)"
    by (intro failure_keeps4) simp_all
  then show "display_state (step4 resolveUrl (Response fo5) w5) = display_state w5"
    and "lastItemId (step4 resolveUrl (Response fo5) w5) = lastItemId w5"
    and "lastFormUrl (step4 resolveUrl (Response fo5) w5) = lastFormUrl w5"
    by (simp_all add: display_state_def)
qed

section \<open>What one event does\<close>

lemma offers_record [simp]:
  "offers (Http 200 (Parsed (Some r))) url item \<longleftrightarrow>
     active r \<and> formUrl r = Some url \<and> url \<noteq> [] \<and> itemId r = item"
  by (simp add: offers_def ok_def)

lemma reports_inactive_record [simp]:
  "reports_inactive (Http 200 (Parsed (Some r))) \<longleftrightarrow> \<not> active r"
  by (simp add: reports_inactive_def ok_def)

lemma fetch_fails_simps [simp]:
  "fetch_fails NetworkFailure"
  "fetch_fails (Http 500 b)"
  "\<not> fetch_fails (Http 200 (Parsed d))"
  by (simp_all add: fetch_fails_def ok_def)

lemma pollLoop1_offer:
  "offers fo url item \<Longrightarrow> pollLoop1 fo w = Inr (showActive1 url (or_unknown item) w)"
  by (cases "fetchActive fo")
    (auto simp: offers_def pollLoop1_def pollLoop1_try_def Let_def split: option.splits)

lemma pollOnce2_offer:
  "offers fo url item \<Longrightarrow> pollOnce2 fo w = Inr (showActive2 url (or_unknown item) w)"
  by (cases "fetchActive fo")
    (auto simp: offers_def pollOnce2_def pollOnce2_try_def Let_def split: option.splits)

lemma pollOnce3_offer:
  "offers fo url item \<Longrightarrow>
   pollOnce3 resolveUrl fo w = Inr (showActive3 resolveUrl url (or_unknown item) w)"
  by (cases "fetchActive fo")
    (auto simp: offers_def pollOnce3_def pollOnce3_try_def Let_def split: option.splits)

lemma pollOnce4_offer:
  "offers fo url item \<Longrightarrow>
   pollOnce4 resolveUrl fo w = Inr (showActive4 resolveUrl (Some url) item w)"
  by (cases "fetchActive fo")
    (auto simp: offers_def pollOnce4_def pollOnce4_try_def Let_def split: option.splits)

lemma step1_offer:
  "location_href (page w) = None \<Longrightarrow> 0 < inflight w \<Longrightarrow> offers fo url item \<Longrightarrow>
   step1 (Response fo) w = showActive1 url (or_unknown item) (response_arrives w)"
  by (simp add: pollLoop1_offer)

lemma step2_offer:
  "0 < inflight w \<Longrightarrow> offers fo url item \<Longrightarrow>
   step2 (Response fo) w = showActive2 url (or_unknown item) (response_arrives w)"
  by (simp add: pollOnce2_offer)

lemma step3_offer:
  "0 < inflight w \<Longrightarrow> offers fo url item \<Longrightarrow>
   step3 resolveUrl (Response fo) w =
     showActive3 resolveUrl url (or_unknown item) (response_arrives w)"
  by (simp add: pollOnce3_offer)

lemma step4_offer:
  "0 < inflight w \<Longrightarrow> offers fo url item \<Longrightarrow>
   step4 resolveUrl (Response fo) w =
     showActive4 resolveUrl (Some url) item (response_arrives w)"
  by (simp add: pollOnce4_offer)

lemma step1_off:
  "location_href (page w) = None \<Longrightarrow> 0 < inflight w \<Longrightarrow>
   step1 (serves record_off) w = showIdle1 (response_arrives w)"
  by (simp add: serves_def record_off_def pollLoop1_def pollLoop1_try_def ok_def)

lemma step2_off:
  "0 < inflight w \<Longrightarrow> step2 (serves record_off) w = showIdle2 (response_arrives w)"
  by (simp add: serves_def record_off_def pollOnce2_def pollOnce2_try_def ok_def)

lemma step3_off:
  "0 < inflight w \<Longrightarrow>
   step3 resolveUrl (serves record_off) w = showIdle3 (response_arrives w)"
  by (simp add: serves_def record_off_def pollOnce3_def pollOnce3_try_def ok_def)

lemma step4_off:
  "0 < inflight w \<Longrightarrow>
   step4 resolveUrl (serves record_off) w = showIdle4 (response_arrives w)"
  by (simp add: serves_def record_off_def pollOnce4_def pollOnce4_try_def ok_def)

lemma step1_tick:
  "location_href (page w) = None \<Longrightarrow> timers w i = Some (Interval PollCb ms) \<Longrightarrow>
   step1 (TimerFire i) w = send_request w"
  by (simp add: ready_def expire_def)

lemma step2_tick:
  "timers w i = Some (Interval PollCb ms) \<Longrightarrow> step2 (TimerFire i) w = send_request w"
  by (simp add: ready_def expire_def)

lemma step3_tick:
  "timers w i = Some (Interval PollCb ms) \<Longrightarrow>
   step3 resolveUrl (TimerFire i) w = send_request w"
  by (simp add: ready_def expire_def)

lemma step4_tick:
  "timers w i = Some (Interval PollCb ms) \<Longrightarrow>
   step4 resolveUrl (TimerFire i) w = send_request w"
  by (simp add: ready_def expire_def)

lemma startup1_obs:
  "timers (startup1 p) = [1 \<mapsto> Interval PollCb POLL_INTERVAL_MS]"
  "next_id (startup1 p) = 2" "now (startup1 p) = 0" "inflight (startup1 p) = 1"
  "lastItemId (startup1 p) = None" "lastFormUrl (startup1 p) = None"
  "activeTimer (startup1 p) = None" "iframeLoadTimer (startup1 p) = None"
  "redirecting (startup1 p) = False"
  "page (startup1 p) = p\<lparr>
      hidden := (hidden p)(frame_el := True, redirectMode_el := True, loading_el := True,
                   idle_el := False, active_el := True, badge_el := False),
      badge_text := Some Badge_Idle, frame_src := None\<rparr>"
  by (simp_all add: startup1_def setInterval_def showIdle1_obs initial1_def Let_def)

lemma startup2_obs:
  "timers (startup2 p) = [1 \<mapsto> Interval PollCb POLL_INTERVAL_MS]"
  "next_id (startup2 p) = 2" "now (startup2 p) = 0" "inflight (startup2 p) = 1"
  "lastItemId (startup2 p) = None" "lastFormUrl (startup2 p) = None"
  "activeTimer (startup2 p) = None"
  "page (startup2 p) = p\<lparr>
      hidden := (hidden p)(frame_el := True, loading_el := True, idle_el := False,
                   active_el := True, badge_el := False),
      badge_text := Some Badge_Idle, frame_src := None\<rparr>"
  by (simp_all add: startup2_def setInterval_def showIdle2_obs initial2_def Let_def)

lemma startup3_obs:
  assumes "\<not> hidden p idle_el"
  shows
  "timers (startup3 p) = [1 \<mapsto> Interval PollCb IDLE_POLL_MS3]"
  "next_id (startup3 p) = 2" "now (startup3 p) = 0" "inflight (startup3 p) = 1"
  "lastItemId (startup3 p) = None" "lastFormUrl (startup3 p) = None"
  "activeTimer (startup3 p) = None" "pollTimer (startup3 p) = Some 1"
  "currentPollMs (startup3 p) = IDLE_POLL_MS3" "isActive (startup3 p) = False"
  "page (startup3 p) = p"
  using assms
  by (simp_all add: startup3_def startPolling_obs showIdle3_already initial3_def Let_def)

lemma startup4_obs:
  "timers (startup4 p) = [1 \<mapsto> Interval PollCb IDLE_POLL_MS4]"
  "next_id (startup4 p) = 2" "now (startup4 p) = 0" "inflight (startup4 p) = 1"
  "lastItemId (startup4 p) = None" "lastFormUrl (startup4 p) = None"
  "activeTimer (startup4 p) = None" "pollTimer (startup4 p) = Some 1"
  "currentPollMs (startup4 p) = IDLE_POLL_MS4" "isActive (startup4 p) = False"
  "page (startup4 p) = p\<lparr>
      hidden := (hidden p)(frame_el := True, loading_el := True, idle_el := False,
                   active_el := True, badge_el := False),
      badge_text := Some Badge_Idle_waiting_for_Monday\<rparr>"
  by (simp_all add: startup4_def showIdle4_obs initial4_def Let_def)

section \<open>Evaluating the sample runs\<close>

lemma step1_serves:
  "location_href (page w) = None \<Longrightarrow> 0 < inflight w \<Longrightarrow> active r \<Longrightarrow>
   formUrl r \<noteq> None \<Longrightarrow> formUrl r \<noteq> Some [] \<Longrightarrow>
   step1 (serves r) w = showActive1 (the (formUrl r)) (or_unknown (itemId r)) (response_arrives w)"
  unfolding serves_def by (rule step1_offer) auto

lemma step2_serves:
  "0 < inflight w \<Longrightarrow> active r \<Longrightarrow> formUrl r \<noteq> None \<Longrightarrow> formUrl r \<noteq> Some [] \<Longrightarrow>
   step2 (serves r) w = showActive2 (the (formUrl r)) (or_unknown (itemId r)) (response_arrives w)"
  unfolding serves_def by (rule step2_offer) auto

lemma step3_serves:
  "0 < inflight w \<Longrightarrow> active r \<Longrightarrow> formUrl r \<noteq> None \<Longrightarrow> formUrl r \<noteq> Some [] \<Longrightarrow>
   step3 resolveUrl (serves r) w =
     showActive3 resolveUrl (the (formUrl r)) (or_unknown (itemId r)) (response_arrives w)"
  unfolding serves_def by (rule step3_offer) auto

lemma step4_serves:
  "0 < inflight w \<Longrightarrow> active r \<Longrightarrow> formUrl r \<noteq> None \<Longrightarrow> formUrl r \<noteq> Some [] \<Longrightarrow>
   step4 resolveUrl (serves r) w =
     showActive4 resolveUrl (formUrl r) (itemId r) (response_arrives w)"
  using step4_offer [of w "Http 200 (Parsed (Some r))" "the (formUrl r)" "itemId r" resolveUrl]
  unfolding serves_def by (cases "formUrl r") simp_all

lemma step1_advance:
  "location_href (page w) = None \<Longrightarrow> step1 (Advance d) w = advance d w"
  by simp

lemma step1_frameload:
  "location_href (page w) = None \<Longrightarrow> step1 FrameLoad w = onload1 w"
  by simp

lemma sample_records [simp]:
  "active record42" "itemId record42 = Some ''42''" "formUrl record42 = Some ''https://x/f''"
  "active record43" "itemId record43 = Some ''43''" "formUrl record43 = Some ''https://x/g''"
  "active record_no_url" "itemId record_no_url = Some ''42''" "formUrl record_no_url = None"
  "\<not> active record_off"
  by (simp_all add: record42_def record43_def record_no_url_def record_off_def)

lemma page0_simps [simp]:
  "hidden page0 e = (e \<noteq> idle_el)" "frame_src page0 = None" "src_log page0 = []"
  "location_href page0 = None" "frame_onload page0 = NoHandler"
  by (simp_all add: page0_def)

lemmas sample_defs = or_unknown_def POLL_INTERVAL_MS_def ACTIVE_TIMEOUT_MS_def
  IFRAME_LOAD_GRACE_MS_def IDLE_POLL_MS3_def IDLE_POLL_MS4_def ACTIVE_POLL_MS_def

lemma arrives_after_send: "response_arrives (send_request w) = w"
  by (simp add: response_arrives_def send_request_def)

lemma busy1_reachable: "reachable1 busy1"
  unfolding busy1_def by (intro reachable1_run start1 page0_loaded)

lemma busy2_reachable: "reachable2 busy2"
  unfolding busy2_def by (intro reachable2_run start2 page0_loaded)

lemma busy3_reachable: "reachable3 id busy3"
  unfolding busy3_def by (intro reachable3_run start3 page0_loaded)

lemma busy4_reachable: "reachable4 id busy4"
  unfolding busy4_def by (intro reachable4_run start4 page0_loaded)

lemma busy1_is: "busy1 = showActive1 ''https://x/f'' ''42'' (startup1 page0)"
  by (simp add: arrives_after_send busy1_def step1_serves step1_tick startup1_obs sample_defs del: step1.simps)

lemma busy2_is: "busy2 = showActive2 ''https://x/f'' ''42'' (startup2 page0)"
  by (simp add: arrives_after_send busy2_def step2_serves step2_tick startup2_obs sample_defs del: step2.simps)

lemma busy3_is: "busy3 = showActive3 id ''https://x/f'' ''42'' (startup3 page0)"
  by (simp add: arrives_after_send busy3_def step3_serves step3_tick startup3_obs sample_defs del: step3.simps)

lemma busy4_is: "busy4 = showActive4 id (Some ''https://x/f'') (Some ''42'') (startup4 page0)"
  by (simp add: arrives_after_send busy4_def step4_serves step4_tick startup4_obs sample_defs del: step4.simps)

lemma busy1_facts:
  "location_href (page busy1) = None" "inflight busy1 = 1" "now busy1 = 0"
  "lastItemId busy1 = Some ''42''" "lastFormUrl busy1 = Some ''https://x/f''"
  "display_state busy1 = ActiveLoading" "src_log (page busy1) = [''https://x/f'']"
  "next_id busy1 = 4" "activeTimer busy1 = Some 3" "iframeLoadTimer busy1 = Some 2"
  "timers busy1 1 = Some (Interval PollCb 1000)"
  "timers busy1 2 = Some (Timeout (GraceCb ''https://x/f'') 2500)"
  "timers busy1 3 = Some (Timeout IdleCb 120000)"
  "redirecting busy1 = False"
  by (simp_all add: busy1_is showActive1_obs startup1_obs display_state_def sample_defs)

lemma busy2_facts:
  "inflight busy2 = 1" "now busy2 = 0"
  "lastItemId busy2 = Some ''42''" "lastFormUrl busy2 = Some ''https://x/f''"
  "display_state busy2 = ActiveLoading" "src_log (page busy2) = [''https://x/f'']"
  "next_id busy2 = 3" "activeTimer busy2 = Some 2"
  "timers busy2 1 = Some (Interval PollCb 1000)"
  "timers busy2 2 = Some (Timeout IdleCb 120000)"
  by (simp_all add: busy2_is showActive2_obs startup2_obs display_state_def sample_defs)

lemma busy3_facts:
  "inflight busy3 = 1" "now busy3 = 0"
  "lastItemId busy3 = Some ''42''" "lastFormUrl busy3 = Some ''https://x/f''"
  "display_state busy3 = ActiveLoading" "src_log (page busy3) = [''https://x/f'']"
  "next_id busy3 = 4" "activeTimer busy3 = Some 2" "pollTimer busy3 = Some 3"
  "isActive busy3"
  "timers busy3 1 = None"
  "timers busy3 2 = Some (Timeout IdleCb 120000)"
  "timers busy3 3 = Some (Interval PollCb 500)"
  by (simp_all add: busy3_is showActive3_obs startup3_obs display_state_def get_src_def
      sample_defs)

lemma busy4_facts:
  "inflight busy4 = 1" "now busy4 = 0"
  "lastItemId busy4 = Some ''42''" "lastFormUrl busy4 = Some ''https://x/f''"
  "display_state busy4 = ActiveLoading" "src_log (page busy4) = [''https://x/f'']"
  "next_id busy4 = 4" "activeTimer busy4 = Some 2" "pollTimer busy4 = Some 3"
  "isActive busy4"
  "timers busy4 1 = None"
  "timers busy4 2 = Some (Timeout IdleCb 120000)"
  "timers busy4 3 = Some (Interval PollCb 500)"
  by (simp_all add: busy4_is showActive4_obs showActive4_session withUrl4_obs startup4_obs
      display_state_def get_src_def sample_defs Let_def)

section \<open>C1: witness and counterexample\<close>

lemma display_state_frame [simp]:
  "display_state (setBadge b w) = display_state w"
  "display_state (response_arrives w) = display_state w"
  "display_state (send_request w) = display_state w"
  "display_state (advance d w) = display_state w"
  "display_state (expire i w) = display_state w"
  by (simp_all add: display_state_def)

theorem C1_inactive_goes_idle_witness:
  "location_href (page busy1) = None \<and> 0 < inflight busy1 \<and> fetch_fails (Http 500 Malformed) \<and>
   display_state (step1 (Response (Http 500 Malformed)) busy1) = Idle \<and>
   session_empty (step1 (Response (Http 500 Malformed)) busy1) \<and>
   0 < inflight busy2 \<and> fetch_fails NetworkFailure \<and>
   display_state (step2 (Response NetworkFailure) busy2) = Idle \<and>
   session_empty (step2 (Response NetworkFailure) busy2) \<and>
   reachable3 id busy3 \<and> 0 < inflight busy3 \<and>
   reports_inactive (Http 200 (Parsed (Some record_off))) \<and>
   display_state (step3 id (serves record_off) busy3) = Idle \<and>
   session_empty (step3 id (serves record_off) busy3) \<and>
   reachable4 id busy4 \<and> 0 < inflight busy4 \<and>
   display_state (step4 id (serves record_off) busy4) = Idle \<and>
   session_empty (step4 id (serves record_off) busy4) \<and>
   display_state (step4 id (Response NetworkFailure) busy4) = display_state busy4 \<and>
   lastItemId (step4 id (Response NetworkFailure) busy4) = lastItemId busy4 \<and>
   lastFormUrl (step4 id (Response NetworkFailure) busy4) = lastFormUrl busy4"
  using C1_inactive_goes_idle [of busy1 "Http 500 Malformed" busy2 NetworkFailure id busy3
      "Http 200 (Parsed (Some record_off))" busy4 "Http 200 (Parsed (Some record_off))"
      busy4 NetworkFailure]
    busy3_reachable busy4_reachable
  by (simp add: busy1_facts busy2_facts busy3_facts busy4_facts serves_def del: step1.simps
      step2.simps step3.simps step4.simps)

text \<open>
  The claim as first stated fails in the re-optimised script: with the form of item 42
  on display, a poll that ends in a transport failure leaves the display on the form
  and the session in place.
\<close>

theorem C1_counterexample:
  "reachable4 id busy4 \<and> 0 < inflight busy4 \<and> fetch_fails NetworkFailure \<and>
   display_state (step4 id (Response NetworkFailure) busy4) = ActiveLoading \<and>
   lastFormUrl (step4 id (Response NetworkFailure) busy4) = Some ''https://x/f''"
  using busy4_reachable
  by (simp add: failure_keeps4 busy4_facts del: step4.simps)

section \<open>Same-session polls\<close>

lemma same1:
  assumes "location_href (page w) = None" "0 < inflight w" "offers fo url item"
    and "lastFormUrl w = Some url" "lastItemId w = Some (or_unknown item)"
  shows "step1 (Response fo) w = response_arrives w"
  using assms by (simp add: step1_offer showActive1_same del: step1.simps)

lemma same2:
  assumes "0 < inflight w" "offers fo url item"
    and "lastFormUrl w = Some url" "lastItemId w = Some (or_unknown item)"
  shows "step2 (Response fo) w = resetActiveTimer (response_arrives w)"
  using assms by (simp add: step2_offer showActive2_def del: step2.simps)

lemma same3:
  assumes "reachable3 resolveUrl w" "0 < inflight w" "offers fo url item"
    and "lastFormUrl w = Some url" "lastItemId w = Some (or_unknown item)"
  shows "step3 resolveUrl (Response fo) w = resetActiveTimer (response_arrives w)"
proof -
  have "inv3 w" by (rule reachable3_inv [OF assms(1)])
  with assms(4) have "isActive w" by (simp add: inv3_def)
  with assms show ?thesis
    by (simp add: step3_offer showActive3_same del: step3.simps)
qed

lemma same4_page:
  assumes "0 < inflight w" "offers fo url item" and "lastFormUrl w = Some url"
  shows "page (step4 resolveUrl (Response fo) w) = page w"
proof -
  from assms(2) have "url \<noteq> []"
    by (auto simp: offers_def split: sum.splits option.splits)
  with assms show ?thesis
    by (simp add: step4_offer showActive4_session withUrl4_obs del: step4.simps)
qed

lemma offers_nonempty: "offers fo url item \<Longrightarrow> url \<noteq> []"
  by (auto simp: offers_def split: sum.splits option.splits)

text \<open>
  C2. A poll cycle that returns an active record with a non-empty form URL equal to the
  session's, and (in the first three scripts) an item id equal to the session's after
  defaulting to "unknown", leaves the whole page as it was: no assignment to the frame's
  \<^verbatim>\<open>src\<close> is logged and the frame's source, visibility and load handler are
  unchanged. (The re-optimised script compares the URL only.)
\<close>

theorem C2_same_session_no_surface_change:
  "(location_href (page w1) = None \<and> 0 < inflight w1 \<and> offers fo1 url1 item1 \<and>
      lastFormUrl w1 = Some url1 \<and> lastItemId w1 = Some (or_unknown item1) \<longrightarrow>
      page (step1 (Response fo1) w1) = page w1) \<and>
   (0 < inflight w2 \<and> offers fo2 url2 item2 \<and>
      lastFormUrl w2 = Some url2 \<and> lastItemId w2 = Some (or_unknown item2) \<longrightarrow>
      page (step2 (Response fo2) w2) = page w2) \<and>
   (reachable3 resolveUrl w3 \<and> 0 < inflight w3 \<and> offers fo3 url3 item3 \<and>
      lastFormUrl w3 = Some url3 \<and> lastItemId w3 = Some (or_unknown item3) \<longrightarrow>
      page (step3 resolveUrl (Response fo3) w3) = page w3) \<and>
   (0 < inflight w4 \<and> offers fo4 url4 item4 \<and> lastFormUrl w4 = Some url4 \<longrightarrow>
      page (step4 resolveUrl (Response fo4) w4) = page w4)"
proof (intro conjI impI)
  assume "location_href (page w1) = None \<and> 0 < inflight w1 \<and> offers fo1 url1 item1 \<and>
    lastFormUrl w1 = Some url1 \<and> lastItemId w1 = Some (or_unknown item1)"
  then have "step1 (Response fo1) w1 = response_arrives w1"
    by (intro same1 [of w1 fo1 url1 item1]) simp_all
  then show "page (step1 (Response fo1) w1) = page w1" by simp
next
  assume "0 < inflight w2 \<and> offers fo2 url2 item2 \<and>
    lastFormUrl w2 = Some url2 \<and> lastItemId w2 = Some (or_unknown item2)"
  then have "step2 (Response fo2) w2 = resetActiveTimer (response_arrives w2)"
    by (intro same2 [of w2 fo2 url2 item2]) simp_all
  then show "page (step2 (Response fo2) w2) = page w2"
    by (simp add: resetActiveTimer_obs)
next
  assume "reachable3 resolveUrl w3 \<and> 0 < inflight w3 \<and> offers fo3 url3 item3 \<and>
    lastFormUrl w3 = Some url3 \<and> lastItemId w3 = Some (or_unknown item3)"
  then have "step3 resolveUrl (Response fo3) w3 = resetActiveTimer (response_arrives w3)"
    by (intro same3 [of resolveUrl w3 fo3 url3 item3]) simp_all
  then show "page (step3 resolveUrl (Response fo3) w3) = page w3"
    by (simp add: resetActiveTimer_obs)
next
  assume "0 < inflight w4 \<and> offers fo4 url4 item4 \<and> lastFormUrl w4 = Some url4"
  then show "page (step4 resolveUrl (Response fo4) w4) = page w4"
    by (intro same4_page [of w4 fo4 url4 item4]) simp_all
qed

theorem C2_same_session_no_surface_change_witness:
  "location_href (page busy1) = None \<and> 0 < inflight busy1 \<and>
   offers (Http 200 (Parsed (Some record42))) ''https://x/f'' (Some ''42'') \<and>
   lastFormUrl busy1 = Some ''https://x/f'' \<and> lastItemId busy1 = Some (or_unknown (Some ''42'')) \<and>
   page (step1 (serves record42) busy1) = page busy1 \<and>
   0 < inflight busy2 \<and> lastFormUrl busy2 = Some ''https://x/f'' \<and>
   lastItemId busy2 = Some (or_unknown (Some ''42'')) \<and>
   page (step2 (serves record42) busy2) = page busy2 \<and>
   reachable3 id busy3 \<and> 0 < inflight busy3 \<and> lastFormUrl busy3 = Some ''https://x/f'' \<and>
   lastItemId busy3 = Some (or_unknown (Some ''42'')) \<and>
   page (step3 id (serves record42) busy3) = page busy3 \<and>
   0 < inflight busy4 \<and> lastFormUrl busy4 = Some ''https://x/f'' \<and>
   page (step4 id (serves record42) busy4) = page busy4"
  using C2_same_session_no_surface_change [of busy1 "Http 200 (Parsed (Some record42))"
      "''https://x/f''" "Some ''42''" busy2 "Http 200 (Parsed (Some record42))"
      "''https://x/f''" "Some ''42''" id busy3 "Http 200 (Parsed (Some record42))"
      "''https://x/f''" "Some ''42''" busy4 "Http 200 (Parsed (Some record42))"
      "''https://x/f''" "Some ''42''"]
    busy3_reachable
  by (simp add: busy1_facts busy2_facts busy3_facts busy4_facts serves_def or_unknown_def
      del: step1.simps step2.simps step3.simps step4.simps)

section \<open>Re-arming the inactivity timer\<close>

text \<open>From here on a step is unfolded only where a proof asks for it.\<close>

declare step1.simps [simp del] step2.simps [simp del] step3.simps [simp del]
  step4.simps [simp del]

lemma only_inactivity:
  assumes "timers_ok w" "activeTimer w = Some n"
    and "timers w j = Some t" "role_of t = Inactivity"
  shows "j = n"
  using assms unfolding timers_ok_def by fastforce

lemma rearmed2:
  assumes "reachable2 w" "0 < inflight w" "offers fo url item"
    and "lastFormUrl w = Some url" "lastItemId w = Some (or_unknown item)"
  shows "activeTimer (step2 (Response fo) w) = Some (next_id w)"
    and "timers (step2 (Response fo) w) (next_id w) =
           Some (Timeout IdleCb (now w + ACTIVE_TIMEOUT_MS))"
    and "timers (step2 (Response fo) w) j = Some t \<Longrightarrow> role_of t = Inactivity \<Longrightarrow>
           j = next_id w"
proof -
  have s: "step2 (Response fo) w = resetActiveTimer (response_arrives w)"
    using assms(2-5) by (rule same2)
  show a: "activeTimer (step2 (Response fo) w) = Some (next_id w)"
    by (simp add: s resetActiveTimer_obs)
  show "timers (step2 (Response fo) w) (next_id w) =
      Some (Timeout IdleCb (now w + ACTIVE_TIMEOUT_MS))"
    by (simp add: s resetActiveTimer_obs)
  have "inv2 (step2 (Response fo) w)"
    by (intro reachable2_inv next2 assms(1))
  then have "timers_ok (step2 (Response fo) w)" by (simp add: inv2_def)
  then show "timers (step2 (Response fo) w) j = Some t \<Longrightarrow> role_of t = Inactivity \<Longrightarrow>
      j = next_id w"
    using a by (rule only_inactivity)
qed

lemma rearmed3:
  assumes "reachable3 resolveUrl w" "0 < inflight w" "offers fo url item"
    and "lastFormUrl w = Some url" "lastItemId w = Some (or_unknown item)"
  shows "activeTimer (step3 resolveUrl (Response fo) w) = Some (next_id w)"
    and "timers (step3 resolveUrl (Response fo) w) (next_id w) =
           Some (Timeout IdleCb (now w + ACTIVE_TIMEOUT_MS))"
    and "timers (step3 resolveUrl (Response fo) w) j = Some t \<Longrightarrow> role_of t = Inactivity \<Longrightarrow>
           j = next_id w"
proof -
  have s: "step3 resolveUrl (Response fo) w = resetActiveTimer (response_arrives w)"
    using assms by (rule same3)
  show a: "activeTimer (step3 resolveUrl (Response fo) w) = Some (next_id w)"
    by (simp add: s resetActiveTimer_obs)
  show "timers (step3 resolveUrl (Response fo) w) (next_id w) =
      Some (Timeout IdleCb (now w + ACTIVE_TIMEOUT_MS))"
    by (simp add: s resetActiveTimer_obs)
  have "inv3 (step3 resolveUrl (Response fo) w)"
    by (rule reachable3_inv [of resolveUrl]) (intro next3 assms(1))
  then have "timers_ok (step3 resolveUrl (Response fo) w)" by (simp add: inv3_def)
  then show "timers (step3 resolveUrl (Response fo) w) j = Some t \<Longrightarrow>
      role_of t = Inactivity \<Longrightarrow> j = next_id w"
    using a by (rule only_inactivity)
qed

lemma rearmed4:
  assumes "reachable4 resolveUrl w" "0 < inflight w" "offers fo url item"
  shows "activeTimer (step4 resolveUrl (Response fo) w) = Some (next_id w)"
    and "timers (step4 resolveUrl (Response fo) w) (next_id w) =
           Some (Timeout IdleCb (now w + ACTIVE_TIMEOUT_MS))"
    and "timers (step4 resolveUrl (Response fo) w) j = Some t \<Longrightarrow> role_of t = Inactivity \<Longrightarrow>
           j = next_id w"
proof -
  have s: "step4 resolveUrl (Response fo) w =
      showActive4 resolveUrl (Some url) item (response_arrives w)"
    using assms(2,3) by (rule step4_offer)
  have "inv4 w" by (rule reachable4_inv [OF assms(1)])
  then have p: "pollTimer w \<noteq> Some (next_id w)"
    unfolding inv4_def poll_ok_def by fastforce
  show a: "activeTimer (step4 resolveUrl (Response fo) w) = Some (next_id w)"
    by (simp add: s showActive4_obs)
  show "timers (step4 resolveUrl (Response fo) w) (next_id w) =
      Some (Timeout IdleCb (now w + ACTIVE_TIMEOUT_MS))"
    using p by (simp add: s showActive4_obs Let_def)
  have "inv4 (step4 resolveUrl (Response fo) w)"
    by (rule reachable4_inv [of resolveUrl]) (intro next4 assms(1))
  then have "timers_ok (step4 resolveUrl (Response fo) w)" by (simp add: inv4_def)
  then show "timers (step4 resolveUrl (Response fo) w) j = Some t \<Longrightarrow>
      role_of t = Inactivity \<Longrightarrow> j = next_id w"
    using a by (rule only_inactivity)
qed

text \<open>
  C5, as amended. In the iframe-only script and in both adaptive-polling scripts, a poll
  cycle that returns the active record of the session on display re-arms the inactivity
  timer: after the cycle \<^verbatim>\<open>state.activeTimer\<close> names a fresh timeout due
  \<^verbatim>\<open>ACTIVE_TIMEOUT_MS\<close> after the time of the cycle, and no other inactivity timeout is
  live. (The re-optimised script re-arms on every active record.) In the first script
  such a cycle leaves the timers and \<^verbatim>\<open>state.activeTimer\<close> as they were.
\<close>

theorem C5_refresh_rearms_timer:
  "(reachable2 w2 \<and> 0 < inflight w2 \<and> offers fo2 url2 item2 \<and>
      lastFormUrl w2 = Some url2 \<and> lastItemId w2 = Some (or_unknown item2) \<longrightarrow>
      activeTimer (step2 (Response fo2) w2) = Some (next_id w2) \<and>
      timers (step2 (Response fo2) w2) (next_id w2) =
        Some (Timeout IdleCb (now w2 + ACTIVE_TIMEOUT_MS)) \<and>
      (\<forall>j t. timers (step2 (Response fo2) w2) j = Some t \<and> role_of t = Inactivity \<longrightarrow>
         j = next_id w2)) \<and>
   (reachable3 resolveUrl w3 \<and> 0 < inflight w3 \<and> offers fo3 url3 item3 \<and>
      lastFormUrl w3 = Some url3 \<and> lastItemId w3 = Some (or_unknown item3) \<longrightarrow>
      activeTimer (step3 resolveUrl (Response fo3) w3) = Some (next_id w3) \<and>
      timers (step3 resolveUrl (Response fo3) w3) (next_id w3) =
        Some (Timeout IdleCb (now w3 + ACTIVE_TIMEOUT_MS)) \<and>
      (\<forall>j t. timers (step3 resolveUrl (Response fo3) w3) j = Some t \<and>
         role_of t = Inactivity \<longrightarrow> j = next_id w3)) \<and>
   (reachable4 resolveUrl w4 \<and> 0 < inflight w4 \<and> offers fo4 url4 item4 \<longrightarrow>
      activeTimer (step4 resolveUrl (Response fo4) w4) = Some (next_id w4) \<and>
      timers (step4 resolveUrl (Response fo4) w4) (next_id w4) =
        Some (Timeout IdleCb (now w4 + ACTIVE_TIMEOUT_MS)) \<and>
      (\<forall>j t. timers (step4 resolveUrl (Response fo4) w4) j = Some t \<and>
         role_of t = Inactivity \<longrightarrow> j = next_id w4)) \<and>
   (location_href (page w1) = None \<and> 0 < inflight w1 \<and> offers fo1 url1 item1 \<and>
      lastFormUrl w1 = Some url1 \<and> lastItemId w1 = Some (or_unknown item1) \<longrightarrow>
      timers (step1 (Response fo1) w1) = timers w1 \<and>
      activeTimer (step1 (Response fo1) w1) = activeTimer w1)"
proof (intro conjI impI allI)
  assume a: "reachable2 w2 \<and> 0 < inflight w2 \<and> offers fo2 url2 item2 \<and>
    lastFormUrl w2 = Some url2 \<and> lastItemId w2 = Some (or_unknown item2)"
  then show "activeTimer (step2 (Response fo2) w2) = Some (next_id w2)"
    by (intro rearmed2(1) [of w2 fo2 url2 item2]) simp_all
  from a show "timers (step2 (Response fo2) w2) (next_id w2) =
      Some (Timeout IdleCb (now w2 + ACTIVE_TIMEOUT_MS))"
    by (intro rearmed2(2) [of w2 fo2 url2 item2]) simp_all
  fix j t
  assume "timers (step2 (Response fo2) w2) j = Some t \<and> role_of t = Inactivity"
  with a show "j = next_id w2"
    by (intro rearmed2(3) [of w2 fo2 url2 item2 j t]) simp_all
next
  assume a: "reachable3 resolveUrl w3 \<and> 0 < inflight w3 \<and> offers fo3 url3 item3 \<and>
    lastFormUrl w3 = Some url3 \<and> lastItemId w3 = Some (or_unknown item3)"
  then show "activeTimer (step3 resolveUrl (Response fo3) w3) = Some (next_id w3)"
    by (intro rearmed3(1) [of resolveUrl w3 fo3 url3 item3]) simp_all
  from a show "timers (step3 resolveUrl (Response fo3) w3) (next_id w3) =
      Some (Timeout IdleCb (now w3 + ACTIVE_TIMEOUT_MS))"
    by (intro rearmed3(2) [of resolveUrl w3 fo3 url3 item3]) simp_all
  fix j t
  assume "timers (step3 resolveUrl (Response fo3) w3) j = Some t \<and> role_of t = Inactivity"
  with a show "j = next_id w3"
    by (intro rearmed3(3) [of resolveUrl w3 fo3 url3 item3 j t]) simp_all
next
  assume a: "reachable4 resolveUrl w4 \<and> 0 < inflight w4 \<and> offers fo4 url4 item4"
  then show "activeTimer (step4 resolveUrl (Response fo4) w4) = Some (next_id w4)"
    by (intro rearmed4(1) [of resolveUrl w4 fo4 url4 item4]) simp_all
  from a show "timers (step4 resolveUrl (Response fo4) w4) (next_id w4) =
      Some (Timeout IdleCb (now w4 + ACTIVE_TIMEOUT_MS))"
    by (intro rearmed4(2) [of resolveUrl w4 fo4 url4 item4]) simp_all
  fix j t
  assume "timers (step4 resolveUrl (Response fo4) w4) j = Some t \<and> role_of t = Inactivity"
  with a show "j = next_id w4"
    by (intro rearmed4(3) [of resolveUrl w4 fo4 url4 item4 j t]) simp_all
next
  assume "location_href (page w1) = None \<and> 0 < inflight w1 \<and> offers fo1 url1 item1 \<and>
    lastFormUrl w1 = Some url1 \<and> lastItemId w1 = Some (or_unknown item1)"
  then have s: "step1 (Response fo1) w1 = response_arrives w1"
    by (intro same1 [of w1 fo1 url1 item1]) simp_all
  show "timers (step1 (Response fo1) w1) = timers w1"
    and "activeTimer (step1 (Response fo1) w1) = activeTimer w1"
    by (simp_all add: s)
qed

lemma later1_facts:
  "location_href (page (step1 (Advance 1000) busy1)) = None"
  "inflight (step1 (Advance 1000) busy1) = 1" "now (step1 (Advance 1000) busy1) = 1000"
  "lastItemId (step1 (Advance 1000) busy1) = Some ''42''"
  "lastFormUrl (step1 (Advance 1000) busy1) = Some ''https://x/f''"
  "activeTimer (step1 (Advance 1000) busy1) = Some 3"
  "timers (step1 (Advance 1000) busy1) 3 = Some (Timeout IdleCb 120000)"
  by (simp_all add: step1_advance busy1_facts)

theorem C5_refresh_rearms_timer_witness:
  "reachable2 busy2 \<and> 0 < inflight busy2 \<and>
   offers (Http 200 (Parsed (Some record42))) ''https://x/f'' (Some ''42'') \<and>
   lastFormUrl busy2 = Some ''https://x/f'' \<and> lastItemId busy2 = Some (or_unknown (Some ''42'')) \<and>
   activeTimer (step2 (serves record42) busy2) = Some 3 \<and>
   timers (step2 (serves record42) busy2) 3 = Some (Timeout IdleCb 120000) \<and>
   reachable3 id busy3 \<and> 0 < inflight busy3 \<and>
   lastFormUrl busy3 = Some ''https://x/f'' \<and> lastItemId busy3 = Some (or_unknown (Some ''42'')) \<and>
   activeTimer (step3 id (serves record42) busy3) = Some 4 \<and>
   timers (step3 id (serves record42) busy3) 4 = Some (Timeout IdleCb 120000) \<and>
   reachable4 id busy4 \<and> 0 < inflight busy4 \<and>
   activeTimer (step4 id (serves record42) busy4) = Some 4 \<and>
   timers (step4 id (serves record42) busy4) 4 = Some (Timeout IdleCb 120000) \<and>
   location_href (page busy1) = None \<and> 0 < inflight busy1 \<and>
   lastFormUrl busy1 = Some ''https://x/f'' \<and> lastItemId busy1 = Some (or_unknown (Some ''42'')) \<and>
   timers (step1 (serves record42) busy1) = timers busy1 \<and>
   activeTimer (step1 (serves record42) busy1) = Some 3"
  using C5_refresh_rearms_timer [of busy2 "Http 200 (Parsed (Some record42))"
      "''https://x/f''" "Some ''42''" id busy3 "Http 200 (Parsed (Some record42))"
      "''https://x/f''" "Some ''42''" busy4 "Http 200 (Parsed (Some record42))"
      "''https://x/f''" "Some ''42''" busy1 "Http 200 (Parsed (Some record42))"
      "''https://x/f''" "Some ''42''"]
    busy2_reachable busy3_reachable busy4_reachable
  by (simp add: busy1_facts busy2_facts busy3_facts busy4_facts serves_def or_unknown_def
      ACTIVE_TIMEOUT_MS_def)

text \<open>
  The claim as first stated fails in the first script: one second into the session the
  same record arrives again, and the inactivity timeout is still the one armed at the
  start of the session, due at 120000 rather than at 121000.
\<close>

theorem C5_counterexample:
  "location_href (page (step1 (Advance 1000) busy1)) = None \<and>
   0 < inflight (step1 (Advance 1000) busy1) \<and>
   offers (Http 200 (Parsed (Some record42))) ''https://x/f'' (Some ''42'') \<and>
   lastFormUrl (step1 (Advance 1000) busy1) = Some ''https://x/f'' \<and>
   lastItemId (step1 (Advance 1000) busy1) = Some (or_unknown (Some ''42'')) \<and>
   now (step1 (Advance 1000) busy1) = 1000 \<and>
   activeTimer (step1 (serves record42) (step1 (Advance 1000) busy1)) = Some 3 \<and>
   timers (step1 (serves record42) (step1 (Advance 1000) busy1)) 3 =
     Some (Timeout IdleCb 120000)"
proof -
  have "step1 (serves record42) (step1 (Advance 1000) busy1) =
      response_arrives (step1 (Advance 1000) busy1)"
    unfolding serves_def
    by (rule same1 [of _ _ "''https://x/f''" "Some ''42''"])
      (simp_all add: later1_facts or_unknown_def)
  then show ?thesis
    by (simp add: later1_facts or_unknown_def)
qed

section \<open>Session changes\<close>

lemma change1:
  assumes "location_href (page w) = None" "0 < inflight w" "offers fo url item"
    and "\<not> (lastItemId w = Some (or_unknown item) \<and> lastFormUrl w = Some url)"
  shows "src_log (page (step1 (Response fo) w)) = src_log (page w) @ [url]"
    and "frame_src (page (step1 (Response fo) w)) = Some url"
    and "lastItemId (step1 (Response fo) w) = Some (or_unknown item)"
    and "lastFormUrl (step1 (Response fo) w) = Some url"
    and "display_state (step1 (Response fo) w) = ActiveLoading"
    and "display_state (step1 FrameLoad (step1 (Response fo) w)) = ActiveLoaded"
proof -
  have s: "step1 (Response fo) w = showActive1 url (or_unknown item) (response_arrives w)"
    using assms(1-3) by (rule step1_offer)
  have c: "\<not> (lastItemId (response_arrives w) = Some (or_unknown item) \<and>
      lastFormUrl (response_arrives w) = Some url)"
    using assms(4) by simp
  note obs = showActive1_obs [OF c]
  show "src_log (page (step1 (Response fo) w)) = src_log (page w) @ [url]"
    and "frame_src (page (step1 (Response fo) w)) = Some url"
    and "lastItemId (step1 (Response fo) w) = Some (or_unknown item)"
    and "lastFormUrl (step1 (Response fo) w) = Some url"
    and "display_state (step1 (Response fo) w) = ActiveLoading"
    by (simp_all add: s obs display_state_def)
  have "location_href (page (step1 (Response fo) w)) = None"
    using assms(1) by (simp add: s obs)
  then have "step1 FrameLoad (step1 (Response fo) w) = onload1 (step1 (Response fo) w)"
    by (rule step1_frameload)
  then show "display_state (step1 FrameLoad (step1 (Response fo) w)) = ActiveLoaded"
    by (simp add: s obs onload1_obs display_state_def)
qed

lemma change2:
  assumes "0 < inflight w" "offers fo url item"
    and "\<not> (lastItemId w = Some (or_unknown item) \<and> lastFormUrl w = Some url)"
  shows "src_log (page (step2 (Response fo) w)) = src_log (page w) @ [url]"
    and "frame_src (page (step2 (Response fo) w)) = Some url"
    and "lastItemId (step2 (Response fo) w) = Some (or_unknown item)"
    and "lastFormUrl (step2 (Response fo) w) = Some url"
    and "display_state (step2 (Response fo) w) = ActiveLoading"
    and "display_state (step2 FrameLoad (step2 (Response fo) w)) = ActiveLoaded"
proof -
  have s: "step2 (Response fo) w = showActive2 url (or_unknown item) (response_arrives w)"
    using assms(1,2) by (rule step2_offer)
  show "src_log (page (step2 (Response fo) w)) = src_log (page w) @ [url]"
    and "frame_src (page (step2 (Response fo) w)) = Some url"
    and "lastItemId (step2 (Response fo) w) = Some (or_unknown item)"
    and "lastFormUrl (step2 (Response fo) w) = Some url"
    and "display_state (step2 (Response fo) w) = ActiveLoading"
    and "display_state (step2 FrameLoad (step2 (Response fo) w)) = ActiveLoaded"
    using assms(3)
    by (auto simp: s showActive2_obs display_state_def step2.simps(3) onload2_def)
qed

lemma change3:
  assumes "0 < inflight w" "offers fo url item"
    and "\<not> (lastItemId w = Some (or_unknown item) \<and> lastFormUrl w = Some url)"
  shows "src_log (page (step3 resolveUrl (Response fo) w)) =
           (if get_src resolveUrl w \<noteq> url then src_log (page w) @ [url] else src_log (page w))"
    and "lastItemId (step3 resolveUrl (Response fo) w) = Some (or_unknown item)"
    and "lastFormUrl (step3 resolveUrl (Response fo) w) = Some url"
    and "display_state (step3 resolveUrl (Response fo) w) = ActiveLoading"
    and "display_state (step3 resolveUrl FrameLoad (step3 resolveUrl (Response fo) w)) =
           ActiveLoaded"
proof -
  have s: "step3 resolveUrl (Response fo) w =
      showActive3 resolveUrl url (or_unknown item) (response_arrives w)"
    using assms(1,2) by (rule step3_offer)
  have c: "\<not> (isActive (response_arrives w) \<and>
      lastItemId (response_arrives w) = Some (or_unknown item) \<and>
      lastFormUrl (response_arrives w) = Some url)"
    using assms(3) by simp
  note obs = showActive3_obs [OF c]
  have g: "get_src resolveUrl (response_arrives w) = get_src resolveUrl w"
    by (simp add: get_src_def)
  show "src_log (page (step3 resolveUrl (Response fo) w)) =
      (if get_src resolveUrl w \<noteq> url then src_log (page w) @ [url] else src_log (page w))"
    and "lastItemId (step3 resolveUrl (Response fo) w) = Some (or_unknown item)"
    and "lastFormUrl (step3 resolveUrl (Response fo) w) = Some url"
    and "display_state (step3 resolveUrl (Response fo) w) = ActiveLoading"
    and "display_state (step3 resolveUrl FrameLoad (step3 resolveUrl (Response fo) w)) =
      ActiveLoaded"
    by (simp_all add: s obs g display_state_def step3.simps(3) onload3_obs)
qed

lemma change4:
  assumes "0 < inflight w" "offers fo url item" and "lastFormUrl w \<noteq> Some url"
  shows "src_log (page (step4 resolveUrl (Response fo) w)) =
           (if get_src resolveUrl w \<noteq> url then src_log (page w) @ [url] else src_log (page w))"
    and "lastItemId (step4 resolveUrl (Response fo) w) = item"
    and "lastFormUrl (step4 resolveUrl (Response fo) w) = Some url"
    and "display_state (step4 resolveUrl (Response fo) w) = ActiveLoading"
    and "display_state (step4 resolveUrl FrameLoad (step4 resolveUrl (Response fo) w)) =
           ActiveLoaded"
proof -
  have s: "step4 resolveUrl (Response fo) w =
      showActive4 resolveUrl (Some url) item (response_arrives w)"
    using assms(1,2) by (rule step4_offer)
  have u: "url \<noteq> []" using assms(2) by (rule offers_nonempty)
  have g: "get_src resolveUrl (response_arrives w) = get_src resolveUrl w"
    by (simp add: get_src_def)
  show "src_log (page (step4 resolveUrl (Response fo) w)) =
      (if get_src resolveUrl w \<noteq> url then src_log (page w) @ [url] else src_log (page w))"
    and "lastItemId (step4 resolveUrl (Response fo) w) = item"
    and "lastFormUrl (step4 resolveUrl (Response fo) w) = Some url"
    and "display_state (step4 resolveUrl (Response fo) w) = ActiveLoading"
    and "display_state (step4 resolveUrl FrameLoad (step4 resolveUrl (Response fo) w)) =
      ActiveLoaded"
    using assms(3) u
    by (simp_all add: s showActive4_session withUrl4_obs g display_state_def step4.simps(3)
        onload3_obs)
qed

lemma display_loaded_iff:
  "display_state w = ActiveLoaded \<longleftrightarrow> hidden (page w) idle_el \<and> hidden (page w) loading_el"
  by (simp add: display_state_def)

lemma showActive1_not_loaded:
  "display_state w \<noteq> ActiveLoaded \<Longrightarrow> display_state (showActive1 url item w) \<noteq> ActiveLoaded"
  by (cases "lastItemId w = Some item \<and> lastFormUrl w = Some url")
    (simp_all add: showActive1_same showActive1_obs display_loaded_iff)

lemma showActive2_not_loaded:
  "display_state w \<noteq> ActiveLoaded \<Longrightarrow> display_state (showActive2 url item w) \<noteq> ActiveLoaded"
  by (simp add: showActive2_obs display_loaded_iff)

lemma showActive3_not_loaded:
  "display_state w \<noteq> ActiveLoaded \<Longrightarrow>
   display_state (showActive3 resolveUrl url item w) \<noteq> ActiveLoaded"
  by (cases "isActive w \<and> lastItemId w = Some item \<and> lastFormUrl w = Some url")
    (simp_all add: showActive3_same showActive3_obs resetActiveTimer_obs display_loaded_iff)

lemma showActive4_not_loaded:
  "display_state w \<noteq> ActiveLoaded \<Longrightarrow>
   display_state (showActive4 resolveUrl furl item w) \<noteq> ActiveLoaded"
  by (simp add: showActive4_session withUrl4_obs withoutUrl4_obs display_loaded_iff
      split: option.splits)

lemma showIdle_not_loaded:
  "display_state (showIdle1 w1) \<noteq> ActiveLoaded"
  "display_state (showIdle2 w2) \<noteq> ActiveLoaded"
  "display_state (showIdle3 w3) \<noteq> ActiveLoaded"
  "display_state w4 \<noteq> ActiveLoaded \<Longrightarrow> display_state (showIdle4 w4) \<noteq> ActiveLoaded"
     apply (simp add: showIdle1_obs display_loaded_iff)
    apply (simp add: showIdle2_obs display_loaded_iff)
   apply (simp add: showIdle3_idle)
  apply (cases "isActive w4"; simp add: showIdle4_obs showIdle4_already display_loaded_iff)
  done

lemma loaded_only_by_onload1:
  assumes "display_state w \<noteq> ActiveLoaded" "display_state (step1 e w) = ActiveLoaded"
  shows "e = FrameLoad \<or> location_href (page (step1 e w)) \<noteq> None"
proof (cases "location_href (page w) = None")
  case False
  with assms show ?thesis by (simp add: step1.simps)
next
  case loaded: True
  have d0: "display_state (response_arrives w) \<noteq> ActiveLoaded"
    using assms(1) by simp
  have r: "\<exists>w'. pollLoop1 fo (response_arrives w) = Inr w' \<and> display_state w' \<noteq> ActiveLoaded"
    for fo
    by (rule pollLoop1_cases)
      (simp_all add: showIdle_not_loaded showActive1_not_loaded [OF d0])
  have cb: "display_state (run_callback1 cb (expire i w)) \<noteq> ActiveLoaded \<or>
      location_href (page (run_callback1 cb (expire i w))) \<noteq> None" for cb i
    using assms(1)
    by (cases cb) (simp_all add: showIdle_not_loaded switchToRedirect_obs)
  show ?thesis
  proof (cases e)
    case (Response fo)
    with assms loaded r [of fo] show ?thesis
      by (auto simp: step1.simps split: if_splits)
  next
    case (TimerFire i)
    with assms loaded cb show ?thesis
      by (auto simp: step1.simps simp del: run_callback1.simps split: option.splits)
  next
    case FrameLoad
    then show ?thesis by simp
  next
    case (Visibility h)
    with assms loaded show ?thesis by (simp add: step1.simps)
  next
    case (Advance d)
    with assms loaded show ?thesis by (simp add: step1.simps)
  qed
qed

lemma loaded_only_by_onload2:
  assumes "display_state w \<noteq> ActiveLoaded" "display_state (step2 e w) = ActiveLoaded"
  shows "e = FrameLoad"
proof -
  have d0: "display_state (response_arrives w) \<noteq> ActiveLoaded"
    using assms(1) by simp
  have r: "\<exists>w'. pollOnce2 fo (response_arrives w) = Inr w' \<and> display_state w' \<noteq> ActiveLoaded"
    for fo
    by (rule pollOnce2_cases)
      (simp_all add: showIdle_not_loaded showActive2_not_loaded [OF d0])
  have cb: "display_state (run_callback2 cb (expire i w)) \<noteq> ActiveLoaded" for cb i
    using assms(1) by (cases cb) (simp_all add: showIdle_not_loaded)
  show ?thesis
  proof (cases e)
    case (Response fo)
    with assms r [of fo] show ?thesis
      by (auto simp: step2.simps split: if_splits)
  next
    case (TimerFire i)
    with assms cb show ?thesis
      by (auto simp: step2.simps simp del: run_callback2.simps split: option.splits)
  next
    case FrameLoad
    then show ?thesis by simp
  next
    case (Visibility h)
    with assms show ?thesis by (simp add: step2.simps)
  next
    case (Advance d)
    with assms show ?thesis by (simp add: step2.simps)
  qed
qed

lemma visibility_display:
  "display_state (onVisibilityChange ms h w) = display_state w"
  by (simp add: onVisibilityChange_def display_state_def startPolling_obs stopPolling_obs)

lemma loaded_only_by_onload3:
  assumes "display_state w \<noteq> ActiveLoaded"
    and "display_state (step3 resolveUrl e w) = ActiveLoaded"
  shows "e = FrameLoad"
proof -
  have d0: "display_state (response_arrives w) \<noteq> ActiveLoaded"
    using assms(1) by simp
  have r: "\<exists>w'. pollOnce3 resolveUrl fo (response_arrives w) = Inr w' \<and>
      display_state w' \<noteq> ActiveLoaded" for fo
    by (rule pollOnce3_cases)
      (simp_all add: showIdle_not_loaded showActive3_not_loaded [OF d0])
  have cb: "display_state (run_callback3 cb (expire i w)) \<noteq> ActiveLoaded" for cb i
    using assms(1) by (cases cb) (simp_all add: showIdle_not_loaded)
  show ?thesis
  proof (cases e)
    case (Response fo)
    with assms r [of fo] show ?thesis
      by (auto simp: step3.simps split: if_splits)
  next
    case (TimerFire i)
    with assms cb show ?thesis
      by (auto simp: step3.simps simp del: run_callback3.simps split: option.splits)
  next
    case FrameLoad
    then show ?thesis by simp
  next
    case (Visibility h)
    with assms show ?thesis by (simp add: step3.simps visibility_display)
  next
    case (Advance d)
    with assms show ?thesis by (simp add: step3.simps)
  qed
qed

lemma loaded_only_by_onload4:
  assumes "display_state w \<noteq> ActiveLoaded"
    and "display_state (step4 resolveUrl e w) = ActiveLoaded"
  shows "e = FrameLoad"
proof -
  have d0: "display_state (response_arrives w) \<noteq> ActiveLoaded"
    using assms(1) by simp
  have r: "\<exists>w'. pollOnce4 resolveUrl fo (response_arrives w) = Inr w' \<and>
      display_state w' \<noteq> ActiveLoaded" for fo
    by (rule pollOnce4_cases)
      (simp_all add: showIdle_not_loaded(4) [OF d0] showActive4_not_loaded [OF d0] assms(1))
  have cb: "display_state (run_callback4 cb (expire i w)) \<noteq> ActiveLoaded" for cb i
    using assms(1) by (cases cb) (simp_all add: showIdle_not_loaded)
  show ?thesis
  proof (cases e)
    case (Response fo)
    with assms r [of fo] show ?thesis
      by (auto simp: step4.simps split: if_splits)
  next
    case (TimerFire i)
    with assms cb show ?thesis
      by (auto simp: step4.simps simp del: run_callback4.simps split: option.splits)
  next
    case FrameLoad
    then show ?thesis by simp
  next
    case (Visibility h)
    with assms show ?thesis by (simp add: step4.simps visibility_display)
  next
    case (Advance d)
    with assms show ?thesis by (simp add: step4.simps)
  qed
qed

lemma busy_loaded:
  "display_state (step1 FrameLoad busy1) = ActiveLoaded"
  "display_state (step2 FrameLoad busy2) = ActiveLoaded"
  "display_state (step3 id FrameLoad busy3) = ActiveLoaded"
  "display_state (step4 id FrameLoad busy4) = ActiveLoaded"
     apply (simp add: step1_frameload busy1_facts)
     apply (simp add: busy1_is showActive1_obs startup1_obs onload1_obs display_state_def)
    apply (simp add: step2.simps(3) busy2_is showActive2_obs startup2_obs onload2_def
      display_state_def)
   apply (simp add: step3.simps(3) busy3_is showActive3_obs startup3_obs onload3_obs
      display_state_def)
  apply (simp add: step4.simps(3) busy4_is showActive4_session withUrl4_obs startup4_obs
      onload3_obs display_state_def)
  done

lemma busy_src:
  "get_src id busy3 = ''https://x/f''" "get_src id busy4 = ''https://x/f''"
  by (simp_all add: get_src_def busy3_is busy4_is showActive3_obs showActive4_session
      withUrl4_obs startup3_obs startup4_obs)

lemma warm3_is: "warm3 = showIdle3 busy3"
  by (simp add: warm3_def step3_tick [of _ _ 500] step3_off busy3_facts arrives_after_send)

lemma warm3_reachable: "reachable3 id warm3"
  unfolding warm3_def by (intro reachable3_run busy3_reachable)

lemma warm3_facts:
  "inflight warm3 = 1" "lastFormUrl warm3 = None" "lastItemId warm3 = None"
  "display_state warm3 = Idle" "src_log (page warm3) = [''https://x/f'']"
  "get_src id warm3 = ''https://x/f''"
  by (simp_all add: warm3_is showIdle3_obs busy3_facts display_state_def get_src_def
      busy_src [unfolded get_src_def])

text \<open>
  C3, as amended. A poll cycle that returns an active record with a non-empty form URL
  and whose (item id, URL) pair differs from the session replaces the session by the new
  pair and puts the display in ActiveLoading; a load notification of the frame then
  makes it ActiveLoaded. In the two halves of script.js the cycle assigns the URL to the
  frame exactly once. In the two adaptive-polling scripts it assigns it exactly once
  unless the frame's \<^verbatim>\<open>src\<close> already reads as that URL, in which case it assigns
  nothing (the re-optimised script takes the URL alone as the session's identity). In all
  four scripts no event other than the frame's load notification takes a display that is
  not ActiveLoaded to ActiveLoaded, except that in the first script the grace timer may
  instead replace the whole page.
\<close>

theorem C3_session_change:
  "(location_href (page w1) = None \<and> 0 < inflight w1 \<and> offers fo1 url1 item1 \<and>
      \<not> (lastItemId w1 = Some (or_unknown item1) \<and> lastFormUrl w1 = Some url1) \<longrightarrow>
      src_log (page (step1 (Response fo1) w1)) = src_log (page w1) @ [url1] \<and>
      frame_src (page (step1 (Response fo1) w1)) = Some url1 \<and>
      lastItemId (step1 (Response fo1) w1) = Some (or_unknown item1) \<and>
      lastFormUrl (step1 (Response fo1) w1) = Some url1 \<and>
      display_state (step1 (Response fo1) w1) = ActiveLoading \<and>
      display_state (step1 FrameLoad (step1 (Response fo1) w1)) = ActiveLoaded) \<and>
   (0 < inflight w2 \<and> offers fo2 url2 item2 \<and>
      \<not> (lastItemId w2 = Some (or_unknown item2) \<and> lastFormUrl w2 = Some url2) \<longrightarrow>
      src_log (page (step2 (Response fo2) w2)) = src_log (page w2) @ [url2] \<and>
      frame_src (page (step2 (Response fo2) w2)) = Some url2 \<and>
      lastItemId (step2 (Response fo2) w2) = Some (or_unknown item2) \<and>
      lastFormUrl (step2 (Response fo2) w2) = Some url2 \<and>
      display_state (step2 (Response fo2) w2) = ActiveLoading \<and>
      display_state (step2 FrameLoad (step2 (Response fo2) w2)) = ActiveLoaded) \<and>
   (0 < inflight w3 \<and> offers fo3 url3 item3 \<and>
      \<not> (lastItemId w3 = Some (or_unknown item3) \<and> lastFormUrl w3 = Some url3) \<longrightarrow>
      src_log (page (step3 resolveUrl (Response fo3) w3)) =
        (if get_src resolveUrl w3 \<noteq> url3 then src_log (page w3) @ [url3]
         else src_log (page w3)) \<and>
      lastItemId (step3 resolveUrl (Response fo3) w3) = Some (or_unknown item3) \<and>
      lastFormUrl (step3 resolveUrl (Response fo3) w3) = Some url3 \<and>
      display_state (step3 resolveUrl (Response fo3) w3) = ActiveLoading \<and>
      display_state (step3 resolveUrl FrameLoad (step3 resolveUrl (Response fo3) w3)) =
        ActiveLoaded) \<and>
   (0 < inflight w4 \<and> offers fo4 url4 item4 \<and> lastFormUrl w4 \<noteq> Some url4 \<longrightarrow>
      src_log (page (step4 resolveUrl (Response fo4) w4)) =
        (if get_src resolveUrl w4 \<noteq> url4 then src_log (page w4) @ [url4]
         else src_log (page w4)) \<and>
      lastItemId (step4 resolveUrl (Response fo4) w4) = item4 \<and>
      lastFormUrl (step4 resolveUrl (Response fo4) w4) = Some url4 \<and>
      display_state (step4 resolveUrl (Response fo4) w4) = ActiveLoading \<and>
      display_state (step4 resolveUrl FrameLoad (step4 resolveUrl (Response fo4) w4)) =
        ActiveLoaded) \<and>
   (display_state v1 \<noteq> ActiveLoaded \<and> display_state (step1 e1 v1) = ActiveLoaded \<longrightarrow>
      e1 = FrameLoad \<or> location_href (page (step1 e1 v1)) \<noteq> None) \<and>
   (display_state v2 \<noteq> ActiveLoaded \<and> display_state (step2 e2 v2) = ActiveLoaded \<longrightarrow>
      e2 = FrameLoad) \<and>
   (display_state v3 \<noteq> ActiveLoaded \<and>
      display_state (step3 resolveUrl e3 v3) = ActiveLoaded \<longrightarrow> e3 = FrameLoad) \<and>
   (display_state v4 \<noteq> ActiveLoaded \<and>
      display_state (step4 resolveUrl e4 v4) = ActiveLoaded \<longrightarrow> e4 = FrameLoad)"
proof -
  have c1: "location_href (page w1) = None \<and> 0 < inflight w1 \<and> offers fo1 url1 item1 \<and>
      \<not> (lastItemId w1 = Some (or_unknown item1) \<and> lastFormUrl w1 = Some url1) \<longrightarrow>
      src_log (page (step1 (Response fo1) w1)) = src_log (page w1) @ [url1] \<and>
      frame_src (page (step1 (Response fo1) w1)) = Some url1 \<and>
      lastItemId (step1 (Response fo1) w1) = Some (or_unknown item1) \<and>
      lastFormUrl (step1 (Response fo1) w1) = Some url1 \<and>
      display_state (step1 (Response fo1) w1) = ActiveLoading \<and>
      display_state (step1 FrameLoad (step1 (Response fo1) w1)) = ActiveLoaded"
    using change1 [of w1 fo1 url1 item1] by blast
  have c2: "0 < inflight w2 \<and> offers fo2 url2 item2 \<and>
      \<not> (lastItemId w2 = Some (or_unknown item2) \<and> lastFormUrl w2 = Some url2) \<longrightarrow>
      src_log (page (step2 (Response fo2) w2)) = src_log (page w2) @ [url2] \<and>
      frame_src (page (step2 (Response fo2) w2)) = Some url2 \<and>
      lastItemId (step2 (Response fo2) w2) = Some (or_unknown item2) \<and>
      lastFormUrl (step2 (Response fo2) w2) = Some url2 \<and>
      display_state (step2 (Response fo2) w2) = ActiveLoading \<and>
      display_state (step2 FrameLoad (step2 (Response fo2) w2)) = ActiveLoaded"
    using change2 [of w2 fo2 url2 item2] by blast
  have c3: "0 < inflight w3 \<and> offers fo3 url3 item3 \<and>
      \<not> (lastItemId w3 = Some (or_unknown item3) \<and> lastFormUrl w3 = Some url3) \<longrightarrow>
      src_log (page (step3 resolveUrl (Response fo3) w3)) =
        (if get_src resolveUrl w3 \<noteq> url3 then src_log (page w3) @ [url3]
         else src_log (page w3)) \<and>
      lastItemId (step3 resolveUrl (Response fo3) w3) = Some (or_unknown item3) \<and>
      lastFormUrl (step3 resolveUrl (Response fo3) w3) = Some url3 \<and>
      display_state (step3 resolveUrl (Response fo3) w3) = ActiveLoading \<and>
      display_state (step3 resolveUrl FrameLoad (step3 resolveUrl (Response fo3) w3)) =
        ActiveLoaded"
    using change3 [of w3 fo3 url3 item3 resolveUrl] by blast
  have c4: "0 < inflight w4 \<and> offers fo4 url4 item4 \<and> lastFormUrl w4 \<noteq> Some url4 \<longrightarrow>
      src_log (page (step4 resolveUrl (Response fo4) w4)) =
        (if get_src resolveUrl w4 \<noteq> url4 then src_log (page w4) @ [url4]
         else src_log (page w4)) \<and>
      lastItemId (step4 resolveUrl (Response fo4) w4) = item4 \<and>
      lastFormUrl (step4 resolveUrl (Response fo4) w4) = Some url4 \<and>
      display_state (step4 resolveUrl (Response fo4) w4) = ActiveLoading \<and>
      display_state (step4 resolveUrl FrameLoad (step4 resolveUrl (Response fo4) w4)) =
        ActiveLoaded"
    using change4 [of w4 fo4 url4 item4 resolveUrl] by blast
  show ?thesis
    using c1 c2 c3 c4 loaded_only_by_onload1 [of v1 e1] loaded_only_by_onload2 [of v2 e2]
      loaded_only_by_onload3 [of v3 resolveUrl e3] loaded_only_by_onload4 [of v4 resolveUrl e4]
    by blast
qed

theorem C3_session_change_witness:
  "location_href (page busy1) = None \<and> 0 < inflight busy1 \<and>
   offers (Http 200 (Parsed (Some record43))) ''https://x/g'' (Some ''43'') \<and>
   lastFormUrl busy1 = Some ''https://x/f'' \<and>
   src_log (page (step1 (serves record43) busy1)) = [''https://x/f'', ''https://x/g''] \<and>
   lastItemId (step1 (serves record43) busy1) = Some ''43'' \<and>
   lastFormUrl (step1 (serves record43) busy1) = Some ''https://x/g'' \<and>
   display_state (step1 (serves record43) busy1) = ActiveLoading \<and>
   display_state (step1 FrameLoad (step1 (serves record43) busy1)) = ActiveLoaded \<and>
   0 < inflight busy2 \<and> lastFormUrl busy2 = Some ''https://x/f'' \<and>
   src_log (page (step2 (serves record43) busy2)) = [''https://x/f'', ''https://x/g''] \<and>
   display_state (step2 (serves record43) busy2) = ActiveLoading \<and>
   0 < inflight busy3 \<and> lastFormUrl busy3 = Some ''https://x/f'' \<and>
   src_log (page (step3 id (serves record43) busy3)) = [''https://x/f'', ''https://x/g''] \<and>
   display_state (step3 id (serves record43) busy3) = ActiveLoading \<and>
   0 < inflight busy4 \<and> lastFormUrl busy4 = Some ''https://x/f'' \<and>
   src_log (page (step4 id (serves record43) busy4)) = [''https://x/f'', ''https://x/g''] \<and>
   display_state (step4 id (serves record43) busy4) = ActiveLoading \<and>
   display_state busy1 = ActiveLoading \<and> display_state (step1 FrameLoad busy1) = ActiveLoaded \<and>
   display_state busy2 = ActiveLoading \<and> display_state (step2 FrameLoad busy2) = ActiveLoaded \<and>
   display_state busy3 = ActiveLoading \<and> display_state (step3 id FrameLoad busy3) = ActiveLoaded \<and>
   display_state busy4 = ActiveLoading \<and> display_state (step4 id FrameLoad busy4) = ActiveLoaded"
  using C3_session_change [of busy1 "Http 200 (Parsed (Some record43))" "''https://x/g''"
      "Some ''43''" busy2 "Http 200 (Parsed (Some record43))" "''https://x/g''" "Some ''43''"
      busy3 "Http 200 (Parsed (Some record43))" "''https://x/g''" "Some ''43''" id
      busy4 "Http 200 (Parsed (Some record43))" "''https://x/g''" "Some ''43''"
      busy1 FrameLoad busy2 FrameLoad busy3 FrameLoad busy4 FrameLoad]
  by (simp add: busy1_facts busy2_facts busy3_facts busy4_facts busy_loaded busy_src serves_def
      or_unknown_def)

text \<open>
  The claim as first stated fails in the warm-iframe script: the idle screen is up and
  the session empty, the hidden frame still holds the form of item 42, and the record
  of item 42 arrives again. The session changes, yet nothing is assigned to the frame.
\<close>

theorem C3_counterexample:
  "reachable3 id warm3 \<and> 0 < inflight warm3 \<and>
   offers (Http 200 (Parsed (Some record42))) ''https://x/f'' (Some ''42'') \<and>
   lastFormUrl warm3 = None \<and> lastItemId warm3 = None \<and>
   lastFormUrl (step3 id (serves record42) warm3) = Some ''https://x/f'' \<and>
   src_log (page (step3 id (serves record42) warm3)) = src_log (page warm3)"
  using warm3_reachable
    change3 [of warm3 "Http 200 (Parsed (Some record42))" "''https://x/f''" "Some ''42''" id]
  by (simp add: warm3_facts serves_def)

end
